theory Spec2Isabelle
  imports Complex_Main "HOL-Library.Sublist"
begin

section \<open>JavaScript strings and numbers\<close>

text \<open>
  A JavaScript string is modelled as a \<^typ>\<open>string\<close>: a list of code units, each below
  256 (the Latin-1 range). \<open>String.prototype.trim\<close> and the regular-expression class
  \<open>\s\<close> remove the same white space; in this range it is TAB, LF, VT, FF, CR, SPACE
  and the no-break space U+00A0.
\<close>

definition is_ws :: "char \<Rightarrow> bool" where
  "is_ws c = (c = CHR 0x09 \<or> c = CHR 0x0A \<or> c = CHR 0x0B \<or> c = CHR 0x0C \<or>
              c = CHR 0x0D \<or> c = CHR 0x20 \<or> c = CHR 0xA0)"

text \<open>\<open>s.trim()\<close>.\<close>

definition trim :: "string \<Rightarrow> string" where
  "trim s = rev (dropWhile is_ws (rev (dropWhile is_ws s)))"

text \<open>
  \<open>s.toLowerCase()\<close>: the letters A-Z and the Latin-1 capitals U+00C0..U+00DE (without
  the multiplication sign U+00D7) move up by 32, which sets bit 5 of the code unit.
\<close>

definition is_upper :: "char \<Rightarrow> bool" where
  "is_upper c = (let n = (of_char c :: nat) in
     (65 \<le> n \<and> n \<le> 90) \<or> (192 \<le> n \<and> n \<le> 222 \<and> n \<noteq> 215))"

definition lower_char :: "char \<Rightarrow> char" where
  "lower_char c = (if is_upper c
     then (case c of Char b0 b1 b2 b3 b4 b5 b6 b7 \<Rightarrow> Char b0 b1 b2 b3 b4 True b6 b7)
     else c)"

definition toLowerCase :: "string \<Rightarrow> string" where
  "toLowerCase s = map lower_char s"

text \<open>\<open>s.includes(needle)\<close>: \<open>needle\<close> occurs in \<open>s\<close> as a contiguous run.\<close>

fun str_includes :: "string \<Rightarrow> string \<Rightarrow> bool" where
  "str_includes [] needle = (needle = [])"
| "str_includes (c # cs) needle = (prefix needle (c # cs) \<or> str_includes cs needle)"

text \<open>\<open>parts.join(sep)\<close>.\<close>

fun join :: "string \<Rightarrow> string list \<Rightarrow> string" where
  "join sep [] = []"
| "join sep [x] = x"
| "join sep (x # y # ys) = x @ sep @ join sep (y # ys)"

text \<open>
  A JavaScript number: a finite value, taken as a real number with exact arithmetic, or
  one of the three values that \<open>Number.isFinite\<close> rejects.
\<close>

datatype number = Finite real | NaN | PosInfinity | NegInfinity

section \<open>The answer contract (queryContract.ts)\<close>

datatype QueryType = Fact | Timeline | StateChange | CausalChain | Evidence | Comparison

datatype AnswerMode = Kg | Ntg | Hybrid | BaselineRag

record StructuredAnswerCore =
  answerText :: string
  modeUsed :: AnswerMode
  queryType :: QueryType
  confidence :: number
  entitiesUsed :: "string list"
  eventsUsed :: "string list"
  stateChangesUsed :: "string list"
  evidenceRefs :: "string list"
  reasoningNotes :: string

text \<open>
  \<open>clampConfidence\<close>: a value that is not finite becomes 0, a finite one is clamped
  into the interval from 0 to 1.
\<close>

definition clampConfidence :: "number \<Rightarrow> number" where
  "clampConfidence v = (case v of Finite r \<Rightarrow> Finite (max 0 (min 1 r)) | _ \<Rightarrow> Finite 0)"

text \<open>
  \<open>uniqueStrings\<close>: the loop over \<open>values\<close> with its two variables, the output list
  \<open>out\<close> and the set \<open>seen\<close>. A value that is empty after trimming, or already seen,
  is skipped.
\<close>

fun uniqueStrings_loop :: "string list \<Rightarrow> string list \<Rightarrow> string set \<Rightarrow> string list" where
  "uniqueStrings_loop [] out seen = out"
| "uniqueStrings_loop (v0 # rest) out seen =
     (let v = trim v0 in
      if v = [] \<or> v \<in> seen then uniqueStrings_loop rest out seen
      else uniqueStrings_loop rest (out @ [v]) (insert v seen))"

definition uniqueStrings :: "string list \<Rightarrow> string list" where
  "uniqueStrings vs = uniqueStrings_loop vs [] {}"

text \<open>
  What \<open>uniqueStrings\<close> returns: a list without duplicates whose members are not
  empty and already trimmed.
\<close>

definition clean :: "string list \<Rightarrow> bool" where
  "clean ys = (distinct ys \<and> list_all (\<lambda>v. v \<noteq> [] \<and> trim v = v) ys)"

definition normalizeStructuredAnswer :: "StructuredAnswerCore \<Rightarrow> StructuredAnswerCore" where
  "normalizeStructuredAnswer input = \<lparr>
     answerText = trim (answerText input),
     modeUsed = modeUsed input,
     queryType = queryType input,
     confidence = clampConfidence (confidence input),
     entitiesUsed = uniqueStrings (entitiesUsed input),
     eventsUsed = uniqueStrings (eventsUsed input),
     stateChangesUsed = uniqueStrings (stateChangesUsed input),
     evidenceRefs = uniqueStrings (evidenceRefs input),
     reasoningNotes = trim (reasoningNotes input) \<rparr>"

section \<open>More string and number operations\<close>

text \<open>\<open>s.trimEnd()\<close>.\<close>

definition trimEnd :: "string \<Rightarrow> string" where
  "trimEnd s = rev (dropWhile is_ws (rev s))"

text \<open>\<open>s.startsWith(p)\<close> is \<^term>\<open>prefix p s\<close>.\<close>

definition startsWith :: "string \<Rightarrow> string \<Rightarrow> bool" where
  "startsWith s p = prefix p s"

text \<open>
  The word characters of a regular expression without the unicode flag,
  \<open>[A-Za-z0-9_]\<close>, and the letters and digits \<open>[A-Za-z0-9]\<close>.
\<close>

definition is_digit :: "char \<Rightarrow> bool" where
  "is_digit c = (let n = (of_char c :: nat) in 48 \<le> n \<and> n \<le> 57)"

definition is_alnum :: "char \<Rightarrow> bool" where
  "is_alnum c = (let n = (of_char c :: nat) in
     (48 \<le> n \<and> n \<le> 57) \<or> (65 \<le> n \<and> n \<le> 90) \<or> (97 \<le> n \<and> n \<le> 122))"

definition is_word_char :: "char \<Rightarrow> bool" where
  "is_word_char c = (is_alnum c \<or> c = CHR ''_'')"

text \<open>
  \<open>/\bw\b/.test(q)\<close> for a word \<open>w\<close> of word characters: \<open>w\<close> occurs in \<open>q\<close> with no
  word character right before it and none right after it. The flag \<open>prev\<close> says that
  the character before the current position is a word character.
\<close>

definition boundary_after :: "string \<Rightarrow> bool" where
  "boundary_after rest = (case rest of [] \<Rightarrow> True | d # _ \<Rightarrow> \<not> is_word_char d)"

fun has_word_from :: "bool \<Rightarrow> string \<Rightarrow> string \<Rightarrow> bool" where
  "has_word_from prev w [] = False"
| "has_word_from prev w (c # cs) =
     ((\<not> prev \<and> prefix w (c # cs) \<and> boundary_after (drop (length w) (c # cs))) \<or>
      has_word_from (is_word_char c) w cs)"

definition has_word :: "string \<Rightarrow> string \<Rightarrow> bool" where
  "has_word w q = has_word_from False w q"

text \<open>
  \<open>s.split(/\s+/)\<close>: the pieces between the runs of white space, with an empty piece
  at an end where the string starts or ends with white space.
\<close>

fun split_ws_from :: "bool \<Rightarrow> string \<Rightarrow> string \<Rightarrow> string list" where
  "split_ws_from insep cur [] = [cur]"
| "split_ws_from insep cur (c # cs) =
     (if is_ws c then (if insep then split_ws_from True cur cs else cur # split_ws_from True [] cs)
      else split_ws_from False (cur @ [c]) cs)"

definition split_ws :: "string \<Rightarrow> string list" where
  "split_ws s = split_ws_from False [] s"

text \<open>\<open>s.replace(/\s+/g, ' ')\<close>: every run of white space becomes one space.\<close>

fun collapse_ws_from :: "bool \<Rightarrow> string \<Rightarrow> string" where
  "collapse_ws_from insep [] = []"
| "collapse_ws_from insep (c # cs) =
     (if is_ws c then (if insep then collapse_ws_from True cs else CHR '' '' # collapse_ws_from True cs)
      else c # collapse_ws_from False cs)"

definition collapse_ws :: "string \<Rightarrow> string" where
  "collapse_ws s = collapse_ws_from False s"

text \<open>
  The default order of \<open>Array.prototype.sort\<close> on strings: lexicographic by code unit.
\<close>

fun str_le :: "string \<Rightarrow> string \<Rightarrow> bool" where
  "str_le [] t = True"
| "str_le (c # cs) [] = False"
| "str_le (c # cs) (d # ds) =
     ((of_char c :: nat) < of_char d \<or> (c = d \<and> str_le cs ds))"

text \<open>
  Decimal digits of a natural number and of an integer, as \<open>String(n)\<close> prints them for
  an integer of magnitude below \<open>10^21\<close>; from there on the code prints an exponent.
\<close>

definition digit_char :: "nat \<Rightarrow> char" where
  "digit_char d = ''0123456789'' ! (d mod 10)"

function showNat :: "nat \<Rightarrow> string" where
  "showNat n = (if n < 10 then [digit_char n] else showNat (n div 10) @ [digit_char (n mod 10)])"
  by pat_completeness auto
termination
  by (relation "measure id") auto

declare showNat.simps [simp del]

definition showInt :: "int \<Rightarrow> string" where
  "showInt i = (if i < 0 then CHR ''-'' # showNat (nat (- i)) else showNat (nat i))"

text \<open>
  \<open>x.toFixed(2)\<close> for a finite \<open>x\<close> of magnitude below \<open>10^21\<close>: the magnitude is
  rounded to the nearest hundredth, the larger one at a tie, and printed with two
  decimals; a negative \<open>x\<close> keeps its sign. The value rounded here is the exact one; the
  code rounds the binary fraction that stands for it, so that the last digit can differ
  when the decimal notation of \<open>x\<close> ends at a tie (0.285 prints as 0.28 in the code).
\<close>

definition toFixed2 :: "real \<Rightarrow> string" where
  "toFixed2 x = (let n = nat \<lfloor>\<bar>x\<bar> * 100 + 1 / 2\<rfloor> in
     (if x < 0 then ''-'' else '''') @ showNat (n div 100) @ ''.'' @
     [digit_char (n div 10 mod 10), digit_char (n mod 10)])"

definition numberToFixed2 :: "number \<Rightarrow> string" where
  "numberToFixed2 v = (case v of Finite r \<Rightarrow> toFixed2 r | NaN \<Rightarrow> ''NaN''
     | PosInfinity \<Rightarrow> ''Infinity'' | NegInfinity \<Rightarrow> ''-Infinity'')"

text \<open>\<open>Math.max\<close> and \<open>Math.min\<close> of two numbers, and a number times or plus a finite constant.\<close>

fun num_max :: "number \<Rightarrow> number \<Rightarrow> number" where
  "num_max NaN b = NaN"
| "num_max a NaN = NaN"
| "num_max PosInfinity b = PosInfinity"
| "num_max a PosInfinity = PosInfinity"
| "num_max NegInfinity b = b"
| "num_max a NegInfinity = a"
| "num_max (Finite x) (Finite y) = Finite (max x y)"

fun num_min :: "number \<Rightarrow> number \<Rightarrow> number" where
  "num_min NaN b = NaN"
| "num_min a NaN = NaN"
| "num_min NegInfinity b = NegInfinity"
| "num_min a NegInfinity = NegInfinity"
| "num_min PosInfinity b = b"
| "num_min a PosInfinity = a"
| "num_min (Finite x) (Finite y) = Finite (min x y)"

text \<open>The constant \<open>c\<close> is positive in every use.\<close>

definition num_times :: "number \<Rightarrow> real \<Rightarrow> number" where
  "num_times a c = (case a of Finite x \<Rightarrow> Finite (x * c) | other \<Rightarrow> other)"

definition num_plus :: "number \<Rightarrow> real \<Rightarrow> number" where
  "num_plus a c = (case a of Finite x \<Rightarrow> Finite (x + c) | other \<Rightarrow> other)"

text \<open>
  A stable sort with a comparator, as \<open>Array.prototype.sort(cmp)\<close>: \<open>a\<close> stays before
  \<open>b\<close> unless \<open>cmp a b\<close> is positive.
\<close>

fun insertBy :: "('a \<Rightarrow> 'a \<Rightarrow> int) \<Rightarrow> 'a \<Rightarrow> 'a list \<Rightarrow> 'a list" where
  "insertBy cmp x [] = [x]"
| "insertBy cmp x (y # ys) = (if cmp x y \<le> 0 then x # y # ys else y # insertBy cmp x ys)"

definition sortBy :: "('a \<Rightarrow> 'a \<Rightarrow> int) \<Rightarrow> 'a list \<Rightarrow> 'a list" where
  "sortBy cmp xs = foldr (insertBy cmp) xs []"

section \<open>Shared helpers of the answer builders (answers/shared.ts)\<close>

datatype MatchKind = Canonical | Alias | Hint

record DetectedEntityMention =
  m_entityId :: string
  m_canonicalName :: string
  m_entityType :: string
  m_matchedText :: string
  m_matchKind :: MatchKind
  m_startIndex :: nat

record AnswerBuilderContext =
  ctx_question :: string
  ctx_queryType :: QueryType
  ctx_routeReasoning :: string
  ctx_entities :: "DetectedEntityMention list"
  ctx_includeEvidence :: bool

text \<open>
  \<open>tokenize\<close>: lower case, every character outside \<open>[a-z0-9\s']\<close> becomes a space,
  split at white space, keep the tokens of length at least 2.
\<close>

definition token_char :: "char \<Rightarrow> bool" where
  "token_char c = (let n = (of_char c :: nat) in
     (97 \<le> n \<and> n \<le> 122) \<or> (48 \<le> n \<and> n \<le> 57) \<or> is_ws c \<or> c = CHR 0x27)"

definition tokenize :: "string \<Rightarrow> string list" where
  "tokenize text =
     filter (\<lambda>token. length token \<ge> 2)
       (map trim (split_ws (map (\<lambda>c. if token_char c then c else CHR '' '') (toLowerCase text))))"

definition truncateText :: "string \<Rightarrow> nat \<Rightarrow> string" where
  "truncateText text maxLen =
     (if length text \<le> maxLen then text else trimEnd (take (maxLen - 3) text) @ ''...'')"

definition overlapScore :: "string \<Rightarrow> string \<Rightarrow> nat" where
  "overlapScore query text =
     (let qTokens = set (tokenize query) in
      if qTokens = {} then 0
      else let tTokens = tokenize text in
        if tTokens = [] then 0
        else let hits = length (filter (\<lambda>token. token \<in> qTokens) tTokens);
                 substringBonus = (if str_includes (toLowerCase text) (toLowerCase (trim query)) then 2 else 0)
             in hits + substringBonus)"

definition displayEntityList :: "string list \<Rightarrow> nat \<Rightarrow> string" where
  "displayEntityList names maxItems =
     (let items = filter (\<lambda>n. n \<noteq> []) names in
      if items = [] then ''no matched entities''
      else if length items \<le> maxItems then join '', '' items
      else join '', '' (take maxItems items) @ '' (+'' @ showNat (length items - maxItems) @ '' more)'')"

definition evidenceOmittedMarker :: string where
  "evidenceOmittedMarker = ''Evidence refs omitted by request''"

definition maybeStripEvidence :: "StructuredAnswerCore \<Rightarrow> bool \<Rightarrow> StructuredAnswerCore" where
  "maybeStripEvidence answer includeEvidence =
     (if includeEvidence then answer
      else answer\<lparr> evidenceRefs := [],
                   reasoningNotes :=
                     (if str_includes (reasoningNotes answer) evidenceOmittedMarker
                      then reasoningNotes answer
                      else reasoningNotes answer @ '' Evidence refs omitted by request.'') \<rparr>)"

text \<open>The \<open>Partial<StructuredAnswerCore>\<close> of \<open>mergeAnswerCores\<close>: every field may be absent.\<close>

record AnswerOverrides =
  o_answerText :: "string option"
  o_modeUsed :: "AnswerMode option"
  o_queryType :: "QueryType option"
  o_confidence :: "number option"
  o_entitiesUsed :: "string list option"
  o_eventsUsed :: "string list option"
  o_stateChangesUsed :: "string list option"
  o_evidenceRefs :: "string list option"
  o_reasoningNotes :: "string option"

definition orElse :: "'a option \<Rightarrow> 'a \<Rightarrow> 'a" where
  "orElse v d = (case v of None \<Rightarrow> d | Some x \<Rightarrow> x)"

definition mergeAnswerCores ::
  "StructuredAnswerCore \<Rightarrow> StructuredAnswerCore \<Rightarrow> AnswerOverrides \<Rightarrow> StructuredAnswerCore" where
  "mergeAnswerCores primary secondary overrides = \<lparr>
     answerText = orElse (o_answerText overrides) (answerText primary),
     modeUsed = orElse (o_modeUsed overrides) (modeUsed primary),
     queryType = orElse (o_queryType overrides) (queryType primary),
     confidence = orElse (o_confidence overrides)
       (num_times (num_max (confidence primary) (confidence secondary)) 0.95),
     entitiesUsed = uniqueStrings
       (orElse (o_entitiesUsed overrides) [] @ entitiesUsed primary @ entitiesUsed secondary),
     eventsUsed = uniqueStrings
       (orElse (o_eventsUsed overrides) [] @ eventsUsed primary @ eventsUsed secondary),
     stateChangesUsed = uniqueStrings
       (orElse (o_stateChangesUsed overrides) [] @ stateChangesUsed primary @ stateChangesUsed secondary),
     evidenceRefs = uniqueStrings
       (orElse (o_evidenceRefs overrides) [] @ evidenceRefs primary @ evidenceRefs secondary),
     reasoningNotes = orElse (o_reasoningNotes overrides)
       (trim (reasoningNotes primary @ '' '' @ reasoningNotes secondary)) \<rparr>"

section \<open>The query router (queryRouter.ts)\<close>

datatype PreferredMode = Auto | PrefKg | PrefNtg | PrefHybrid | PrefBaselineRag | PrefBaseline

record QuerySignals =
  questionLower :: string
  hasWho :: bool
  hasWhat :: bool
  hasWhen :: bool
  hasWhy :: bool
  hasHow :: bool
  mentionsEvidence :: bool
  mentionsCompare :: bool
  mentionsRag :: bool
  mentionsStateChange :: bool
  mentionsRelationship :: bool
  mentionsTimeline :: bool
  mentionsCause :: bool
  mentionsSequence :: bool

record QueryRouteDecision =
  route_queryType :: QueryType
  route_modeUsed :: AnswerMode
  route_reasoning :: string
  route_signals :: QuerySignals
  route_entityCount :: nat

definition EVIDENCE_KEYWORDS :: "string list" where
  "EVIDENCE_KEYWORDS = [''evidence'', ''supporting scene'', ''supporting scenes'',
     ''supporting evidence'', ''what supports'', ''show supporting'', ''show proof'', ''cite'',
     ''cites'', ''proof'', ''which scene'', ''which scenes'']"

definition COMPARISON_KEYWORDS :: "string list" where
  "COMPARISON_KEYWORDS = [''compare'', ''comparison'', ''versus'', ''vs '', ''vs.'', ''baseline'',
     ''rag'', ''not just rag'', ''why is this not just rag'']"

definition STATE_CHANGE_KEYWORDS :: "string list" where
  "STATE_CHANGE_KEYWORDS = [''relationship'', ''change over time'', ''changes over time'',
     ''how does'', ''trust'', ''fear'', ''distance'', ''loyalty'', ''respect'', ''resentment'',
     ''state change'', ''trajectory'']"

definition TIMELINE_KEYWORDS :: "string list" where
  "TIMELINE_KEYWORDS = [''timeline'', ''over time'', ''in order'', ''sequence'', ''before'',
     ''after'', ''when does'', ''when did'', ''what happens first'', ''what happens next'']"

definition CAUSAL_KEYWORDS :: "string list" where
  "CAUSAL_KEYWORDS = [''lead up'', ''leads up'', ''leads to'', ''what events lead'',
     ''contributes to'', ''contribute to'', ''cause'', ''caused'', ''why did'', ''what makes'',
     ''because'']"

definition includesAny :: "string \<Rightarrow> string list \<Rightarrow> bool" where
  "includesAny text needles = list_ex (\<lambda>needle. str_includes text needle) needles"

definition extractQuerySignals :: "string \<Rightarrow> QuerySignals" where
  "extractQuerySignals question =
     (let q = toLowerCase (trim question) in \<lparr>
        questionLower = q,
        hasWho = has_word ''who'' q,
        hasWhat = has_word ''what'' q,
        hasWhen = has_word ''when'' q,
        hasWhy = has_word ''why'' q,
        hasHow = has_word ''how'' q,
        mentionsEvidence = includesAny q EVIDENCE_KEYWORDS,
        mentionsCompare = includesAny q COMPARISON_KEYWORDS,
        mentionsRag = str_includes q ''rag'',
        mentionsStateChange = includesAny q STATE_CHANGE_KEYWORDS,
        mentionsRelationship = (str_includes q ''relationship'' \<or> str_includes q ''connected to'' \<or>
                                str_includes q ''connected with''),
        mentionsTimeline = includesAny q TIMELINE_KEYWORDS,
        mentionsCause = includesAny q CAUSAL_KEYWORDS,
        mentionsSequence = (str_includes q ''sequence'' \<or> str_includes q ''in order'' \<or>
                            str_includes q ''chronolog'' \<or> str_includes q ''timeline'') \<rparr>)"

definition classifyQueryType :: "string \<Rightarrow> QueryType" where
  "classifyQueryType question =
     (let s = extractQuerySignals question; q = questionLower s in
      if mentionsCompare s then Comparison
      else if mentionsEvidence s \<or> (startsWith q ''show '' \<and> str_includes q ''scene'') then Evidence
      else if str_includes q ''relationship with'' \<or>
              str_includes q ''relationship between'' \<or>
              str_includes q ''relationship change'' \<or>
              str_includes q ''state change'' \<or>
              (str_includes q ''how does'' \<and> str_includes q ''change over time'') \<or>
              (mentionsStateChange s \<and>
                 (str_includes q ''how does'' \<or> str_includes q ''over time'' \<or> str_includes q ''trajectory''))
           then StateChange
      else if mentionsCause s then CausalChain
      else if mentionsTimeline s \<or> hasWhen s \<or> mentionsSequence s then Timeline
      else Fact)"

text \<open>
  \<open>normalizePreferredMode\<close>: the argument is a string or \<open>undefined\<close> (\<open>None\<close>). After
  trimming and lower-casing, one of the six known names is kept, anything else is \<open>auto\<close>.
\<close>

definition normalizePreferredMode :: "string option \<Rightarrow> PreferredMode" where
  "normalizePreferredMode preferredMode =
     (let raw = toLowerCase (trim (orElse preferredMode ''auto'')) in
      if raw = ''auto'' then Auto
      else if raw = ''kg'' then PrefKg
      else if raw = ''ntg'' then PrefNtg
      else if raw = ''hybrid'' then PrefHybrid
      else if raw = ''baseline_rag'' then PrefBaselineRag
      else if raw = ''baseline'' then PrefBaseline
      else Auto)"

fun preferredModeName :: "PreferredMode \<Rightarrow> string" where
  "preferredModeName Auto = ''auto''"
| "preferredModeName PrefKg = ''kg''"
| "preferredModeName PrefNtg = ''ntg''"
| "preferredModeName PrefHybrid = ''hybrid''"
| "preferredModeName PrefBaselineRag = ''baseline_rag''"
| "preferredModeName PrefBaseline = ''baseline''"

text \<open>The cast \<open>preferred as AnswerMode\<close>, reached only for the four mode names.\<close>

fun asAnswerMode :: "PreferredMode \<Rightarrow> AnswerMode" where
  "asAnswerMode PrefKg = Kg"
| "asAnswerMode PrefNtg = Ntg"
| "asAnswerMode PrefHybrid = Hybrid"
| "asAnswerMode PrefBaselineRag = BaselineRag"
| "asAnswerMode PrefBaseline = BaselineRag"
| "asAnswerMode Auto = Kg"

definition selectModeForQueryType :: "QueryType \<Rightarrow> string option \<Rightarrow> nat \<Rightarrow> AnswerMode \<times> string" where
  "selectModeForQueryType qt preferredMode entityCount =
     (let preferred = normalizePreferredMode preferredMode in
      if preferred \<noteq> Auto then
        (if preferred = PrefBaseline then (BaselineRag, ''User preferred baseline mode override.'')
         else (asAnswerMode preferred, ''User preferred '' @ preferredModeName preferred @ '' mode override.''))
      else (case qt of
          Fact \<Rightarrow> (Kg, if entityCount > 0 then ''Fact-style query with entity mention routes to KG.''
                         else ''Fact-style query defaults to KG lookup.'')
        | Timeline \<Rightarrow> (Ntg, ''Timeline/order query depends on event chronology and temporal edges (NTG).'')
        | StateChange \<Rightarrow> (Ntg, ''State-change query depends on inferred relationship shifts over time (NTG).'')
        | CausalChain \<Rightarrow> (Hybrid, ''Causal-chain query benefits from NTG chronology plus KG entity context (hybrid).'')
        | Evidence \<Rightarrow> (Hybrid, ''Evidence query can require tracing prior answer structures plus source snippets (hybrid).'')
        | Comparison \<Rightarrow> (Hybrid, ''Comparison query is best answered by contrasting graph and baseline behavior (hybrid).'')))"

definition routeQuery :: "string \<Rightarrow> string option \<Rightarrow> nat \<Rightarrow> QueryRouteDecision" where
  "routeQuery question preferredMode entityCount =
     (let signals = extractQuerySignals question;
          qt = classifyQueryType question;
          selected = selectModeForQueryType qt preferredMode entityCount
      in \<lparr> route_queryType = qt,
           route_modeUsed = fst selected,
           route_reasoning = snd selected,
           route_signals = signals,
           route_entityCount = entityCount \<rparr>)"

text \<open>The fixed default mode of each query type, as the specification lists them.\<close>

fun defaultMode :: "QueryType \<Rightarrow> AnswerMode" where
  "defaultMode Fact = Kg"
| "defaultMode Timeline = Ntg"
| "defaultMode StateChange = Ntg"
| "defaultMode CausalChain = Hybrid"
| "defaultMode Evidence = Hybrid"
| "defaultMode Comparison = Hybrid"

section \<open>Entity mention detection (queryService.ts)\<close>

record EntityDetectionLexiconEntry =
  le_entityId :: string
  le_canonicalName :: string
  le_entityType :: string
  le_phrase :: string
  le_matchKind :: MatchKind
  le_priority :: nat

definition normalizeText :: "string \<Rightarrow> string" where
  "normalizeText input = trim (collapse_ws (toLowerCase input))"

text \<open>
  The pattern \<open>(^|[^a-z0-9])(phrase)(?=$|[^a-z0-9])\<close> with the flag \<open>i\<close>, run by
  \<open>exec\<close> on the normalized question. Under the flag the class \<open>[^a-z0-9]\<close> excludes the
  capital letters too, and a character of the phrase matches a character of the text when
  both have the same lower-case form. \<open>exec\<close> returns the leftmost match, so the phrase
  starts at the least position \<open>p\<close> that has no letter or digit right before it, the
  phrase at it, and no letter or digit right after the phrase. The result is that
  position, the \<open>startIndex\<close> of the source.
\<close>

definition match_ci :: "string \<Rightarrow> string \<Rightarrow> bool" where
  "match_ci phrase s = prefix (map lower_char phrase) (map lower_char s)"

definition lookahead_ok :: "string \<Rightarrow> bool" where
  "lookahead_ok rest = (case rest of [] \<Rightarrow> True | d # _ \<Rightarrow> \<not> is_alnum d)"

fun exec_from :: "nat \<Rightarrow> bool \<Rightarrow> string \<Rightarrow> string \<Rightarrow> nat option" where
  "exec_from p clear phrase [] = (if clear \<and> phrase = [] then Some p else None)"
| "exec_from p clear phrase (c # cs) =
     (if clear \<and> match_ci phrase (c # cs) \<and> lookahead_ok (drop (length phrase) (c # cs))
      then Some p
      else exec_from (Suc p) (\<not> is_alnum c) phrase cs)"

definition exec_pattern :: "string \<Rightarrow> string \<Rightarrow> nat option" where
  "exec_pattern phrase q = exec_from 0 True phrase q"

text \<open>The test \<open>occupied.some(span => !(endIndex <= span.start || startIndex >= span.end))\<close>.\<close>

definition overlapsAny :: "nat \<Rightarrow> nat \<Rightarrow> (nat \<times> nat) list \<Rightarrow> bool" where
  "overlapsAny startIndex endIndex occupied =
     list_ex (\<lambda>span. \<not> (endIndex \<le> fst span \<or> startIndex \<ge> snd span)) occupied"

text \<open>
  The loop over the lexicon entries, with its two variables \<open>hits\<close> and \<open>occupied\<close>.
\<close>

fun detect_loop ::
  "EntityDetectionLexiconEntry list \<Rightarrow> string \<Rightarrow> DetectedEntityMention list \<Rightarrow> (nat \<times> nat) list
   \<Rightarrow> DetectedEntityMention list \<times> (nat \<times> nat) list" where
  "detect_loop [] qLower hits occupied = (hits, occupied)"
| "detect_loop (entry # rest) qLower hits occupied =
     (case exec_pattern (le_phrase entry) qLower of
        None \<Rightarrow> detect_loop rest qLower hits occupied
      | Some startIndex \<Rightarrow>
          (let matchText = take (length (le_phrase entry)) (drop startIndex qLower);
               endIndex = startIndex + length matchText
           in if overlapsAny startIndex endIndex occupied then detect_loop rest qLower hits occupied
              else detect_loop rest qLower
                     (hits @ [\<lparr> m_entityId = le_entityId entry,
                                m_canonicalName = le_canonicalName entry,
                                m_entityType = le_entityType entry,
                                m_matchedText = matchText,
                                m_matchKind = le_matchKind entry,
                                m_startIndex = startIndex \<rparr>])
                     (occupied @ [(startIndex, endIndex)])))"

text \<open>
  The comparator of \<open>hits.sort\<close>. \<open>localeCompare\<close> is the collation of the runtime; it is
  a parameter of the model.
\<close>

definition hitCompare ::
  "(string \<Rightarrow> string \<Rightarrow> int) \<Rightarrow> DetectedEntityMention \<Rightarrow> DetectedEntityMention \<Rightarrow> int" where
  "hitCompare localeCompare a b =
     (let d = int (m_startIndex a) - int (m_startIndex b) in
      if d \<noteq> 0 then d else localeCompare (m_canonicalName a) (m_canonicalName b))"

fun dedupe_loop ::
  "DetectedEntityMention list \<Rightarrow> string set \<Rightarrow> DetectedEntityMention list \<Rightarrow> DetectedEntityMention list" where
  "dedupe_loop [] seenEntityIds deduped = deduped"
| "dedupe_loop (hit # rest) seenEntityIds deduped =
     (if m_entityId hit \<in> seenEntityIds then dedupe_loop rest seenEntityIds deduped
      else dedupe_loop rest (insert (m_entityId hit) seenEntityIds) (deduped @ [hit]))"

text \<open>
  \<open>detectEntitiesInQuestion\<close>. The memoized lexicon is an argument: its list of entries,
  in the order in which the lexicon builder left them.
\<close>

definition detectEntitiesInQuestion ::
  "(string \<Rightarrow> string \<Rightarrow> int) \<Rightarrow> EntityDetectionLexiconEntry list \<Rightarrow> string \<Rightarrow> DetectedEntityMention list" where
  "detectEntitiesInQuestion localeCompare entries question =
     (if entries = [] then []
      else let qLower = normalizeText question;
               hits = fst (detect_loop entries qLower [] []);
               sorted_hits = sortBy (hitCompare localeCompare) hits
           in dedupe_loop sorted_hits {} [])"

text \<open>The span of a mention, from its start to the end of the matched text.\<close>

definition m_endIndex :: "DetectedEntityMention \<Rightarrow> nat" where
  "m_endIndex m = m_startIndex m + length (m_matchedText m)"

definition spans_disjoint :: "DetectedEntityMention \<Rightarrow> DetectedEntityMention \<Rightarrow> bool" where
  "spans_disjoint a b = (m_endIndex a \<le> m_startIndex b \<or> m_endIndex b \<le> m_startIndex a)"

text \<open>
  A phrase occurs at a position of the text, between characters that are neither letters
  nor digits.
\<close>

definition occurs_at :: "string \<Rightarrow> string \<Rightarrow> nat \<Rightarrow> bool" where
  "occurs_at phrase q p =
     (p \<le> length q \<and>
      (p = 0 \<or> \<not> is_alnum (q ! (p - 1))) \<and>
      match_ci phrase (drop p q) \<and>
      lookahead_ok (drop (p + length phrase) q))"

section \<open>The graph stores, as the answer builders read them\<close>

text \<open>
  The builders reach the two stores through the read functions of \<open>kgData.ts\<close> and
  \<open>ntgData.ts\<close>. A store is a parameter of the model: whether its artifacts were
  loaded, and what each read function answers on a loaded store. The wrappers below add
  the fixed reply that each read function gives when the artifacts are missing. The
  records keep the fields that the builders read.
\<close>

record Entity =
  ent_entityId :: string
  ent_entityType :: string
  ent_canonicalName :: string

record KGEdgeRecord =
  edge_edgeId :: string
  edge_subjectId :: string
  edge_predicate :: string
  edge_objectId :: string
  edge_stability :: string
  edge_evidenceRefs :: "string list"

datatype Direction = Outgoing | Incoming

record KGNeighbor =
  nb_direction :: Direction
  nb_edge :: KGEdgeRecord
  nb_neighbor :: "Entity option"

record KgStore =
  kg_available :: bool
  kg_neighborsOf :: "string \<Rightarrow> Entity option \<times> KGNeighbor list"
  kg_search :: "string \<Rightarrow> nat \<Rightarrow> Entity list"

record NeighborsReply =
  nr_available :: bool
  nr_entity :: "Entity option"
  nr_neighbors :: "KGNeighbor list"

definition getEntityNeighbors :: "KgStore \<Rightarrow> string \<Rightarrow> NeighborsReply" where
  "getEntityNeighbors kgs entityId =
     (if \<not> kg_available kgs then \<lparr> nr_available = False, nr_entity = None, nr_neighbors = [] \<rparr>
      else \<lparr> nr_available = True,
             nr_entity = fst (kg_neighborsOf kgs entityId),
             nr_neighbors = snd (kg_neighborsOf kgs entityId) \<rparr>)"

record ListEntitiesReply =
  ler_available :: bool
  ler_items :: "Entity list"

definition listEntities :: "KgStore \<Rightarrow> string \<Rightarrow> nat \<Rightarrow> ListEntitiesReply" where
  "listEntities kgs q limit =
     (if \<not> kg_available kgs then \<lparr> ler_available = False, ler_items = [] \<rparr>
      else \<lparr> ler_available = True, ler_items = kg_search kgs q limit \<rparr>)"

record EventParticipant =
  ep_entityId :: string
  ep_role :: string

text \<open>
  \<open>ev_evidence_spans\<close> stands for \<open>metadata.evidence_spans\<close>: \<open>None\<close> when it is not an
  array, else one entry for each element, the text that \<open>String\<close> makes of its \<open>snippet\<close>,
  or \<open>None\<close> for an element without one.
\<close>

record DebugEventRecord =
  ev_eventId :: string
  ev_sceneId :: string
  ev_eventTypeL2 :: string
  ev_summary :: string
  ev_participants :: "EventParticipant list"
  ev_evidenceRefs :: "string list"
  ev_sequenceInScene :: int
  ev_evidence_spans :: "string option list option"

record DebugSceneIndexRecord =
  scn_sceneId :: string
  scn_headerRaw :: string
  scn_yearExplicit :: "int option"
  scn_yearInferred :: "int option"

record NtgStateChangeRecord =
  sc_stateChangeId :: string
  sc_subjectId :: string
  sc_objectId :: string
  sc_stateDimension :: string
  sc_direction :: string
  sc_magnitude :: "string option"
  sc_sceneId :: string
  sc_evidenceRefs :: "string list"
  sc_confidence :: real
  sc_claimType :: string
  sc_rule_ids :: "string list option"

record ScriptBlockLite =
  blk_blockId :: string
  blk_sceneId :: string
  blk_blockType :: string
  blk_text :: string
  blk_speakerCueRaw :: "string option"

record StateChangeItem =
  sci_stateChange :: NtgStateChangeRecord
  sci_subject :: "Entity option"
  sci_object :: "Entity option"
  sci_scene :: "DebugSceneIndexRecord option"
  sci_triggerEvents :: "DebugEventRecord list"

record TriggeredStateChange =
  tsc_stateChangeId :: string
  tsc_subjectId :: string
  tsc_objectId :: string

record TraceExplorerRow =
  row_event :: DebugEventRecord
  row_scene :: "DebugSceneIndexRecord option"
  row_participants :: "EventParticipant list"
  row_stateChangesTriggered :: "TriggeredStateChange list"

record TimelineSceneRow =
  tl_scene :: DebugSceneIndexRecord
  tl_year :: "int option"
  tl_events :: "DebugEventRecord list"
  tl_matchingEventCount :: nat
  tl_matchingStateChangeCount :: nat

record ListStateChangesOptions =
  lsc_pair :: "string option"
  lsc_entityId :: "string option"
  lsc_limit :: nat

record TraceExplorerOptions =
  te_q :: "string option"
  te_entityId :: "string option"
  te_pair :: "string option"
  te_year :: "int option"
  te_limit :: nat

record TimelineOptions =
  ts_q :: "string option"
  ts_entityId :: "string option"
  ts_pair :: "string option"
  ts_year :: "int option"
  ts_limitScenes :: nat
  ts_includeBlocks :: bool

record NtgStore =
  ntg_available :: bool
  ntg_events :: "DebugEventRecord list"
  ntg_stateChanges :: "NtgStateChangeRecord list"
  ntg_scriptBlocks :: "ScriptBlockLite list"
  ntg_stateChangeRows :: "ListStateChangesOptions \<Rightarrow> StateChangeItem list \<times> nat"
  ntg_traceRows :: "TraceExplorerOptions \<Rightarrow> TraceExplorerRow list"
  ntg_timelineScenes :: "TimelineOptions \<Rightarrow> TimelineSceneRow list"

record StateChangesReply =
  scr_available :: bool
  scr_items :: "StateChangeItem list"
  scr_filtered :: nat

definition listStateChanges :: "NtgStore \<Rightarrow> ListStateChangesOptions \<Rightarrow> StateChangesReply" where
  "listStateChanges ntgs options =
     (if \<not> ntg_available ntgs then \<lparr> scr_available = False, scr_items = [], scr_filtered = 0 \<rparr>
      else \<lparr> scr_available = True,
             scr_items = fst (ntg_stateChangeRows ntgs options),
             scr_filtered = snd (ntg_stateChangeRows ntgs options) \<rparr>)"

record TraceEventsReply =
  ter_available :: bool
  ter_items :: "TraceExplorerRow list"

definition listTraceExplorerEvents :: "NtgStore \<Rightarrow> TraceExplorerOptions \<Rightarrow> TraceEventsReply" where
  "listTraceExplorerEvents ntgs options =
     (if \<not> ntg_available ntgs then \<lparr> ter_available = False, ter_items = [] \<rparr>
      else \<lparr> ter_available = True, ter_items = ntg_traceRows ntgs options \<rparr>)"

record TimelineReply =
  tlr_available :: bool
  tlr_scenes :: "TimelineSceneRow list"

definition getTimelineSlice :: "NtgStore \<Rightarrow> TimelineOptions \<Rightarrow> TimelineReply" where
  "getTimelineSlice ntgs options =
     (if \<not> ntg_available ntgs then \<lparr> tlr_available = False, tlr_scenes = [] \<rparr>
      else \<lparr> tlr_available = True, tlr_scenes = ntg_timelineScenes ntgs options \<rparr>)"

text \<open>The line break of \<open>join('\n')\<close>.\<close>

definition nl :: string where
  "nl = [CHR 0x0A]"

section \<open>The graph-neighborhood builder (answers/kgAnswer.ts)\<close>

definition predicateWeight :: "string \<Rightarrow> nat" where
  "predicateWeight predicate =
     (let p = toLowerCase predicate in
      if p = ''family'' then 100
      else if p = ''associated_with'' then 95
      else if p = ''works_with'' \<or> p = ''allied_with'' then 90
      else if p = ''advisor_to'' \<or> p = ''counsel_to'' then 85
      else if p = ''co_present_dialogue'' then 50
      else 60)"

definition neighborName :: "KGNeighbor \<Rightarrow> string" where
  "neighborName a = (case nb_neighbor a of Some n \<Rightarrow> ent_canonicalName n | None \<Rightarrow> edge_edgeId (nb_edge a))"

definition rankCompare :: "(string \<Rightarrow> string \<Rightarrow> int) \<Rightarrow> KGNeighbor \<Rightarrow> KGNeighbor \<Rightarrow> int" where
  "rankCompare localeCompare a b =
     (let aw = predicateWeight (edge_predicate (nb_edge a));
          bw = predicateWeight (edge_predicate (nb_edge b))
      in if aw \<noteq> bw then int bw - int aw
         else localeCompare (neighborName a) (neighborName b))"

definition kgRowLine :: "nat \<times> KGNeighbor \<Rightarrow> string" where
  "kgRowLine ir =
     (let idx = fst ir; row = snd ir;
          neighborLabel = (case nb_neighbor row of
             Some n \<Rightarrow> ent_canonicalName n @ '' ('' @ ent_entityType n @ '')''
           | None \<Rightarrow> edge_objectId (nb_edge row));
          dir = (if nb_direction row = Outgoing then ''out'' else ''in'');
          evidenceCount = length (edge_evidenceRefs (nb_edge row))
      in showNat (idx + 1) @ ''. ['' @ dir @ ''] '' @ edge_predicate (nb_edge row) @ '' -> '' @
         neighborLabel @ '' ['' @ edge_stability (nb_edge row) @ '']'' @
         (if evidenceCount \<noteq> 0 then '', evidence refs: '' @ showNat evidenceCount else ''''))"

text \<open>The branch of \<open>buildKgAnswer\<close> for a focus entity that the store knows.\<close>

definition kgNeighborhoodAnswer ::
  "(string \<Rightarrow> string \<Rightarrow> int) \<Rightarrow> AnswerBuilderContext \<Rightarrow> Entity \<Rightarrow> KGNeighbor list \<Rightarrow> StructuredAnswerCore" where
  "kgNeighborhoodAnswer localeCompare context entity neighbors =
     (let ranked = sortBy (rankCompare localeCompare) neighbors;
          rows = take 8 ranked;
          characterRows = filter (\<lambda>row. map_option ent_entityType (nb_neighbor row) = Some ''character'') rows;
          emphasisRows = (if length characterRows \<ge> 3 then take 6 characterRows else rows);
          answerLines =
            [''KG view of '' @ ent_canonicalName entity @ '': '' @ showNat (length emphasisRows) @
             '' high-signal relationship(s) from the local graph artifact.''] @
            map kgRowLine (enumerate 0 emphasisRows) @
            (if length ranked > length emphasisRows
             then [''Additional relationships omitted for brevity: '' @
                   showNat (length ranked - length emphasisRows) @ ''.'']
             else [])
      in maybeStripEvidence \<lparr>
           answerText = join nl answerLines,
           modeUsed = Kg,
           queryType = ctx_queryType context,
           confidence = Finite (min 0.95 (0.55 + real (length emphasisRows) * 0.05)),
           entitiesUsed = ent_entityId entity #
             concat (map (\<lambda>row. case nb_neighbor row of Some n \<Rightarrow> [ent_entityId n] | None \<Rightarrow> []) emphasisRows),
           eventsUsed = [],
           stateChangesUsed = [],
           evidenceRefs = concat (map (\<lambda>row. edge_evidenceRefs (nb_edge row)) emphasisRows),
           reasoningNotes = ''KG mode returns canonical entities and relationship edges (static/semi-stable/volatile) without timeline sequencing.''
         \<rparr> (ctx_includeEvidence context))"

text \<open>The last part of \<open>buildKgAnswer\<close>: the search by entity name.\<close>

definition kgFallbackAnswer :: "KgStore \<Rightarrow> AnswerBuilderContext \<Rightarrow> StructuredAnswerCore" where
  "kgFallbackAnswer kgs context =
     (let entitySearch = listEntities kgs (ctx_question context) 8;
          topEntities = (if ler_available entitySearch then take 5 (ler_items entitySearch) else []);
          fallbackLines =
            [if topEntities \<noteq> []
             then ''KG entity search candidates for this question (no direct focus entity detected):''
             else ''No direct entity match detected for this fact-style query.''] @
            map (\<lambda>ie. showNat (fst ie + 1) @ ''. '' @ ent_canonicalName (snd ie) @ '' ('' @
                       ent_entityType (snd ie) @ '') ['' @ ent_entityId (snd ie) @ '']'')
                (enumerate 0 topEntities) @
            [if topEntities \<noteq> []
             then ''Ask with a specific entity name (for example \"Frank Sheeran\" or \"Jimmy Hoffa\") for relationship neighbors.''
             else ''Try including a specific person or organization name to retrieve KG relationships.'']
      in maybeStripEvidence \<lparr>
           answerText = join nl (map (\<lambda>line. truncateText line 220) fallbackLines),
           modeUsed = Kg,
           queryType = ctx_queryType context,
           confidence = Finite (if topEntities \<noteq> [] then 0.42 else 0.2),
           entitiesUsed = map m_entityId (ctx_entities context) @ map ent_entityId topEntities,
           eventsUsed = [],
           stateChangesUsed = [],
           evidenceRefs = [],
           reasoningNotes = ''KG mode fell back to entity-name search because no specific graph neighborhood target was detected.''
         \<rparr> (ctx_includeEvidence context))"

definition buildKgAnswer ::
  "(string \<Rightarrow> string \<Rightarrow> int) \<Rightarrow> KgStore \<Rightarrow> AnswerBuilderContext \<Rightarrow> StructuredAnswerCore" where
  "buildKgAnswer localeCompare kgs context =
     (if \<not> kg_available kgs then
        maybeStripEvidence \<lparr>
          answerText = ''KG artifacts are unavailable. Run the Phase 2 entity/KG builders and retry.'',
          modeUsed = Kg,
          queryType = ctx_queryType context,
          confidence = Finite 0.1,
          entitiesUsed = map m_entityId (ctx_entities context),
          eventsUsed = [],
          stateChangesUsed = [],
          evidenceRefs = [],
          reasoningNotes = ''KG answer builder depends on entities.json and kg_edges.json.''
        \<rparr> (ctx_includeEvidence context)
      else (case ctx_entities context of
          [] \<Rightarrow> kgFallbackAnswer kgs context
        | focusMention # _ \<Rightarrow>
            (let neighborhood = getEntityNeighbors kgs (m_entityId focusMention) in
             case (nr_available neighborhood, nr_entity neighborhood) of
               (True, Some entity) \<Rightarrow>
                  kgNeighborhoodAnswer localeCompare context entity (nr_neighbors neighborhood)
             | _ \<Rightarrow> kgFallbackAnswer kgs context)))"

section \<open>The narrative-trace builder (answers/traceAnswer.ts)\<close>

definition pairFromContext :: "AnswerBuilderContext \<Rightarrow> string option" where
  "pairFromContext context =
     (case ctx_entities context of
        e0 # e1 # _ \<Rightarrow>
          (let a = m_entityId e0; b = m_entityId e1;
               ids = (if str_le a b then [a, b] else [b, a])
           in Some (ids ! 0 @ ''::'' @ ids ! 1))
      | _ \<Rightarrow> None)"

text \<open>
  \<open>qLooksLikeYear\<close>: the first match of \<open>/\b(19\d{2}|20\d{2})\b/\<close>, read as a number.
\<close>

definition digit_value :: "char \<Rightarrow> nat" where
  "digit_value c = of_char c - 48"

definition year_here :: "string \<Rightarrow> bool" where
  "year_here s =
     (case s of
        a # b # c # d # rest \<Rightarrow>
          ((a = CHR ''1'' \<and> b = CHR ''9'') \<or> (a = CHR ''2'' \<and> b = CHR ''0'')) \<and>
          is_digit c \<and> is_digit d \<and> boundary_after rest
      | _ \<Rightarrow> False)"

definition parseInt4 :: "string \<Rightarrow> int" where
  "parseInt4 s = int (foldl (\<lambda>acc c. acc * 10 + digit_value c) 0 (take 4 s))"

fun year_from :: "bool \<Rightarrow> string \<Rightarrow> int option" where
  "year_from prev [] = None"
| "year_from prev (c # cs) =
     (if \<not> prev \<and> year_here (c # cs) then Some (parseInt4 (c # cs))
      else year_from (is_word_char c) cs)"

definition qLooksLikeYear :: "string \<Rightarrow> int option" where
  "qLooksLikeYear q = year_from False q"

definition contextEntityIds :: "AnswerBuilderContext \<Rightarrow> string list" where
  "contextEntityIds context = map m_entityId (ctx_entities context)"

definition traceTextFilterFromQuestion :: "AnswerBuilderContext \<Rightarrow> string option" where
  "traceTextFilterFromQuestion context =
     (let question = trim (ctx_question context) in
      if question = [] then None
      else if ctx_queryType context = Timeline then None
      else Some question)"

definition entityNames :: "AnswerBuilderContext \<Rightarrow> string list" where
  "entityNames context = map m_canonicalName (ctx_entities context)"

definition stateChangeLine :: "StateChangeItem \<Rightarrow> string" where
  "stateChangeLine item =
     (let sc = sci_stateChange item;
          subject = (case sci_subject item of Some e \<Rightarrow> ent_canonicalName e | None \<Rightarrow> sc_subjectId sc);
          object = (case sci_object item of Some e \<Rightarrow> ent_canonicalName e | None \<Rightarrow> sc_objectId sc);
          sceneLabel = (case sci_scene item of Some s \<Rightarrow> scn_headerRaw s | None \<Rightarrow> sc_sceneId sc);
          triggerList = join ''; ''
            (map (\<lambda>event. ev_eventTypeL2 event @ '' ('' @ ev_sceneId event @ ''/'' @
                           showInt (ev_sequenceInScene event) @ '')'')
                 (take 2 (sci_triggerEvents item)))
      in ''- '' @ subject @ '' -> '' @ object @ '': '' @ sc_stateDimension sc @ '' '' @ sc_direction sc @
         (case sc_magnitude sc of
            Some m \<Rightarrow> (if m \<noteq> [] then '' ('' @ m @ '')'' else '''')
          | None \<Rightarrow> '''') @
         '' ['' @ sc_claimType sc @ ''] in '' @ sceneLabel @
         '' (conf '' @ toFixed2 (sc_confidence sc) @ '').'' @
         (if triggerList \<noteq> [] then '' Triggers: '' @ triggerList @ ''.'' else ''''))"

definition summarizeStateChangesAnswer ::
  "AnswerBuilderContext \<Rightarrow> StateChangesReply \<Rightarrow> StructuredAnswerCore" where
  "summarizeStateChangesAnswer context rows =
     (if \<not> scr_available rows then
        maybeStripEvidence \<lparr>
          answerText = ''NTG state-change artifacts are unavailable. Run Phase 4 generation and retry.'',
          modeUsed = Ntg,
          queryType = ctx_queryType context,
          confidence = Finite 0.12,
          entitiesUsed = contextEntityIds context,
          eventsUsed = [],
          stateChangesUsed = [],
          evidenceRefs = [],
          reasoningNotes = ''State-change answer builder depends on state_changes.json and supporting NTG artifacts.''
        \<rparr> (ctx_includeEvidence context)
      else let top = take 8 (scr_items rows) in
        if top = [] then
          maybeStripEvidence \<lparr>
            answerText = ''No inferred state changes matched the current question filters. Try specifying a relationship pair (for example Frank and Peggy) or a dimension like trust/fear/distance.'',
            modeUsed = Ntg,
            queryType = ctx_queryType context,
            confidence = Finite 0.25,
            entitiesUsed = contextEntityIds context,
            eventsUsed = [],
            stateChangesUsed = [],
            evidenceRefs = [],
            reasoningNotes = ''NTG state-change retrieval returned zero rows for the inferred pair/entity filters.''
          \<rparr> (ctx_includeEvidence context)
        else
          (let lines =
                 [''NTG state-change view ('' @ showNat (length top) @ '' of '' @ showNat (scr_filtered rows) @
                  '' matching changes) for '' @ displayEntityList (entityNames context) 4 @ ''.''] @
                 map stateChangeLine top @
                 (if scr_filtered rows > length top
                  then [''Additional matching state changes omitted: '' @
                        showNat (scr_filtered rows - length top) @ ''.'']
                  else [])
           in maybeStripEvidence \<lparr>
                answerText = join nl (map (\<lambda>line. truncateText line 320) lines),
                modeUsed = Ntg,
                queryType = ctx_queryType context,
                confidence = Finite (min 0.92 (0.58 + real (length top) * 0.04)),
                entitiesUsed = contextEntityIds context @
                  concat (map (\<lambda>item. [sc_subjectId (sci_stateChange item), sc_objectId (sci_stateChange item)]) top),
                eventsUsed = concat (map (\<lambda>item. map ev_eventId (sci_triggerEvents item)) top),
                stateChangesUsed = map (\<lambda>item. sc_stateChangeId (sci_stateChange item)) top,
                evidenceRefs = concat (map (\<lambda>item. sc_evidenceRefs (sci_stateChange item)) top),
                reasoningNotes = ''NTG mode answered using inferred state changes linked to trigger events and evidence refs; inferred vs explicit claims remain labeled.''
              \<rparr> (ctx_includeEvidence context)))"

text \<open>
  The number of state-change overlays of an event: those of the first trace row with
  that event, 0 when there is none.
\<close>

definition overlayCount :: "TraceExplorerRow list \<Rightarrow> string \<Rightarrow> nat" where
  "overlayCount items eventId =
     (case find (\<lambda>row. ev_eventId (row_event row) = eventId) items of
        Some row \<Rightarrow> length (row_stateChangesTriggered row)
      | None \<Rightarrow> 0)"

definition timelineEventLine :: "TraceExplorerRow list \<Rightarrow> DebugEventRecord \<Rightarrow> string" where
  "timelineEventLine items event =
     (let n = overlayCount items (ev_eventId event);
          overlayLabel = (if n \<noteq> 0 then '', state overlays='' @ showNat n else '''')
      in ''   - '' @ ev_eventId event @ '' '' @ ev_eventTypeL2 event @ '' (#'' @
         showInt (ev_sequenceInScene event) @ overlayLabel @ ''): '' @
         truncateText (ev_summary event) 160)"

definition timelineSceneLines :: "TraceExplorerRow list \<Rightarrow> nat \<times> TimelineSceneRow \<Rightarrow> string list" where
  "timelineSceneLines items ir =
     (let idx = fst ir; scene = snd ir;
          sceneHeader = (if scn_headerRaw (tl_scene scene) \<noteq> [] then scn_headerRaw (tl_scene scene)
                         else scn_sceneId (tl_scene scene));
          year = (case tl_year scene of Some y \<Rightarrow> Some y
                  | None \<Rightarrow> (case scn_yearExplicit (tl_scene scene) of Some y \<Rightarrow> Some y
                              | None \<Rightarrow> scn_yearInferred (tl_scene scene)));
          matchingTag =
            (if tl_matchingEventCount scene \<noteq> 0 \<or> tl_matchingStateChangeCount scene \<noteq> 0
             then '' matched events='' @ showNat (tl_matchingEventCount scene) @
                  '', state changes='' @ showNat (tl_matchingStateChangeCount scene)
             else '''')
      in (showNat (idx + 1) @ ''. '' @ scn_sceneId (tl_scene scene) @ '' ['' @
          (case year of Some y \<Rightarrow> showInt y | None \<Rightarrow> ''-'') @ ''] '' @
          truncateText sceneHeader 140 @ matchingTag) #
         map (timelineEventLine items) (take 3 (tl_events scene)))"

definition summarizeTimelineLikeAnswer ::
  "AnswerBuilderContext \<Rightarrow> QueryType \<Rightarrow> TraceEventsReply \<Rightarrow> TimelineReply \<Rightarrow> StructuredAnswerCore" where
  "summarizeTimelineLikeAnswer context qt traceRows timeline =
     (if \<not> ter_available traceRows \<or> \<not> tlr_available timeline then
        maybeStripEvidence \<lparr>
          answerText = ''NTG artifacts are unavailable. Run Phase 3/4 generation and retry.'',
          modeUsed = Ntg,
          queryType = qt,
          confidence = Finite 0.12,
          entitiesUsed = contextEntityIds context,
          eventsUsed = [],
          stateChangesUsed = [],
          evidenceRefs = [],
          reasoningNotes = ''Trace/timeline answer builder depends on events, temporal edges, and scene index artifacts.''
        \<rparr> (ctx_includeEvidence context)
      else let topEvents = take (if qt = CausalChain then 10 else 8) (ter_items traceRows);
               topScenes = take 6 (tlr_scenes timeline) in
        if topEvents = [] \<and> topScenes = [] then
          maybeStripEvidence \<lparr>
            answerText = ''No matching timeline events were found. Try adding a character name, event type, or year.'',
            modeUsed = Ntg,
            queryType = qt,
            confidence = Finite 0.22,
            entitiesUsed = contextEntityIds context,
            eventsUsed = [],
            stateChangesUsed = [],
            evidenceRefs = [],
            reasoningNotes = ''Timeline/event search returned zero rows for the current query filters.''
          \<rparr> (ctx_includeEvidence context)
        else
          (let heading =
                 (if qt = CausalChain
                  then ''Heuristic event chain (NTG) for '' @ displayEntityList (entityNames context) 4 @ '':''
                  else ''Scene-ordered NTG timeline slice for '' @ displayEntityList (entityNames context) 4 @ '':'');
               lines = [heading] @
                 concat (map (timelineSceneLines (ter_items traceRows)) (enumerate 0 topScenes)) @
                 (if qt = CausalChain
                  then [''This is a heuristic chain assembled from filtered event order and state-change overlays; it is not a formal causal proof.'']
                  else [])
           in maybeStripEvidence \<lparr>
                answerText = join nl (map (\<lambda>line. truncateText line 360) lines),
                modeUsed = Ntg,
                queryType = qt,
                confidence = Finite (min 0.88 (0.5 + real (min (length topEvents) 10) * 0.03)),
                entitiesUsed = contextEntityIds context @
                  concat (map (\<lambda>row. map ep_entityId (row_participants row)) topEvents),
                eventsUsed = map (\<lambda>row. ev_eventId (row_event row)) topEvents,
                stateChangesUsed =
                  concat (map (\<lambda>row. map tsc_stateChangeId (row_stateChangesTriggered row)) topEvents),
                evidenceRefs = concat (map (\<lambda>row. ev_evidenceRefs (row_event row)) topEvents),
                reasoningNotes =
                  (if qt = Timeline
                   then ''NTG mode answered using scene/event ordering plus temporal edges and evidence-linked event nodes.''
                   else ''NTG mode provided a heuristic chain using filtered event order and state-change overlays.'')
              \<rparr> (ctx_includeEvidence context)))"

text \<open>The first snippet of an event, as the evidence branch reads it.\<close>

definition firstSnippet :: "DebugEventRecord \<Rightarrow> string" where
  "firstSnippet event =
     (case ev_evidence_spans event of
        Some (Some snippet # _) \<Rightarrow> snippet
      | _ \<Rightarrow> '''')"

definition evidenceRowLine :: "nat \<times> TraceExplorerRow \<Rightarrow> string" where
  "evidenceRowLine ir =
     (let idx = fst ir; row = snd ir; snippet = firstSnippet (row_event row) in
      showNat (idx + 1) @ ''. '' @ ev_eventId (row_event row) @ '' '' @ ev_eventTypeL2 (row_event row) @
      '' in '' @ (case row_scene row of Some s \<Rightarrow> scn_headerRaw s | None \<Rightarrow> ev_sceneId (row_event row)) @
      '' [refs: '' @ showNat (length (ev_evidenceRefs (row_event row))) @ ''] '' @
      truncateText (if snippet \<noteq> [] then snippet else ev_summary (row_event row)) 180)"

text \<open>The branch of \<open>buildTraceAnswer\<close> for an evidence query on loaded artifacts.\<close>

definition evidenceAnswer :: "AnswerBuilderContext \<Rightarrow> TraceEventsReply \<Rightarrow> StructuredAnswerCore" where
  "evidenceAnswer context traceRows =
     (let top = take 8 (ter_items traceRows);
          lines = [''Evidence-centric NTG response ('' @ showNat (length top) @ '' event(s)) for '' @
                   displayEntityList (entityNames context) 4 @ ''.''] @
                  map evidenceRowLine (enumerate 0 top)
      in maybeStripEvidence \<lparr>
           answerText = join nl lines,
           modeUsed = Ntg,
           queryType = Evidence,
           confidence = Finite (if top \<noteq> [] then min 0.86 (0.45 + real (length top) * 0.04) else 0.2),
           entitiesUsed = contextEntityIds context @
             concat (map (\<lambda>row. map ep_entityId (row_participants row)) top),
           eventsUsed = map (\<lambda>row. ev_eventId (row_event row)) top,
           stateChangesUsed = concat (map (\<lambda>row. map tsc_stateChangeId (row_stateChangesTriggered row)) top),
           evidenceRefs = concat (map (\<lambda>row. ev_evidenceRefs (row_event row)) top),
           reasoningNotes = ''NTG evidence response selected events and surfaced their evidence refs/snippets directly.''
         \<rparr> (ctx_includeEvidence context))"

definition buildTraceAnswer :: "NtgStore \<Rightarrow> AnswerBuilderContext \<Rightarrow> StructuredAnswerCore" where
  "buildTraceAnswer ntgs context =
     (let pair = pairFromContext context;
          primaryEntityId = (case ctx_entities context of [] \<Rightarrow> None | e # _ \<Rightarrow> Some (m_entityId e));
          derivedYear = qLooksLikeYear (ctx_question context);
          traceTextFilter = traceTextFilterFromQuestion context
      in if ctx_queryType context = StateChange then
           summarizeStateChangesAnswer context
             (listStateChanges ntgs \<lparr> lsc_pair = pair,
                 lsc_entityId = (if pair \<noteq> None then None else primaryEntityId),
                 lsc_limit = 40 \<rparr>)
         else if ctx_queryType context = Evidence then
           (let traceRows = listTraceExplorerEvents ntgs
                  \<lparr> te_q = Some (ctx_question context), te_entityId = primaryEntityId, te_pair = pair,
                    te_year = derivedYear, te_limit = 14 \<rparr>
            in if \<not> ter_available traceRows then
                 summarizeTimelineLikeAnswer context Evidence traceRows
                   \<lparr> tlr_available = False, tlr_scenes = [] \<rparr>
               else evidenceAnswer context traceRows)
         else
           summarizeTimelineLikeAnswer context (ctx_queryType context)
             (listTraceExplorerEvents ntgs
                \<lparr> te_q = traceTextFilter, te_entityId = primaryEntityId, te_pair = pair,
                  te_year = derivedYear, te_limit = 40 \<rparr>)
             (getTimelineSlice ntgs
                \<lparr> ts_q = (if ctx_queryType context = Timeline then traceTextFilter else None),
                  ts_entityId = primaryEntityId, ts_pair = pair, ts_year = derivedYear,
                  ts_limitScenes = 8, ts_includeBlocks = False \<rparr>))"

section \<open>The lexical-baseline builder (answers/baselineRagLike.ts)\<close>

datatype RetrievalSource = SrcEvent | SrcScriptBlock | SrcStateChange

fun sourceName :: "RetrievalSource \<Rightarrow> string" where
  "sourceName SrcEvent = ''event''"
| "sourceName SrcScriptBlock = ''script_block''"
| "sourceName SrcStateChange = ''state_change''"

record RetrievalRow =
  rr_source :: RetrievalSource
  rr_id :: string
  rr_sceneId :: "string option"
  rr_text :: string
  rr_evidenceRefs :: "string list"
  rr_score :: nat

definition eventDocs :: "AnswerBuilderContext \<Rightarrow> DebugEventRecord list \<Rightarrow> RetrievalRow list" where
  "eventDocs context events =
     concat (map (\<lambda>event.
       let participantIds = set (map ep_entityId (ev_participants event));
           hasEntityMatch = (ctx_entities context = [] \<or>
              list_ex (\<lambda>e. m_entityId e \<in> participantIds) (ctx_entities context))
       in if \<not> hasEntityMatch then []
          else let snippet = (case ev_evidence_spans event of
                                Some (Some s # _) \<Rightarrow> s
                              | _ \<Rightarrow> '''');
                   text = trim (ev_summary event @ nl @ snippet)
               in [\<lparr> rr_source = SrcEvent,
                     rr_id = ev_eventId event,
                     rr_sceneId = Some (ev_sceneId event),
                     rr_text = text,
                     rr_evidenceRefs = ev_evidenceRefs event,
                     rr_score = overlapScore (ctx_question context) (ev_eventTypeL2 event @ '' '' @ text) \<rparr>])
       events)"

definition stateChangeDocs :: "AnswerBuilderContext \<Rightarrow> NtgStateChangeRecord list \<Rightarrow> RetrievalRow list" where
  "stateChangeDocs context stateChanges =
     concat (map (\<lambda>sc.
       let hasEntityMatch = (ctx_entities context = [] \<or>
              list_ex (\<lambda>e. m_entityId e = sc_subjectId sc) (ctx_entities context) \<or>
              list_ex (\<lambda>e. m_entityId e = sc_objectId sc) (ctx_entities context))
       in if \<not> hasEntityMatch then []
          else [\<lparr> rr_source = SrcStateChange,
                  rr_id = sc_stateChangeId sc,
                  rr_sceneId = Some (sc_sceneId sc),
                  rr_text = sc_stateDimension sc @ '' '' @ sc_direction sc @ '' '' @ sc_claimType sc @ '' '' @
                            sc_subjectId sc @ '' '' @ sc_objectId sc,
                  rr_evidenceRefs = sc_evidenceRefs sc,
                  rr_score = overlapScore (ctx_question context)
                    (sc_stateDimension sc @ '' '' @ sc_direction sc @ '' '' @ sc_claimType sc @ '' '' @
                     (case sc_rule_ids sc of Some ids \<Rightarrow> join '' '' ids | None \<Rightarrow> '''')) \<rparr>])
       stateChanges)"

definition scriptBlockDocs :: "AnswerBuilderContext \<Rightarrow> ScriptBlockLite list \<Rightarrow> RetrievalRow list" where
  "scriptBlockDocs context blocks =
     concat (map (\<lambda>block.
       let blockLower = toLowerCase (orElse (blk_speakerCueRaw block) '''' @ '' '' @ blk_text block);
           hasEntityMatch = (ctx_entities context = [] \<or>
              list_ex (\<lambda>entity. str_includes blockLower (toLowerCase (m_canonicalName entity)))
                      (ctx_entities context))
       in if \<not> hasEntityMatch then []
          else [\<lparr> rr_source = SrcScriptBlock,
                  rr_id = blk_blockId block,
                  rr_sceneId = Some (blk_sceneId block),
                  rr_text = (case blk_speakerCueRaw block of
                               Some cue \<Rightarrow> (if cue \<noteq> [] then cue @ '': '' else '''')
                             | None \<Rightarrow> '''') @ blk_text block,
                  rr_evidenceRefs = [],
                  rr_score = overlapScore (ctx_question context) (blk_blockType block @ '' '' @ blk_text block) \<rparr>])
       blocks)"

definition docCompare :: "(string \<Rightarrow> string \<Rightarrow> int) \<Rightarrow> RetrievalRow \<Rightarrow> RetrievalRow \<Rightarrow> int" where
  "docCompare localeCompare a b =
     (let d = int (rr_score b) - int (rr_score a) in
      if d \<noteq> 0 then d
      else let s = localeCompare (orElse (rr_sceneId a) '''') (orElse (rr_sceneId b) '''') in
        if s \<noteq> 0 then s else localeCompare (rr_id a) (rr_id b))"

definition baselineRowLine :: "nat \<times> RetrievalRow \<Rightarrow> string" where
  "baselineRowLine ir =
     (let idx = fst ir; row = snd ir;
          scenePrefix = (case rr_sceneId row of
                           Some s \<Rightarrow> (if s \<noteq> [] then '' ('' @ s @ '')'' else '''')
                         | None \<Rightarrow> '''')
      in showNat (idx + 1) @ ''. ['' @ sourceName (rr_source row) @ scenePrefix @ ''] '' @
         truncateText (rr_text row) 220)"

definition buildBaselineRagLikeAnswer ::
  "(string \<Rightarrow> string \<Rightarrow> int) \<Rightarrow> NtgStore \<Rightarrow> AnswerBuilderContext \<Rightarrow> StructuredAnswerCore" where
  "buildBaselineRagLikeAnswer localeCompare ntgs context =
     (if \<not> ntg_available ntgs then
        maybeStripEvidence \<lparr>
          answerText = ''Baseline retrieval is unavailable because narrative trace artifacts are missing. Generate Phase 3/4 artifacts and retry.'',
          modeUsed = BaselineRag,
          queryType = ctx_queryType context,
          confidence = Finite 0.1,
          entitiesUsed = map m_entityId (ctx_entities context),
          eventsUsed = [],
          stateChangesUsed = [],
          evidenceRefs = [],
          reasoningNotes = ''Baseline RAG-like placeholder depends on local event/script-block artifacts.''
        \<rparr> (ctx_includeEvidence context)
      else
        (let docs = eventDocs context (ntg_events ntgs) @
                    stateChangeDocs context (ntg_stateChanges ntgs) @
                    scriptBlockDocs context (ntg_scriptBlocks ntgs);
             sorted_docs = sortBy (docCompare localeCompare) docs;
             top = take 6 (filter (\<lambda>row. rr_score row > 0) sorted_docs);
             answerLines =
               (if top = [] then
                  [''Baseline retrieval found no strong lexical matches for this question. Try a more specific entity name or scene/event phrase.'']
                else
                  [''Baseline retrieval returned '' @ showNat (length top) @ '' top text chunk(s) for '' @
                   displayEntityList (map m_canonicalName (ctx_entities context)) 4 @ ''.''] @
                  map baselineRowLine (enumerate 0 top) @
                  [''This baseline is lexical retrieval only; it does not explicitly model temporal edges or inferred relationship state changes.''])
         in maybeStripEvidence \<lparr>
              answerText = join nl answerLines,
              modeUsed = BaselineRag,
              queryType = ctx_queryType context,
              confidence = Finite (case top of
                                     [] \<Rightarrow> 0.12
                                   | first # _ \<Rightarrow> min 0.78 (0.28 + real (rr_score first) / 12)),
              entitiesUsed = map m_entityId (ctx_entities context),
              eventsUsed = map rr_id (filter (\<lambda>row. rr_source row = SrcEvent) top),
              stateChangesUsed = map rr_id (filter (\<lambda>row. rr_source row = SrcStateChange) top),
              evidenceRefs = concat (map rr_evidenceRefs top),
              reasoningNotes = ''Baseline RAG-like mode ranked event summaries, script blocks, and state-change labels by lexical overlap with the question.''
            \<rparr> (ctx_includeEvidence context)))"

section \<open>The hybrid builder (answers/hybridAnswer.ts)\<close>

definition hybridReasoning :: string where
  "hybridReasoning = ''Hybrid mode combined KG entity-relationship facts with NTG chronology/state-change evidence to answer a query that spans both structures.''"

definition buildHybridAnswer ::
  "(string \<Rightarrow> string \<Rightarrow> int) \<Rightarrow> KgStore \<Rightarrow> NtgStore \<Rightarrow> AnswerBuilderContext \<Rightarrow> StructuredAnswerCore" where
  "buildHybridAnswer localeCompare kgs ntgs context =
     (let kgAnswer = buildKgAnswer localeCompare kgs context;
          traceAnswer = buildTraceAnswer ntgs context;
          blendedText =
            (if ctx_queryType context = Comparison then
               join nl [''Hybrid comparison answer:'',
                        ''KG view (entity/relationship structure):'',
                        answerText kgAnswer,
                        '''',
                        ''NTG view (timeline/state-change structure):'',
                        answerText traceAnswer,
                        '''',
                        ''Use the baseline comparator for a lexical-only contrast if requested.'']
             else
               join nl [''Hybrid answer (KG + NTG):'',
                        ''- KG contribution: '' @ reasoningNotes kgAnswer,
                        ''- NTG contribution: '' @ reasoningNotes traceAnswer,
                        '''',
                        ''KG summary:'',
                        answerText kgAnswer,
                        '''',
                        ''NTG summary:'',
                        answerText traceAnswer]);
          merged = mergeAnswerCores kgAnswer traceAnswer \<lparr>
            o_answerText = Some blendedText,
            o_modeUsed = Some Hybrid,
            o_queryType = Some (ctx_queryType context),
            o_confidence = Some (num_min (Finite 0.93)
               (num_plus (num_times (num_max (confidence kgAnswer) (confidence traceAnswer)) 0.97) 0.03)),
            o_entitiesUsed = None,
            o_eventsUsed = None,
            o_stateChangesUsed = None,
            o_evidenceRefs = None,
            o_reasoningNotes = Some hybridReasoning \<rparr>
      in maybeStripEvidence merged (ctx_includeEvidence context))"

section \<open>The optional synthesis layer (answers/synthesizeWithLLM.ts)\<close>

text \<open>
  What \<open>getLlmSynthesisStatus\<close> returns: \<open>enabled\<close> is false when the flag
  \<open>ENABLE_LLM_SYNTHESIS\<close> is off or the credential is missing; \<open>reason\<close> says which.
\<close>

record LlmSynthesisStatus =
  llm_enabled :: bool
  llm_reason :: string

text \<open>
  What \<open>generateOpenAIText\<close> returns. It catches every error of the request, a time-out
  among them, and returns it as a failure with the error text and the model name.
\<close>

datatype OpenAITextGenerationResult =
    GenOk (gen_text: string) (gen_model: string) (gen_responseId: "string option")
  | GenFailed (gen_error: string) (gen_failed_model: string)

text \<open>
  The provider is a parameter of the model: its status, and its reply to a system prompt
  and a user prompt.
\<close>

record LlmProvider =
  llm_status :: LlmSynthesisStatus
  llm_generate :: "string \<Rightarrow> string \<Rightarrow> OpenAITextGenerationResult"

fun queryTypeName :: "QueryType \<Rightarrow> string" where
  "queryTypeName Fact = ''fact''"
| "queryTypeName Timeline = ''timeline''"
| "queryTypeName StateChange = ''state_change''"
| "queryTypeName CausalChain = ''causal_chain''"
| "queryTypeName Evidence = ''evidence''"
| "queryTypeName Comparison = ''comparison''"

fun answerModeName :: "AnswerMode \<Rightarrow> string" where
  "answerModeName Kg = ''kg''"
| "answerModeName Ntg = ''ntg''"
| "answerModeName Hybrid = ''hybrid''"
| "answerModeName BaselineRag = ''baseline_rag''"

definition compactList :: "string list \<Rightarrow> nat \<Rightarrow> string" where
  "compactList vals limit =
     (if vals = [] then ''(none)''
      else let shown = take limit vals;
               suffix = (if length vals > length shown
                         then '' (+'' @ showNat (length vals - length shown) @ '' more)'' else '''')
           in join '', '' shown @ suffix)"

definition buildSystemPrompt :: string where
  "buildSystemPrompt = join '' ''
     [''You are rewriting a deterministic graph-backed answer for clarity for a recruiter demo.'',
      ''Do not invent facts, events, scenes, dates, or relationships.'',
      ''Do not contradict the structured answer provided by the system.'',
      ''Keep uncertainty and inferred-vs-explicit distinctions if present.'',
      ''Do not remove or alter references to evidence support; evidence refs are preserved downstream in the payload.'',
      ''Return only rewritten answer text (no markdown code fences, no JSON).'']"

definition buildUserPrompt :: "string \<Rightarrow> StructuredAnswerCore \<Rightarrow> string" where
  "buildUserPrompt question answer = join nl
     [''Question: '' @ question,
      ''Mode: '' @ answerModeName (modeUsed answer),
      ''Query type: '' @ queryTypeName (queryType answer),
      ''Confidence: '' @ numberToFixed2 (confidence answer),
      ''Structured counts: entities='' @ showNat (length (entitiesUsed answer)) @
        '', events='' @ showNat (length (eventsUsed answer)) @
        '', state_changes='' @ showNat (length (stateChangesUsed answer)) @
        '', evidence_refs='' @ showNat (length (evidenceRefs answer)),
      ''Entity IDs (sample): '' @ compactList (entitiesUsed answer) 8,
      ''Event IDs (sample): '' @ compactList (eventsUsed answer) 10,
      ''State change IDs (sample): '' @ compactList (stateChangesUsed answer) 8,
      ''Evidence refs (sample): '' @ compactList (evidenceRefs answer) 10,
      ''Reasoning notes: '' @ truncateText (reasoningNotes answer) 900,
      ''Structured answer to rewrite:'',
      truncateText (answerText answer) 4000,
      '''',
      ''Rewrite for readability while preserving the same core content and caveats. Avoid adding claims not present above.'']"

definition assistedPrefix :: string where
  "assistedPrefix = ''LLM-assisted''"

definition ensureAssistedLabel :: "string \<Rightarrow> string" where
  "ensureAssistedLabel text =
     (let trimmed = trim text in
      if trimmed = [] then ''LLM-assisted synthesis is unavailable; using deterministic answer.''
      else if match_ci assistedPrefix trimmed then trimmed
      else ''LLM-assisted (structured evidence preserved)'' @ nl @ trimmed)"

definition appendNote :: "string \<Rightarrow> string \<Rightarrow> string" where
  "appendNote base addendum =
     (let trimmedBase = trim base in
      if trimmedBase = [] then trim addendum
      else if str_includes trimmedBase addendum then trimmedBase
      else trim (trimmedBase @ '' '' @ addendum))"

record LlmSynthesisOutcome =
  out_answer :: StructuredAnswerCore
  out_assisted :: bool
  out_skippedReason :: "string option"
  out_error :: "string option"

definition fallbackNote :: "string \<Rightarrow> string \<Rightarrow> string" where
  "fallbackNote model err =
     ''LLM synthesis attempted but fell back to deterministic answer ('' @ model @ '': '' @
     truncateText err 220 @ '').''"

definition assistedNote :: "string \<Rightarrow> string option \<Rightarrow> string option \<Rightarrow> string" where
  "assistedNote model label responseId = join '' ''
     ([''LLM-assisted synthesis applied on top of deterministic structured retrieval/traversal.'',
       ''Structured IDs and evidence refs were preserved from the upstream answer.'',
       ''OpenAI model: '' @ model @ ''.''] @
      (case label of Some l \<Rightarrow> (if l \<noteq> [] then [''Context: '' @ l @ ''.''] else []) | None \<Rightarrow> []) @
      (case responseId of Some r \<Rightarrow> (if r \<noteq> [] then [''response_id='' @ r @ ''.''] else []) | None \<Rightarrow> []))"

definition maybeSynthesizeStructuredAnswerWithLLM ::
  "LlmProvider \<Rightarrow> StructuredAnswerCore \<Rightarrow> string \<Rightarrow> string option \<Rightarrow> LlmSynthesisOutcome" where
  "maybeSynthesizeStructuredAnswerWithLLM llm answer question label =
     (let normalized = normalizeStructuredAnswer answer;
          llmStatus = llm_status llm
      in if trim (answerText normalized) = [] then
           \<lparr> out_answer = normalized, out_assisted = False,
             out_skippedReason = Some ''empty structured answer text'', out_error = None \<rparr>
         else if \<not> llm_enabled llmStatus then
           \<lparr> out_answer = normalized, out_assisted = False,
             out_skippedReason = Some (llm_reason llmStatus), out_error = None \<rparr>
         else (case llm_generate llm buildSystemPrompt (buildUserPrompt question normalized) of
             GenFailed err model \<Rightarrow>
               \<lparr> out_answer = normalized\<lparr> reasoningNotes :=
                    appendNote (reasoningNotes normalized) (fallbackNote model err) \<rparr>,
                 out_assisted = False, out_skippedReason = None, out_error = Some err \<rparr>
           | GenOk text model responseId \<Rightarrow>
               \<lparr> out_answer = normalized\<lparr>
                    answerText := ensureAssistedLabel (truncateText text 8000),
                    reasoningNotes := appendNote (reasoningNotes normalized) (assistedNote model label responseId) \<rparr>,
                 out_assisted = True, out_skippedReason = None, out_error = None \<rparr>))"

section \<open>The query service (queryService.ts)\<close>

record QueryRequest =
  req_question :: string
  req_preferredMode :: PreferredMode
  req_includeEvidence :: bool
  req_includeBaselineComparison :: bool

record QueryResponse =
  resp_question :: string
  resp_answer :: StructuredAnswerCore
  resp_baselineComparison :: "StructuredAnswerCore option"

text \<open>
  Everything outside the request that an answer depends on: the collation, the memoized
  lexicon, the two stores and the text-generation provider.
\<close>

record World =
  w_localeCompare :: "string \<Rightarrow> string \<Rightarrow> int"
  w_lexicon :: "EntityDetectionLexiconEntry list"
  w_kg :: KgStore
  w_ntg :: NtgStore
  w_llm :: LlmProvider

definition evidenceWarning :: string where
  "evidenceWarning = ''Warning: no evidence refs were available for some cited rows in this deterministic pass.''"

definition appendRouteReasoning :: "StructuredAnswerCore \<Rightarrow> string \<Rightarrow> StructuredAnswerCore" where
  "appendRouteReasoning answer routeReasoning =
     answer\<lparr> reasoningNotes :=
       (if str_includes (reasoningNotes answer) routeReasoning then reasoningNotes answer
        else trim (reasoningNotes answer @ '' '' @ routeReasoning)) \<rparr>"

definition enforceEvidenceInvariant :: "StructuredAnswerCore \<Rightarrow> StructuredAnswerCore" where
  "enforceEvidenceInvariant answer =
     (if length (evidenceRefs answer) > 0 then answer
      else if length (eventsUsed answer) = 0 \<and> length (stateChangesUsed answer) = 0 then answer
      else answer\<lparr> reasoningNotes := reasoningNotes answer @ '' '' @ evidenceWarning \<rparr>)"

fun buildMainAnswer :: "World \<Rightarrow> AnswerBuilderContext \<Rightarrow> AnswerMode \<Rightarrow> StructuredAnswerCore" where
  "buildMainAnswer w context Kg = buildKgAnswer (w_localeCompare w) (w_kg w) context"
| "buildMainAnswer w context Ntg = buildTraceAnswer (w_ntg w) context"
| "buildMainAnswer w context Hybrid = buildHybridAnswer (w_localeCompare w) (w_kg w) (w_ntg w) context"
| "buildMainAnswer w context BaselineRag = buildBaselineRagLikeAnswer (w_localeCompare w) (w_ntg w) context"

definition baselineComparatorNote :: string where
  "baselineComparatorNote = ''Baseline comparator generated for side-by-side deterministic comparison.''"

definition answerQueryRequest :: "World \<Rightarrow> QueryRequest \<Rightarrow> QueryResponse" where
  "answerQueryRequest w request =
     (let detectedEntities = detectEntitiesInQuestion (w_localeCompare w) (w_lexicon w) (req_question request);
          route = routeQuery (req_question request)
                    (Some (preferredModeName (req_preferredMode request))) (length detectedEntities);
          context = \<lparr> ctx_question = req_question request,
                      ctx_queryType = route_queryType route,
                      ctx_routeReasoning = route_reasoning route,
                      ctx_entities = detectedEntities,
                      ctx_includeEvidence = req_includeEvidence request \<rparr>;
          mainAnswer0 = buildMainAnswer w context (route_modeUsed route);
          mainAnswer1 = enforceEvidenceInvariant
                          (appendRouteReasoning (normalizeStructuredAnswer mainAnswer0) (route_reasoning route));
          mainAnswer2 = out_answer
            (maybeSynthesizeStructuredAnswerWithLLM (w_llm w) mainAnswer1 (req_question request)
               (Some (''mode='' @ answerModeName (route_modeUsed route) @ '', query_type='' @
                      queryTypeName (route_queryType route))));
          shouldIncludeBaseline = (req_includeBaselineComparison request \<or> route_queryType route = Comparison);
          baselineComparison0 =
            (if shouldIncludeBaseline \<and> route_modeUsed route \<noteq> BaselineRag
             then Some (enforceEvidenceInvariant
                          (appendRouteReasoning
                             (normalizeStructuredAnswer
                                (buildBaselineRagLikeAnswer (w_localeCompare w) (w_ntg w) context))
                             baselineComparatorNote))
             else None);
          mainAnswer3 = (if \<not> req_includeEvidence request then mainAnswer2\<lparr> evidenceRefs := [] \<rparr>
                         else mainAnswer2);
          baselineComparison1 =
            (if \<not> req_includeEvidence request
             then map_option (\<lambda>b. b\<lparr> evidenceRefs := [] \<rparr>) baselineComparison0
             else baselineComparison0)
      in \<lparr> resp_question = req_question request,
           resp_answer = mainAnswer3,
           resp_baselineComparison = baselineComparison1 \<rparr>)"

definition answerBaselineOnly :: "World \<Rightarrow> string \<Rightarrow> bool \<Rightarrow> QueryResponse" where
  "answerBaselineOnly w question includeEvidence =
     (let detectedEntities = detectEntitiesInQuestion (w_localeCompare w) (w_lexicon w) question;
          route = routeQuery question (Some ''baseline_rag'') (length detectedEntities);
          context = \<lparr> ctx_question = question,
                      ctx_queryType = route_queryType route,
                      ctx_routeReasoning = route_reasoning route,
                      ctx_entities = detectedEntities,
                      ctx_includeEvidence = includeEvidence \<rparr>;
          baseline = buildBaselineRagLikeAnswer (w_localeCompare w) (w_ntg w) context;
          mainAnswer = enforceEvidenceInvariant
                         (appendRouteReasoning (normalizeStructuredAnswer baseline) (route_reasoning route))
      in \<lparr> resp_question = question,
           resp_answer = mainAnswer,
           resp_baselineComparison = None \<rparr>)"

section \<open>Notions used by the claims\<close>

text \<open>
  The response validator (\<open>validateApiAnswerPayload\<close>) accepts an answer when its query
  type and mode are members of their enumerations, its text fields are strings, its four
  lists are arrays of strings and its confidence is a finite number from 0 to 1. The types
  of \<^typ>\<open>StructuredAnswerCore\<close> give all of these but the last.
\<close>

definition validAnswer :: "StructuredAnswerCore \<Rightarrow> bool" where
  "validAnswer a = (case confidence a of Finite r \<Rightarrow> 0 \<le> r \<and> r \<le> 1 | _ \<Rightarrow> False)"

text \<open>
  An answer counts as of low confidence here when its confidence is at most 0.25, the
  largest value that a builder gives to an answer without rows (no match, or artifacts
  missing).
\<close>

definition lowConfidence :: "StructuredAnswerCore \<Rightarrow> bool" where
  "lowConfidence a = (case confidence a of Finite r \<Rightarrow> 0 \<le> r \<and> r \<le> 1 / 4 | _ \<Rightarrow> False)"

text \<open>The rationales that each builder writes into \<open>reasoningNotes\<close>.\<close>

definition kgNotes :: "string set" where
  "kgNotes = {''KG answer builder depends on entities.json and kg_edges.json.'',
     ''KG mode returns canonical entities and relationship edges (static/semi-stable/volatile) without timeline sequencing.'',
     ''KG mode fell back to entity-name search because no specific graph neighborhood target was detected.''}"

definition traceNotes :: "string set" where
  "traceNotes = {''State-change answer builder depends on state_changes.json and supporting NTG artifacts.'',
     ''NTG state-change retrieval returned zero rows for the inferred pair/entity filters.'',
     ''NTG mode answered using inferred state changes linked to trigger events and evidence refs; inferred vs explicit claims remain labeled.'',
     ''Trace/timeline answer builder depends on events, temporal edges, and scene index artifacts.'',
     ''Timeline/event search returned zero rows for the current query filters.'',
     ''NTG mode answered using scene/event ordering plus temporal edges and evidence-linked event nodes.'',
     ''NTG mode provided a heuristic chain using filtered event order and state-change overlays.'',
     ''NTG evidence response selected events and surfaced their evidence refs/snippets directly.''}"

definition baselineNotes :: "string set" where
  "baselineNotes = {''Baseline RAG-like placeholder depends on local event/script-block artifacts.'',
     ''Baseline RAG-like mode ranked event summaries, script blocks, and state-change labels by lexical overlap with the question.''}"

definition evidenceOmittedNote :: string where
  "evidenceOmittedNote = ''Evidence refs omitted by request.''"

text \<open>The filters that \<open>buildTraceAnswer\<close> passes to the store for an evidence query.\<close>

definition evidenceFilters :: "AnswerBuilderContext \<Rightarrow> TraceExplorerOptions" where
  "evidenceFilters context =
     \<lparr> te_q = Some (ctx_question context),
       te_entityId = (case ctx_entities context of [] \<Rightarrow> None | e # _ \<Rightarrow> Some (m_entityId e)),
       te_pair = pairFromContext context,
       te_year = qLooksLikeYear (ctx_question context),
       te_limit = 14 \<rparr>"

text \<open>
  Parts of \<open>answerQueryRequest\<close>, named for the claims: the route and the builder
  context of a request, the label passed to the synthesis layer, and the steps applied to
  every built answer before synthesis.
\<close>

definition requestRoute :: "World \<Rightarrow> QueryRequest \<Rightarrow> QueryRouteDecision" where
  "requestRoute w request =
     routeQuery (req_question request) (Some (preferredModeName (req_preferredMode request)))
       (length (detectEntitiesInQuestion (w_localeCompare w) (w_lexicon w) (req_question request)))"

definition requestContext :: "World \<Rightarrow> QueryRequest \<Rightarrow> AnswerBuilderContext" where
  "requestContext w request =
     \<lparr> ctx_question = req_question request,
       ctx_queryType = route_queryType (requestRoute w request),
       ctx_routeReasoning = route_reasoning (requestRoute w request),
       ctx_entities = detectEntitiesInQuestion (w_localeCompare w) (w_lexicon w) (req_question request),
       ctx_includeEvidence = req_includeEvidence request \<rparr>"

definition requestLabel :: "World \<Rightarrow> QueryRequest \<Rightarrow> string" where
  "requestLabel w request =
     ''mode='' @ answerModeName (route_modeUsed (requestRoute w request)) @ '', query_type='' @
     queryTypeName (route_queryType (requestRoute w request))"

definition finishAnswer :: "StructuredAnswerCore \<Rightarrow> string \<Rightarrow> StructuredAnswerCore" where
  "finishAnswer answer routeReasoning =
     enforceEvidenceInvariant (appendRouteReasoning (normalizeStructuredAnswer answer) routeReasoning)"

text \<open>
  The evidence invariant of an answer: events or state changes without an evidence ref
  come with the warning in the reasoning notes.
\<close>

definition evidenceInvariant :: "StructuredAnswerCore \<Rightarrow> bool" where
  "evidenceInvariant a =
     ((eventsUsed a \<noteq> [] \<or> stateChangesUsed a \<noteq> []) \<and> evidenceRefs a = []
      \<longrightarrow> str_includes (reasoningNotes a) evidenceWarning)"

text \<open>Three requests for the concrete cases.\<close>

definition timelineRequest :: QueryRequest where
  "timelineRequest = \<lparr> req_question = ''When does Frank Sheeran meet Jimmy Hoffa?'',
       req_preferredMode = Auto, req_includeEvidence = False, req_includeBaselineComparison = True \<rparr>"

definition causalRequest :: QueryRequest where
  "causalRequest = \<lparr> req_question = ''What events lead up to the disappearance in the story?'',
       req_preferredMode = Auto, req_includeEvidence = False, req_includeBaselineComparison = False \<rparr>"

definition baselineRequest :: QueryRequest where
  "baselineRequest = \<lparr> req_question = ''Who is Frank Sheeran?'',
       req_preferredMode = PrefBaselineRag, req_includeEvidence = True,
       req_includeBaselineComparison = True \<rparr>"

section \<open>A small world for the concrete cases\<close>

definition codeUnitCompare :: "string \<Rightarrow> string \<Rightarrow> int" where
  "codeUnitCompare a b = (if a = b then 0 else if str_le a b then - 1 else 1)"

definition frank :: Entity where
  "frank = \<lparr> ent_entityId = ''char_frank_sheeran'', ent_entityType = ''character'',
             ent_canonicalName = ''Frank Sheeran'' \<rparr>"

definition hoffa :: Entity where
  "hoffa = \<lparr> ent_entityId = ''char_jimmy_hoffa'', ent_entityType = ''character'',
             ent_canonicalName = ''Jimmy Hoffa'' \<rparr>"

definition russell :: Entity where
  "russell = \<lparr> ent_entityId = ''char_russell_bufalino'', ent_entityType = ''character'',
               ent_canonicalName = ''Russell Bufalino'' \<rparr>"

definition teamsters :: Entity where
  "teamsters = \<lparr> ent_entityId = ''group_teamsters'', ent_entityType = ''group'',
                 ent_canonicalName = ''Teamsters'' \<rparr>"

definition frankNeighbors :: "KGNeighbor list" where
  "frankNeighbors =
     [\<lparr> nb_direction = Outgoing,
         nb_edge = \<lparr> edge_edgeId = ''kg_0001'', edge_subjectId = ''char_frank_sheeran'',
                     edge_predicate = ''works_with'', edge_objectId = ''char_jimmy_hoffa'',
                     edge_stability = ''semi_stable'', edge_evidenceRefs = [''evref_000101''] \<rparr>,
         nb_neighbor = Some hoffa \<rparr>,
      \<lparr> nb_direction = Incoming,
         nb_edge = \<lparr> edge_edgeId = ''kg_0002'', edge_subjectId = ''char_russell_bufalino'',
                     edge_predicate = ''advisor_to'', edge_objectId = ''char_frank_sheeran'',
                     edge_stability = ''stable'', edge_evidenceRefs = [''evref_000102''] \<rparr>,
         nb_neighbor = Some russell \<rparr>,
      \<lparr> nb_direction = Outgoing,
         nb_edge = \<lparr> edge_edgeId = ''kg_0003'', edge_subjectId = ''char_frank_sheeran'',
                     edge_predicate = ''associated_with'', edge_objectId = ''group_teamsters'',
                     edge_stability = ''stable'', edge_evidenceRefs = [] \<rparr>,
         nb_neighbor = Some teamsters \<rparr>]"

definition sampleKg :: KgStore where
  "sampleKg = \<lparr> kg_available = True,
       kg_neighborsOf = (\<lambda>entityId. if entityId = ''char_frank_sheeran'' then (Some frank, frankNeighbors)
                                      else (None, [])),
       kg_search = (\<lambda>q limit. []) \<rparr>"

definition missingKg :: KgStore where
  "missingKg = \<lparr> kg_available = False, kg_neighborsOf = (\<lambda>entityId. (None, [])),
                 kg_search = (\<lambda>q limit. []) \<rparr>"

definition meeting :: DebugEventRecord where
  "meeting = \<lparr> ev_eventId = ''evt_000123'', ev_sceneId = ''scene_0008'', ev_eventTypeL2 = ''meeting'',
       ev_summary = ''Frank meets Hoffa.'',
       ev_participants = [\<lparr> ep_entityId = ''char_frank_sheeran'', ep_role = ''agent'' \<rparr>,
                          \<lparr> ep_entityId = ''char_jimmy_hoffa'', ep_role = ''patient'' \<rparr>],
       ev_evidenceRefs = [''evref_000123''], ev_sequenceInScene = 1, ev_evidence_spans = None \<rparr>"

definition meetingRow :: TraceExplorerRow where
  "meetingRow = \<lparr> row_event = meeting, row_scene = None,
       row_participants = ev_participants meeting, row_stateChangesTriggered = [] \<rparr>"

definition sampleNtg :: NtgStore where
  "sampleNtg = \<lparr> ntg_available = True, ntg_events = [meeting], ntg_stateChanges = [],
       ntg_scriptBlocks = [],
       ntg_stateChangeRows = (\<lambda>options. ([], 0)),
       ntg_traceRows = (\<lambda>options. [meetingRow]),
       ntg_timelineScenes = (\<lambda>options. []) \<rparr>"

text \<open>A loaded narrative-trace store in which no query finds a row.\<close>

definition silentNtg :: NtgStore where
  "silentNtg = \<lparr> ntg_available = True, ntg_events = [], ntg_stateChanges = [],
       ntg_scriptBlocks = [],
       ntg_stateChangeRows = (\<lambda>options. ([], 0)),
       ntg_traceRows = (\<lambda>options. []),
       ntg_timelineScenes = (\<lambda>options. []) \<rparr>"

definition missingNtg :: NtgStore where
  "missingNtg = \<lparr> ntg_available = False, ntg_events = [], ntg_stateChanges = [],
       ntg_scriptBlocks = [],
       ntg_stateChangeRows = (\<lambda>options. ([], 0)),
       ntg_traceRows = (\<lambda>options. []),
       ntg_timelineScenes = (\<lambda>options. []) \<rparr>"

definition sampleLexicon :: "EntityDetectionLexiconEntry list" where
  "sampleLexicon =
     [\<lparr> le_entityId = ''char_frank_sheeran'', le_canonicalName = ''Frank Sheeran'',
         le_entityType = ''character'', le_phrase = ''frank sheeran'', le_matchKind = Canonical,
         le_priority = 100 \<rparr>,
      \<lparr> le_entityId = ''char_jimmy_hoffa'', le_canonicalName = ''Jimmy Hoffa'',
         le_entityType = ''character'', le_phrase = ''jimmy hoffa'', le_matchKind = Canonical,
         le_priority = 100 \<rparr>,
      \<lparr> le_entityId = ''char_frank_sheeran'', le_canonicalName = ''Frank Sheeran'',
         le_entityType = ''character'', le_phrase = ''frank'', le_matchKind = Hint,
         le_priority = 90 \<rparr>,
      \<lparr> le_entityId = ''char_jimmy_hoffa'', le_canonicalName = ''Jimmy Hoffa'',
         le_entityType = ''character'', le_phrase = ''hoffa'', le_matchKind = Hint,
         le_priority = 90 \<rparr>]"

text \<open>A provider with the flag \<open>ENABLE_LLM_SYNTHESIS\<close> off.\<close>

definition disabledLlm :: LlmProvider where
  "disabledLlm = \<lparr> llm_status = \<lparr> llm_enabled = False, llm_reason = ''ENABLE_LLM_SYNTHESIS is disabled'' \<rparr>,
       llm_generate = (\<lambda>systemPrompt userPrompt. GenFailed ''OPENAI_API_KEY is missing'' ''gpt-4.1-mini'') \<rparr>"

text \<open>An enabled provider whose request times out, and one that answers.\<close>

definition failingLlm :: LlmProvider where
  "failingLlm = \<lparr> llm_status = \<lparr> llm_enabled = True, llm_reason = ''LLM synthesis enabled'' \<rparr>,
       llm_generate = (\<lambda>systemPrompt userPrompt.
          GenFailed ''OpenAI request timed out after 15000ms'' ''gpt-4.1-mini'') \<rparr>"

definition answeringLlm :: LlmProvider where
  "answeringLlm = \<lparr> llm_status = \<lparr> llm_enabled = True, llm_reason = ''LLM synthesis enabled'' \<rparr>,
       llm_generate = (\<lambda>systemPrompt userPrompt.
          GenOk ''Frank Sheeran works with Jimmy Hoffa.'' ''gpt-4.1-mini'' (Some ''resp_1'')) \<rparr>"

definition sampleWorld :: World where
  "sampleWorld = \<lparr> w_localeCompare = codeUnitCompare, w_lexicon = sampleLexicon,
       w_kg = sampleKg, w_ntg = sampleNtg, w_llm = disabledLlm \<rparr>"

definition sampleAnswer :: StructuredAnswerCore where
  "sampleAnswer = \<lparr> answerText = ''KG answer'', modeUsed = Kg, queryType = Fact,
       confidence = Finite 0.81,
       entitiesUsed = [''char_frank_sheeran'', ''char_jimmy_hoffa''],
       eventsUsed = [], stateChangesUsed = [], evidenceRefs = [''scene:scene_0008''],
       reasoningNotes = ''Test reasoning.'' \<rparr>"

definition causalContext :: AnswerBuilderContext where
  "causalContext = \<lparr> ctx_question = ''What events lead up to the disappearance in the story?'',
       ctx_queryType = CausalChain,
       ctx_routeReasoning = ''Causal-chain query benefits from NTG chronology plus KG entity context (hybrid).'',
       ctx_entities = [],
       ctx_includeEvidence = True \<rparr>"

definition evidenceContext :: AnswerBuilderContext where
  "evidenceContext = \<lparr> ctx_question = ''What evidence shows the warning near the end?'',
       ctx_queryType = Evidence,
       ctx_routeReasoning = ''Evidence query can require tracing prior answer structures plus source snippets (hybrid).'',
       ctx_entities = [],
       ctx_includeEvidence = True \<rparr>"

definition frankMention :: DetectedEntityMention where
  "frankMention = \<lparr> m_entityId = ''char_frank_sheeran'', m_canonicalName = ''Frank Sheeran'',
       m_entityType = ''character'', m_matchedText = ''frank sheeran'', m_matchKind = Canonical,
       m_startIndex = 37 \<rparr>"

definition frankContext :: AnswerBuilderContext where
  "frankContext = \<lparr> ctx_question = ''Who are the key people connected to Frank Sheeran?'',
       ctx_queryType = Fact,
       ctx_routeReasoning = ''User preferred hybrid mode override.'',
       ctx_entities = [frankMention],
       ctx_includeEvidence = True \<rparr>"

text \<open>The texts with which the builders report missing artifacts.\<close>

definition kgMissingText :: string where
  "kgMissingText = ''KG artifacts are unavailable. Run the Phase 2 entity/KG builders and retry.''"

definition ntgMissingText :: "QueryType \<Rightarrow> string" where
  "ntgMissingText qt =
     (if qt = StateChange then ''NTG state-change artifacts are unavailable. Run Phase 4 generation and retry.''
      else ''NTG artifacts are unavailable. Run Phase 3/4 generation and retry.'')"

definition baselineMissingText :: string where
  "baselineMissingText = ''Baseline retrieval is unavailable because narrative trace artifacts are missing. Generate Phase 3/4 artifacts and retry.''"


text \<open>A text that is not empty and has no white space at either end.\<close>

definition solid :: "string \<Rightarrow> bool" where
  "solid s = (s \<noteq> [] \<and> \<not> is_ws (hd s) \<and> \<not> is_ws (last s))"

text \<open>
  The hits of the scan, in the order of the lexicon: the value of \<open>hits\<close> when the loop
  over the entries ends, before it is sorted.
\<close>

definition acceptedHits :: "EntityDetectionLexiconEntry list \<Rightarrow> string \<Rightarrow> DetectedEntityMention list" where
  "acceptedHits entries question = fst (detect_loop entries (normalizeText question) [] [])"

text \<open>
  A mention is a hit of a lexicon entry: it names the entity of the entry, and it stands
  where the phrase of the entry first occurs in the normalized question.
\<close>

definition hitOf :: "string \<Rightarrow> EntityDetectionLexiconEntry \<Rightarrow> DetectedEntityMention \<Rightarrow> bool" where
  "hitOf q e m =
     (m_entityId m = le_entityId e \<and>
      m_matchedText m = take (length (le_phrase e)) (drop (m_startIndex m) q) \<and>
      occurs_at (le_phrase e) q (m_startIndex m) \<and>
      (\<forall>p \<in> {0..<m_startIndex m}. \<not> occurs_at (le_phrase e) q p))"

text \<open>The hits of a question that names two entities twice, by a hint and by the full name.\<close>

definition frankHint :: DetectedEntityMention where
  "frankHint = \<lparr> m_entityId = ''char_frank_sheeran'', m_canonicalName = ''Frank Sheeran'',
       m_entityType = ''character'', m_matchedText = ''frank'', m_matchKind = Hint,
       m_startIndex = 0 \<rparr>"

definition hoffaHint :: DetectedEntityMention where
  "hoffaHint = \<lparr> m_entityId = ''char_jimmy_hoffa'', m_canonicalName = ''Jimmy Hoffa'',
       m_entityType = ''character'', m_matchedText = ''hoffa'', m_matchKind = Hint,
       m_startIndex = 10 \<rparr>"

definition frankFull :: DetectedEntityMention where
  "frankFull = \<lparr> m_entityId = ''char_frank_sheeran'', m_canonicalName = ''Frank Sheeran'',
       m_entityType = ''character'', m_matchedText = ''frank sheeran'', m_matchKind = Canonical,
       m_startIndex = 23 \<rparr>"

definition hoffaFull :: DetectedEntityMention where
  "hoffaFull = \<lparr> m_entityId = ''char_jimmy_hoffa'', m_canonicalName = ''Jimmy Hoffa'',
       m_entityType = ''character'', m_matchedText = ''jimmy hoffa'', m_matchKind = Canonical,
       m_startIndex = 44 \<rparr>"

section \<open>Facts about strings\<close>

lemma dropWhile_fixed: "xs = [] \<or> \<not> P (hd xs) \<Longrightarrow> dropWhile P xs = xs"
  by (cases xs) auto

lemma rev_dropWhile_rev_hd:
  assumes "d = [] \<or> \<not> P (hd d)"
  shows "rev (dropWhile P (rev d)) = [] \<or> \<not> P (hd (rev (dropWhile P (rev d))))"
proof (cases "rev (dropWhile P (rev d)) = []")
  case True
  then show ?thesis by simp
next
  case False
  have "rev (dropWhile P (rev d)) = take (length d - length (takeWhile P (rev d))) d"
    by (simp add: dropWhile_eq_drop rev_drop)
  with False have "hd (rev (dropWhile P (rev d))) = hd d" and "d \<noteq> []"
    by (auto simp: hd_take)
  with assms show ?thesis by auto
qed

lemma trim_head: "trim s = [] \<or> \<not> is_ws (hd (trim s))"
  unfolding trim_def
  by (rule rev_dropWhile_rev_hd) (metis hd_dropWhile)

lemma trim_last: "trim s = [] \<or> \<not> is_ws (last (trim s))"
proof (cases "trim s = []")
  case True
  then show ?thesis by simp
next
  case False
  then have ne: "dropWhile is_ws (rev (dropWhile is_ws s)) \<noteq> []"
    by (simp add: trim_def)
  have "last (trim s) = hd (dropWhile is_ws (rev (dropWhile is_ws s)))"
    using ne by (simp add: trim_def last_rev)
  with hd_dropWhile [OF ne] show ?thesis by simp
qed

lemma trim_fixed:
  assumes "s = [] \<or> (\<not> is_ws (hd s) \<and> \<not> is_ws (last s))"
  shows "trim s = s"
proof (cases "s = []")
  case True
  then show ?thesis by (simp add: trim_def)
next
  case False
  with assms have h: "\<not> is_ws (hd s)" and l: "\<not> is_ws (last s)" by auto
  from False h have 1: "dropWhile is_ws s = s" by (simp add: dropWhile_fixed)
  from False l have "\<not> is_ws (hd (rev s))" by (simp add: hd_rev)
  then have 2: "dropWhile is_ws (rev s) = rev s" by (simp add: dropWhile_fixed)
  show ?thesis by (simp add: trim_def 1 2)
qed

lemma trim_idem: "trim (trim s) = trim s"
  using trim_head [of s] trim_last [of s] by (intro trim_fixed) auto

section \<open>Facts about uniqueStrings\<close>

lemma uniqueStrings_loop_clean:
  "clean out \<Longrightarrow> clean (uniqueStrings_loop vs out (set out))"
proof (induction vs arbitrary: out)
  case Nil
  then show ?case by simp
next
  case (Cons v vs)
  show ?case
  proof (cases "trim v = [] \<or> trim v \<in> set out")
    case True
    with Cons show ?thesis by (simp add: Let_def)
  next
    case False
    with Cons.prems have "clean (out @ [trim v])"
      by (simp add: clean_def trim_idem)
    from Cons.IH [OF this] False show ?thesis by (simp add: Let_def)
  qed
qed

lemma uniqueStrings_loop_fixed:
  "clean ys \<Longrightarrow> set ys \<inter> set out = {} \<Longrightarrow> uniqueStrings_loop ys out (set out) = out @ ys"
proof (induction ys arbitrary: out)
  case Nil
  then show ?case by simp
next
  case (Cons y ys)
  from Cons.prems have y: "trim y = y" "y \<noteq> []" "y \<notin> set out"
    by (auto simp: clean_def)
  from Cons.prems have "clean ys" "set ys \<inter> set (out @ [y]) = {}"
    by (auto simp: clean_def)
  from Cons.IH [OF this] y show ?case by (simp add: Let_def)
qed

lemma uniqueStrings_clean: "clean (uniqueStrings vs)"
  using uniqueStrings_loop_clean [of "[]" vs] by (simp add: uniqueStrings_def clean_def)

lemma uniqueStrings_fixed: "clean ys \<Longrightarrow> uniqueStrings ys = ys"
  using uniqueStrings_loop_fixed [of ys "[]"] by (simp add: uniqueStrings_def)

lemma uniqueStrings_idem: "uniqueStrings (uniqueStrings vs) = uniqueStrings vs"
  by (rule uniqueStrings_fixed) (rule uniqueStrings_clean)

lemma uniqueStrings_Nil: "uniqueStrings [] = []"
  by (simp add: uniqueStrings_def)

lemma clampConfidence_idem: "clampConfidence (clampConfidence v) = clampConfidence v"
  by (cases v) (auto simp: clampConfidence_def)

lemma str_includes_iff: "str_includes s n \<longleftrightarrow> (\<exists>ps ss. s = ps @ n @ ss)"
proof (induction s)
  case Nil
  then show ?case by auto
next
  case (Cons c cs)
  show ?case
  proof
    assume "str_includes (c # cs) n"
    then consider "prefix n (c # cs)" | "str_includes cs n" by auto
    then show "\<exists>ps ss. c # cs = ps @ n @ ss"
    proof cases
      case 1
      then obtain ss where "c # cs = n @ ss" by (auto simp: prefix_def)
      then have "c # cs = [] @ n @ ss" by simp
      then show ?thesis by blast
    next
      case 2
      with Cons.IH obtain ps ss where "cs = ps @ n @ ss" by blast
      then have "c # cs = (c # ps) @ n @ ss" by simp
      then show ?thesis by blast
    qed
  next
    assume "\<exists>ps ss. c # cs = ps @ n @ ss"
    then obtain ps ss where eq: "c # cs = ps @ n @ ss" by blast
    show "str_includes (c # cs) n"
    proof (cases ps)
      case Nil
      with eq have "prefix n (c # cs)" by (simp add: prefix_def)
      then show ?thesis by simp
    next
      case (Cons p ps')
      with eq have "cs = ps' @ n @ ss" by simp
      with Cons.IH have "str_includes cs n" by blast
      then show ?thesis by simp
    qed
  qed
qed

lemma str_includes_self: "str_includes s s"
  by (metis append_Nil append_Nil2 str_includes_iff)

lemma str_includes_appendI1: "str_includes a n \<Longrightarrow> str_includes (a @ b) n"
  unfolding str_includes_iff by (metis append.assoc)

lemma str_includes_appendI2: "str_includes b n \<Longrightarrow> str_includes (a @ b) n"
  unfolding str_includes_iff by (metis append.assoc)

lemma dropWhile_append_keep:
  "rest \<noteq> [] \<Longrightarrow> \<not> P (hd rest) \<Longrightarrow> dropWhile P (ps @ rest) = dropWhile P ps @ rest"
  by (induction ps) (auto simp: dropWhile_fixed)

lemma str_includes_trim:
  assumes inc: "str_includes s n" and ne: "n \<noteq> []"
    and h: "\<not> is_ws (hd n)" and l: "\<not> is_ws (last n)"
  shows "str_includes (trim s) n"
proof -
  from inc obtain ps ss where s: "s = ps @ n @ ss" by (auto simp: str_includes_iff)
  have 1: "dropWhile is_ws s = dropWhile is_ws ps @ n @ ss"
    unfolding s using ne h by (intro dropWhile_append_keep) (auto simp: hd_append)
  have "rev (dropWhile is_ws ps @ n @ ss) = rev ss @ (rev n @ rev (dropWhile is_ws ps))"
    by simp
  moreover have "dropWhile is_ws (rev ss @ (rev n @ rev (dropWhile is_ws ps))) =
      dropWhile is_ws (rev ss) @ (rev n @ rev (dropWhile is_ws ps))"
    using ne l by (intro dropWhile_append_keep) (auto simp: hd_append hd_rev)
  ultimately have "trim s = dropWhile is_ws ps @ n @ rev (dropWhile is_ws (rev ss))"
    by (simp add: trim_def 1)
  then show ?thesis by (auto simp: str_includes_iff)
qed

lemma trim_append_fixed:
  assumes "a \<noteq> []" "\<not> is_ws (hd a)" "b \<noteq> []" "\<not> is_ws (last b)"
  shows "trim (a @ m @ b) = a @ m @ b"
  using assms by (intro trim_fixed) (auto simp: hd_append)

lemma normalizePreferredMode_name: "normalizePreferredMode (Some (preferredModeName p)) = p"
  by (cases p) (simp_all add: normalizePreferredMode_def orElse_def trim_def toLowerCase_def
      lower_char_def is_upper_def is_ws_def)

lemma selectMode_preferred:
  "selectModeForQueryType qt (Some (preferredModeName p)) n =
     (if p = Auto then selectModeForQueryType qt None n
      else (asAnswerMode p, ''User preferred '' @ preferredModeName p @ '' mode override.''))"
  apply (simp add: selectModeForQueryType_def normalizePreferredMode_name Let_def)
  apply (cases p; simp add: normalizePreferredMode_def orElse_def trim_def toLowerCase_def
      lower_char_def is_upper_def is_ws_def)
  done

lemma selectMode_auto: "fst (selectModeForQueryType qt None n) = defaultMode qt"
  by (cases qt) (simp_all add: selectModeForQueryType_def normalizePreferredMode_def orElse_def
      trim_def toLowerCase_def lower_char_def is_upper_def is_ws_def)

lemma maybeStripEvidence_True: "maybeStripEvidence a True = a"
  by (simp add: maybeStripEvidence_def)

lemma maybeStripEvidence_if:
  "maybeStripEvidence (if c then a else b) inc =
     (if c then maybeStripEvidence a inc else maybeStripEvidence b inc)"
  by simp

lemma reasoningNotes_if:
  "reasoningNotes (if c then a else b) = (if c then reasoningNotes a else reasoningNotes b)"
  by simp

lemma kgFallbackAnswer_strip:
  "kgFallbackAnswer kgs ctx =
     maybeStripEvidence (kgFallbackAnswer kgs (ctx\<lparr> ctx_includeEvidence := True \<rparr>)) (ctx_includeEvidence ctx)"
  by (simp add: kgFallbackAnswer_def Let_def maybeStripEvidence_True
      split del: if_split cong: if_cong)

lemma kgNeighborhoodAnswer_strip:
  "kgNeighborhoodAnswer lc ctx e ns =
     maybeStripEvidence (kgNeighborhoodAnswer lc (ctx\<lparr> ctx_includeEvidence := True \<rparr>) e ns) (ctx_includeEvidence ctx)"
  by (simp add: kgNeighborhoodAnswer_def Let_def maybeStripEvidence_True
      split del: if_split cong: if_cong)

lemma buildKgAnswer_strip:
  "buildKgAnswer lc kgs ctx =
     maybeStripEvidence (buildKgAnswer lc kgs (ctx\<lparr> ctx_includeEvidence := True \<rparr>)) (ctx_includeEvidence ctx)"
proof -
  let ?c = "ctx\<lparr> ctx_includeEvidence := True \<rparr>"
  have 1: "kgFallbackAnswer kgs ctx = maybeStripEvidence (kgFallbackAnswer kgs ?c) (ctx_includeEvidence ctx)"
    by (rule kgFallbackAnswer_strip)
  have 2: "kgNeighborhoodAnswer lc ctx e ns =
      maybeStripEvidence (kgNeighborhoodAnswer lc ?c e ns) (ctx_includeEvidence ctx)" for e ns
    by (rule kgNeighborhoodAnswer_strip)
  show ?thesis
    unfolding buildKgAnswer_def
    by (simp add: 1 2 maybeStripEvidence_True maybeStripEvidence_if Let_def
        split del: if_split cong: if_cong split: list.split option.split bool.split)
qed

lemma kgFallbackAnswer_notes:
  "ctx_includeEvidence ctx \<Longrightarrow> reasoningNotes (kgFallbackAnswer kgs ctx) \<in> kgNotes"
  by (simp add: kgFallbackAnswer_def Let_def maybeStripEvidence_True kgNotes_def
      split del: if_split cong: if_cong)

lemma kgNeighborhoodAnswer_notes:
  "ctx_includeEvidence ctx \<Longrightarrow> reasoningNotes (kgNeighborhoodAnswer lc ctx e ns) \<in> kgNotes"
  by (simp add: kgNeighborhoodAnswer_def Let_def maybeStripEvidence_True kgNotes_def
      split del: if_split cong: if_cong)

lemma buildKgAnswer_notes:
  assumes "ctx_includeEvidence ctx"
  shows "reasoningNotes (buildKgAnswer lc kgs ctx) \<in> kgNotes"
proof (cases "kg_available kgs")
  case False
  with assms show ?thesis
    by (simp add: buildKgAnswer_def maybeStripEvidence_True kgNotes_def)
next
  case True
  with assms show ?thesis
    by (auto simp: buildKgAnswer_def Let_def kgFallbackAnswer_notes kgNeighborhoodAnswer_notes
        split: list.split option.split bool.split)
qed

lemma kgNotes_no_marker: "n \<in> kgNotes \<Longrightarrow> \<not> str_includes n evidenceOmittedMarker"
  by (auto simp: kgNotes_def evidenceOmittedMarker_def)

lemma summarizeStateChangesAnswer_strip:
  "summarizeStateChangesAnswer ctx rows =
     maybeStripEvidence (summarizeStateChangesAnswer (ctx\<lparr> ctx_includeEvidence := True \<rparr>) rows)
       (ctx_includeEvidence ctx)"
  by (simp add: summarizeStateChangesAnswer_def Let_def maybeStripEvidence_True maybeStripEvidence_if
      contextEntityIds_def entityNames_def split del: if_split cong: if_cong)

lemma summarizeTimelineLikeAnswer_strip:
  "summarizeTimelineLikeAnswer ctx qt rows tline =
     maybeStripEvidence (summarizeTimelineLikeAnswer (ctx\<lparr> ctx_includeEvidence := True \<rparr>) qt rows tline)
       (ctx_includeEvidence ctx)"
  by (simp add: summarizeTimelineLikeAnswer_def Let_def maybeStripEvidence_True maybeStripEvidence_if
      contextEntityIds_def entityNames_def split del: if_split cong: if_cong)

lemma evidenceAnswer_strip:
  "evidenceAnswer ctx rows =
     maybeStripEvidence (evidenceAnswer (ctx\<lparr> ctx_includeEvidence := True \<rparr>) rows)
       (ctx_includeEvidence ctx)"
  by (simp add: evidenceAnswer_def Let_def maybeStripEvidence_True
      contextEntityIds_def entityNames_def split del: if_split cong: if_cong)

lemma trace_filters_inc:
  "pairFromContext (ctx\<lparr> ctx_includeEvidence := b \<rparr>) = pairFromContext ctx"
  "traceTextFilterFromQuestion (ctx\<lparr> ctx_includeEvidence := b \<rparr>) = traceTextFilterFromQuestion ctx"
  by (simp_all add: pairFromContext_def traceTextFilterFromQuestion_def Let_def)

lemma buildTraceAnswer_strip:
  "buildTraceAnswer ntgs ctx =
     maybeStripEvidence (buildTraceAnswer ntgs (ctx\<lparr> ctx_includeEvidence := True \<rparr>)) (ctx_includeEvidence ctx)"
proof -
  let ?c = "ctx\<lparr> ctx_includeEvidence := True \<rparr>"
  have 1: "summarizeStateChangesAnswer ctx rows =
      maybeStripEvidence (summarizeStateChangesAnswer ?c rows) (ctx_includeEvidence ctx)" for rows
    by (rule summarizeStateChangesAnswer_strip)
  have 2: "summarizeTimelineLikeAnswer ctx qt rows tline =
      maybeStripEvidence (summarizeTimelineLikeAnswer ?c qt rows tline) (ctx_includeEvidence ctx)" for qt rows tline
    by (rule summarizeTimelineLikeAnswer_strip)
  have 3: "evidenceAnswer ctx rows = maybeStripEvidence (evidenceAnswer ?c rows) (ctx_includeEvidence ctx)" for rows
    by (rule evidenceAnswer_strip)
  show ?thesis
    unfolding buildTraceAnswer_def Let_def trace_filters_inc
    by (simp add: 1 2 3 maybeStripEvidence_True maybeStripEvidence_if
        split del: if_split cong: if_cong)
qed

lemma summarizeStateChangesAnswer_notes:
  "ctx_includeEvidence ctx \<Longrightarrow> reasoningNotes (summarizeStateChangesAnswer ctx rows) \<in> traceNotes"
  by (simp add: summarizeStateChangesAnswer_def Let_def maybeStripEvidence_True reasoningNotes_if
      split del: if_split cong: if_cong) (simp add: traceNotes_def)

lemma summarizeTimelineLikeAnswer_notes:
  "ctx_includeEvidence ctx \<Longrightarrow> reasoningNotes (summarizeTimelineLikeAnswer ctx qt rows tline) \<in> traceNotes"
  by (simp add: summarizeTimelineLikeAnswer_def Let_def maybeStripEvidence_True reasoningNotes_if
      split del: if_split cong: if_cong) (simp add: traceNotes_def)

lemma evidenceAnswer_notes:
  "ctx_includeEvidence ctx \<Longrightarrow> reasoningNotes (evidenceAnswer ctx rows) \<in> traceNotes"
  by (simp add: evidenceAnswer_def Let_def maybeStripEvidence_True traceNotes_def
      split del: if_split cong: if_cong)

lemma buildTraceAnswer_notes:
  "ctx_includeEvidence ctx \<Longrightarrow> reasoningNotes (buildTraceAnswer ntgs ctx) \<in> traceNotes"
  by (simp add: buildTraceAnswer_def Let_def summarizeStateChangesAnswer_notes
      summarizeTimelineLikeAnswer_notes evidenceAnswer_notes)

lemma traceNotes_no_marker: "n \<in> traceNotes \<Longrightarrow> \<not> str_includes n evidenceOmittedMarker"
  by (auto simp: traceNotes_def evidenceOmittedMarker_def)

lemma docs_inc:
  "eventDocs (ctx\<lparr> ctx_includeEvidence := b \<rparr>) es = eventDocs ctx es"
  "stateChangeDocs (ctx\<lparr> ctx_includeEvidence := b \<rparr>) scs = stateChangeDocs ctx scs"
  "scriptBlockDocs (ctx\<lparr> ctx_includeEvidence := b \<rparr>) bs = scriptBlockDocs ctx bs"
  by (simp_all add: eventDocs_def stateChangeDocs_def scriptBlockDocs_def Let_def cong del: if_weak_cong)

lemma buildBaselineRagLikeAnswer_strip:
  "buildBaselineRagLikeAnswer lc ntgs ctx =
     maybeStripEvidence (buildBaselineRagLikeAnswer lc ntgs (ctx\<lparr> ctx_includeEvidence := True \<rparr>))
       (ctx_includeEvidence ctx)"
  by (simp add: buildBaselineRagLikeAnswer_def Let_def maybeStripEvidence_True maybeStripEvidence_if docs_inc
      split del: if_split cong: if_cong)

lemma buildBaselineRagLikeAnswer_notes:
  "ctx_includeEvidence ctx \<Longrightarrow> reasoningNotes (buildBaselineRagLikeAnswer lc ntgs ctx) \<in> baselineNotes"
  by (simp add: buildBaselineRagLikeAnswer_def Let_def maybeStripEvidence_True reasoningNotes_if
      split del: if_split cong: if_cong) (simp add: baselineNotes_def)

lemma baselineNotes_no_marker: "n \<in> baselineNotes \<Longrightarrow> \<not> str_includes n evidenceOmittedMarker"
  by (auto simp: baselineNotes_def evidenceOmittedMarker_def)

lemma hybridReasoning_no_marker: "\<not> str_includes hybridReasoning evidenceOmittedMarker"
  by (simp add: hybridReasoning_def evidenceOmittedMarker_def)

lemma maybeStripEvidence_frame:
  "answerText (maybeStripEvidence a inc) = answerText a"
  "modeUsed (maybeStripEvidence a inc) = modeUsed a"
  "queryType (maybeStripEvidence a inc) = queryType a"
  "confidence (maybeStripEvidence a inc) = confidence a"
  "entitiesUsed (maybeStripEvidence a inc) = entitiesUsed a"
  "eventsUsed (maybeStripEvidence a inc) = eventsUsed a"
  "stateChangesUsed (maybeStripEvidence a inc) = stateChangesUsed a"
  by (simp_all add: maybeStripEvidence_def)

lemma maybeStripEvidence_refs:
  "evidenceRefs (maybeStripEvidence a inc) = (if inc then evidenceRefs a else [])"
  by (simp add: maybeStripEvidence_def)

lemma maybeStripEvidence_notes:
  "reasoningNotes (maybeStripEvidence a inc) =
     (if inc \<or> str_includes (reasoningNotes a) evidenceOmittedMarker then reasoningNotes a
      else reasoningNotes a @ '' '' @ evidenceOmittedNote)"
  by (simp add: maybeStripEvidence_def evidenceOmittedNote_def)

lemma buildHybridAnswer_notes:
  "reasoningNotes (buildHybridAnswer lc kgs ntgs ctx) =
     (if ctx_includeEvidence ctx then hybridReasoning else hybridReasoning @ '' '' @ evidenceOmittedNote)"
  by (simp add: buildHybridAnswer_def Let_def maybeStripEvidence_notes mergeAnswerCores_def orElse_def
      hybridReasoning_no_marker)

lemma buildHybridAnswer_fields:
  "modeUsed (buildHybridAnswer lc kgs ntgs ctx) = Hybrid"
  "queryType (buildHybridAnswer lc kgs ntgs ctx) = ctx_queryType ctx"
  "confidence (buildHybridAnswer lc kgs ntgs ctx) =
     num_min (Finite 0.93) (num_plus (num_times
       (num_max (confidence (buildKgAnswer lc kgs ctx)) (confidence (buildTraceAnswer ntgs ctx))) 0.97) 0.03)"
  "entitiesUsed (buildHybridAnswer lc kgs ntgs ctx) =
     uniqueStrings (entitiesUsed (buildKgAnswer lc kgs ctx) @ entitiesUsed (buildTraceAnswer ntgs ctx))"
  "eventsUsed (buildHybridAnswer lc kgs ntgs ctx) =
     uniqueStrings (eventsUsed (buildKgAnswer lc kgs ctx) @ eventsUsed (buildTraceAnswer ntgs ctx))"
  "stateChangesUsed (buildHybridAnswer lc kgs ntgs ctx) =
     uniqueStrings (stateChangesUsed (buildKgAnswer lc kgs ctx) @ stateChangesUsed (buildTraceAnswer ntgs ctx))"
  "evidenceRefs (buildHybridAnswer lc kgs ntgs ctx) =
     (if ctx_includeEvidence ctx
      then uniqueStrings (evidenceRefs (buildKgAnswer lc kgs ctx) @ evidenceRefs (buildTraceAnswer ntgs ctx))
      else [])"
  by (simp_all add: buildHybridAnswer_def Let_def maybeStripEvidence_frame maybeStripEvidence_refs
      mergeAnswerCores_def orElse_def)

lemma buildHybridAnswer_text:
  "answerText (buildHybridAnswer lc kgs ntgs ctx) =
     (if ctx_queryType ctx = Comparison then
        join nl [''Hybrid comparison answer:'',
                 ''KG view (entity/relationship structure):'',
                 answerText (buildKgAnswer lc kgs ctx),
                 '''',
                 ''NTG view (timeline/state-change structure):'',
                 answerText (buildTraceAnswer ntgs ctx),
                 '''',
                 ''Use the baseline comparator for a lexical-only contrast if requested.'']
      else
        join nl [''Hybrid answer (KG + NTG):'',
                 ''- KG contribution: '' @ reasoningNotes (buildKgAnswer lc kgs ctx),
                 ''- NTG contribution: '' @ reasoningNotes (buildTraceAnswer ntgs ctx),
                 '''',
                 ''KG summary:'',
                 answerText (buildKgAnswer lc kgs ctx),
                 '''',
                 ''NTG summary:'',
                 answerText (buildTraceAnswer ntgs ctx)])"
  by (simp add: buildHybridAnswer_def Let_def maybeStripEvidence_frame mergeAnswerCores_def orElse_def
      split del: if_split cong: if_cong)

lemma str_includes_mid: "str_includes (a @ n @ b) n"
  by (auto simp: str_includes_iff)

lemma str_includes_Cons: "str_includes cs n \<Longrightarrow> str_includes (c # cs) n"
  by simp

lemma join_includes: "x \<in> set xs \<Longrightarrow> str_includes (join sep xs) x"
proof (induction sep xs rule: join.induct)
  case (1 sep)
  then show ?case by simp
next
  case (2 sep y)
  then show ?case by (simp add: str_includes_self)
next
  case (3 sep a b ys)
  show ?case
  proof (cases "x = a")
    case True
    have "str_includes (a @ (sep @ join sep (b # ys))) a"
      by (rule str_includes_appendI1) (rule str_includes_self)
    with True show ?thesis by simp
  next
    case False
    with 3 have "str_includes (join sep (b # ys)) x" by simp
    then have "str_includes (a @ sep @ join sep (b # ys)) x"
      by (intro str_includes_appendI2)
    then show ?thesis by simp
  qed
qed

lemma str_includes_trans: "str_includes s m \<Longrightarrow> str_includes m n \<Longrightarrow> str_includes s n"
  unfolding str_includes_iff by (metis append.assoc)

lemma buildHybridAnswer_text_rationales:
  assumes "ctx_queryType ctx \<noteq> Comparison"
  shows "str_includes (answerText (buildHybridAnswer lc kgs ntgs ctx)) (reasoningNotes (buildKgAnswer lc kgs ctx))"
    and "str_includes (answerText (buildHybridAnswer lc kgs ntgs ctx)) (reasoningNotes (buildTraceAnswer ntgs ctx))"
proof -
  let ?parts = "[''Hybrid answer (KG + NTG):'',
                 ''- KG contribution: '' @ reasoningNotes (buildKgAnswer lc kgs ctx),
                 ''- NTG contribution: '' @ reasoningNotes (buildTraceAnswer ntgs ctx),
                 '''',
                 ''KG summary:'',
                 answerText (buildKgAnswer lc kgs ctx),
                 '''',
                 ''NTG summary:'',
                 answerText (buildTraceAnswer ntgs ctx)]"
  have t: "answerText (buildHybridAnswer lc kgs ntgs ctx) = join nl ?parts"
    using assms by (simp only: buildHybridAnswer_text if_False)
  have "str_includes (join nl ?parts) (''- KG contribution: '' @ reasoningNotes (buildKgAnswer lc kgs ctx))"
    by (rule join_includes) simp
  moreover have "str_includes (''- KG contribution: '' @ reasoningNotes (buildKgAnswer lc kgs ctx))
      (reasoningNotes (buildKgAnswer lc kgs ctx))"
    by (rule str_includes_appendI2) (rule str_includes_self)
  ultimately show "str_includes (answerText (buildHybridAnswer lc kgs ntgs ctx)) (reasoningNotes (buildKgAnswer lc kgs ctx))"
    unfolding t by (rule str_includes_trans)
  have "str_includes (join nl ?parts) (''- NTG contribution: '' @ reasoningNotes (buildTraceAnswer ntgs ctx))"
    by (rule join_includes) simp
  moreover have "str_includes (''- NTG contribution: '' @ reasoningNotes (buildTraceAnswer ntgs ctx))
      (reasoningNotes (buildTraceAnswer ntgs ctx))"
    by (rule str_includes_appendI2) (rule str_includes_self)
  ultimately show "str_includes (answerText (buildHybridAnswer lc kgs ntgs ctx)) (reasoningNotes (buildTraceAnswer ntgs ctx))"
    unfolding t by (rule str_includes_trans)
qed

lemma kg_causal_notes:
  "reasoningNotes (buildKgAnswer codeUnitCompare sampleKg causalContext) =
     ''KG mode fell back to entity-name search because no specific graph neighborhood target was detected.''"
  by (simp add: buildKgAnswer_def causalContext_def sampleKg_def kgFallbackAnswer_def Let_def
      maybeStripEvidence_True listEntities_def split del: if_split cong: if_cong)

lemma trace_causal_notes:
  "reasoningNotes (buildTraceAnswer sampleNtg causalContext) =
     ''NTG mode provided a heuristic chain using filtered event order and state-change overlays.''"
  by (simp add: buildTraceAnswer_def causalContext_def sampleNtg_def summarizeTimelineLikeAnswer_def
      Let_def maybeStripEvidence_True listTraceExplorerEvents_def getTimelineSlice_def
      split del: if_split cong: if_cong)

lemma confidence_if:
  "confidence (if c then a else b) = (if c then confidence a else confidence b)"
  by simp

lemma buildTraceAnswer_evidence:
  "ntg_available ntgs \<Longrightarrow> ctx_queryType ctx = Evidence \<Longrightarrow>
   buildTraceAnswer ntgs ctx =
     evidenceAnswer ctx \<lparr> ter_available = True, ter_items = ntg_traceRows ntgs (evidenceFilters ctx) \<rparr>"
  by (simp add: buildTraceAnswer_def Let_def listTraceExplorerEvents_def evidenceFilters_def)

lemma evidenceAnswer_confidence:
  "confidence (evidenceAnswer ctx rows) =
     Finite (if take 8 (ter_items rows) \<noteq> []
             then min 0.86 (0.45 + real (length (take 8 (ter_items rows))) * 0.04) else 0.2)"
  by (simp add: evidenceAnswer_def Let_def maybeStripEvidence_frame split del: if_split cong: if_cong)

lemma validAnswer_if:
  "validAnswer (if c then a else b) = (if c then validAnswer a else validAnswer b)"
  by simp

lemma validAnswer_strip: "validAnswer (maybeStripEvidence a inc) = validAnswer a"
  by (simp add: validAnswer_def maybeStripEvidence_frame)

lemma kg_missing:
  assumes "\<not> kg_available kgs"
  shows "answerText (buildKgAnswer lc kgs ctx) = kgMissingText"
    and "confidence (buildKgAnswer lc kgs ctx) = Finite 0.1"
  using assms by (simp_all add: buildKgAnswer_def maybeStripEvidence_frame kgMissingText_def)

lemma trace_missing:
  assumes "\<not> ntg_available ntgs"
  shows "answerText (buildTraceAnswer ntgs ctx) = ntgMissingText (ctx_queryType ctx)"
    and "confidence (buildTraceAnswer ntgs ctx) = Finite 0.12"
  using assms
  by (simp_all add: buildTraceAnswer_def Let_def listStateChanges_def listTraceExplorerEvents_def
      getTimelineSlice_def summarizeStateChangesAnswer_def summarizeTimelineLikeAnswer_def
      maybeStripEvidence_frame ntgMissingText_def)

lemma baseline_missing:
  assumes "\<not> ntg_available ntgs"
  shows "answerText (buildBaselineRagLikeAnswer lc ntgs ctx) = baselineMissingText"
    and "confidence (buildBaselineRagLikeAnswer lc ntgs ctx) = Finite 0.1"
  using assms by (simp_all add: buildBaselineRagLikeAnswer_def maybeStripEvidence_frame baselineMissingText_def)

lemma kgFallbackAnswer_valid: "validAnswer (kgFallbackAnswer kgs ctx)"
  by (simp add: kgFallbackAnswer_def Let_def validAnswer_strip split del: if_split cong: if_cong)
     (simp add: validAnswer_def)

lemma kgNeighborhoodAnswer_valid: "validAnswer (kgNeighborhoodAnswer lc ctx e ns)"
  by (simp add: kgNeighborhoodAnswer_def Let_def validAnswer_strip split del: if_split cong: if_cong)
     (simp add: validAnswer_def min_def)

lemma buildKgAnswer_valid: "validAnswer (buildKgAnswer lc kgs ctx)"
proof (cases "kg_available kgs")
  case False
  then show ?thesis by (simp add: validAnswer_def kg_missing)
next
  case True
  then show ?thesis
    by (auto simp: buildKgAnswer_def Let_def kgFallbackAnswer_valid kgNeighborhoodAnswer_valid
        split: list.split option.split bool.split)
qed

lemma summarizeStateChangesAnswer_valid: "validAnswer (summarizeStateChangesAnswer ctx rows)"
  by (simp add: summarizeStateChangesAnswer_def Let_def validAnswer_strip validAnswer_if
      split del: if_split cong: if_cong)
     (simp add: validAnswer_def min_def)

lemma summarizeTimelineLikeAnswer_valid: "validAnswer (summarizeTimelineLikeAnswer ctx qt rows tline)"
  by (simp add: summarizeTimelineLikeAnswer_def Let_def validAnswer_strip validAnswer_if
      split del: if_split cong: if_cong)
     (simp add: validAnswer_def min_def)

lemma evidenceAnswer_valid: "validAnswer (evidenceAnswer ctx rows)"
  by (simp add: validAnswer_def evidenceAnswer_confidence min_def)

lemma buildTraceAnswer_valid: "validAnswer (buildTraceAnswer ntgs ctx)"
  by (simp add: buildTraceAnswer_def Let_def summarizeStateChangesAnswer_valid
      summarizeTimelineLikeAnswer_valid evidenceAnswer_valid)

lemma buildBaselineRagLikeAnswer_valid: "validAnswer (buildBaselineRagLikeAnswer lc ntgs ctx)"
  by (simp add: buildBaselineRagLikeAnswer_def Let_def validAnswer_strip validAnswer_if
      split del: if_split cong: if_cong)
     (simp add: validAnswer_def min_def split: list.split)

lemma hybrid_confidence_bounds:
  assumes "validAnswer a" "validAnswer b"
  shows "\<exists>r. num_min (Finite 0.93) (num_plus (num_times (num_max (confidence a) (confidence b)) 0.97) 0.03)
           = Finite r \<and> 0 \<le> r \<and> r \<le> 0.93"
proof -
  from assms obtain x y where xy: "confidence a = Finite x" "confidence b = Finite y"
      "0 \<le> x" "0 \<le> y"
    by (auto simp: validAnswer_def split: number.splits)
  have "0 \<le> max x y * 0.97 + 0.03" using xy by (simp add: max_def)
  then show ?thesis using xy by (simp add: num_times_def num_plus_def min_def)
qed

lemma buildHybridAnswer_valid: "validAnswer (buildHybridAnswer lc kgs ntgs ctx)"
  using hybrid_confidence_bounds [OF buildKgAnswer_valid buildTraceAnswer_valid, of lc kgs ctx ntgs ctx]
  by (auto simp: validAnswer_def buildHybridAnswer_fields)

lemma hybrid_text_parts:
  "str_includes (answerText (buildHybridAnswer lc kgs ntgs ctx)) (answerText (buildKgAnswer lc kgs ctx))"
  "str_includes (answerText (buildHybridAnswer lc kgs ntgs ctx)) (answerText (buildTraceAnswer ntgs ctx))"
proof -
  show "str_includes (answerText (buildHybridAnswer lc kgs ntgs ctx)) (answerText (buildKgAnswer lc kgs ctx))"
  proof (cases "ctx_queryType ctx = Comparison")
    case True
    show ?thesis
      unfolding buildHybridAnswer_text
      by (simp only: True if_True simp_thms) (rule join_includes, simp)
  next
    case False
    show ?thesis
      unfolding buildHybridAnswer_text
      by (simp only: False if_False) (rule join_includes, simp)
  qed
  show "str_includes (answerText (buildHybridAnswer lc kgs ntgs ctx)) (answerText (buildTraceAnswer ntgs ctx))"
  proof (cases "ctx_queryType ctx = Comparison")
    case True
    show ?thesis
      unfolding buildHybridAnswer_text
      by (simp only: True if_True simp_thms) (rule join_includes, simp)
  next
    case False
    show ?thesis
      unfolding buildHybridAnswer_text
      by (simp only: False if_False) (rule join_includes, simp)
  qed
qed

lemma kg_frank_confidence:
  "confidence (buildKgAnswer codeUnitCompare sampleKg frankContext) = Finite 0.7"
  by (simp add: buildKgAnswer_def frankContext_def frankMention_def sampleKg_def getEntityNeighbors_def
      kgNeighborhoodAnswer_def Let_def maybeStripEvidence_frame frankNeighbors_def sortBy_def
      rankCompare_def predicateWeight_def toLowerCase_def lower_char_def is_upper_def
      neighborName_def codeUnitCompare_def frank_def hoffa_def russell_def teamsters_def
      split del: if_split cong: if_cong)


lemma solid_trim: "trim s \<noteq> [] \<Longrightarrow> solid (trim s)"
  using trim_head [of s] trim_last [of s] by (simp add: solid_def)

lemma trim_solid: "solid s \<Longrightarrow> trim s = s"
  by (simp add: solid_def trim_fixed)

lemma trim_append_solid:
  assumes "solid a"
  shows "trim (a @ x) = a @ trimEnd x"
proof -
  from assms have a: "a \<noteq> []" "\<not> is_ws (hd a)" "\<not> is_ws (last a)" by (simp_all add: solid_def)
  have 1: "dropWhile is_ws (a @ x) = a @ x"
    using a by (intro dropWhile_fixed) (simp add: hd_append)
  have "dropWhile is_ws (rev x @ rev a) = dropWhile is_ws (rev x) @ rev a"
    using a by (intro dropWhile_append_keep) (simp_all add: hd_rev)
  then show ?thesis by (simp add: trim_def trimEnd_def 1)
qed

lemma appendNote_prefix: "prefix (trim base) (appendNote base addendum)"
proof (cases "trim base = []")
  case True
  then show ?thesis by simp
next
  case False
  then have "solid (trim base)" by (rule solid_trim)
  then show ?thesis using False by (simp add: appendNote_def Let_def trim_append_solid)
qed

lemma appendNote_includes:
  assumes "solid addendum"
  shows "str_includes (appendNote base addendum) addendum"
proof (cases "trim base = []")
  case True
  with assms show ?thesis by (simp add: appendNote_def trim_solid str_includes_self)
next
  case False
  show ?thesis
  proof (cases "str_includes (trim base) addendum")
    case True
    with False show ?thesis by (simp add: appendNote_def)
  next
    case inc: False
    have "str_includes (trim base @ '' '' @ addendum) addendum"
      by (intro str_includes_appendI2) (rule str_includes_self)
    then have "str_includes (trim (trim base @ '' '' @ addendum)) addendum"
      using assms by (intro str_includes_trim) (simp_all add: solid_def)
    with False inc show ?thesis by (simp add: appendNote_def)
  qed
qed

lemma appendNote_keeps:
  assumes "str_includes base n" and "solid n"
  shows "str_includes (appendNote base addendum) n"
proof -
  have t: "str_includes (trim base) n"
    using assms by (intro str_includes_trim) (simp_all add: solid_def)
  then have ne: "trim base \<noteq> []" using assms(2) by (auto simp: solid_def)
  have "str_includes (trim base @ '' '' @ addendum) n"
    using t by (rule str_includes_appendI1)
  then have "str_includes (trim (trim base @ '' '' @ addendum)) n"
    using assms(2) by (intro str_includes_trim) (simp_all add: solid_def)
  with t ne show ?thesis by (simp add: appendNote_def Let_def)
qed

lemma fallbackNote_solid: "solid (fallbackNote model err)"
  by (simp add: solid_def fallbackNote_def is_ws_def)

lemma assistedNote_solid: "solid (assistedNote model label responseId)"
  by (cases label; cases responseId)
     (simp_all add: solid_def assistedNote_def is_ws_def)

lemma ensureAssistedLabel_labeled: "match_ci assistedPrefix (ensureAssistedLabel text)"
  by (simp add: ensureAssistedLabel_def Let_def match_ci_def assistedPrefix_def lower_char_def is_upper_def)

lemma normalized_notes_trimmed: "trim (reasoningNotes (normalizeStructuredAnswer a)) = reasoningNotes (normalizeStructuredAnswer a)"
  by (simp add: normalizeStructuredAnswer_def trim_idem)

lemma synth_frame:
  "modeUsed (out_answer (maybeSynthesizeStructuredAnswerWithLLM llm a q label)) = modeUsed (normalizeStructuredAnswer a)"
  "queryType (out_answer (maybeSynthesizeStructuredAnswerWithLLM llm a q label)) = queryType (normalizeStructuredAnswer a)"
  "confidence (out_answer (maybeSynthesizeStructuredAnswerWithLLM llm a q label)) = confidence (normalizeStructuredAnswer a)"
  "entitiesUsed (out_answer (maybeSynthesizeStructuredAnswerWithLLM llm a q label)) = entitiesUsed (normalizeStructuredAnswer a)"
  "eventsUsed (out_answer (maybeSynthesizeStructuredAnswerWithLLM llm a q label)) = eventsUsed (normalizeStructuredAnswer a)"
  "stateChangesUsed (out_answer (maybeSynthesizeStructuredAnswerWithLLM llm a q label)) = stateChangesUsed (normalizeStructuredAnswer a)"
  "evidenceRefs (out_answer (maybeSynthesizeStructuredAnswerWithLLM llm a q label)) = evidenceRefs (normalizeStructuredAnswer a)"
  by (simp_all add: maybeSynthesizeStructuredAnswerWithLLM_def Let_def split: OpenAITextGenerationResult.split)

lemma synth_notes_prefix:
  "prefix (reasoningNotes (normalizeStructuredAnswer a))
     (reasoningNotes (out_answer (maybeSynthesizeStructuredAnswerWithLLM llm a q label)))"
  using appendNote_prefix [of "reasoningNotes (normalizeStructuredAnswer a)"]
  by (simp add: maybeSynthesizeStructuredAnswerWithLLM_def Let_def normalized_notes_trimmed
      split: OpenAITextGenerationResult.split)

lemma synth_notes_keep:
  assumes "str_includes (reasoningNotes a) n" and "solid n"
  shows "str_includes (reasoningNotes (out_answer (maybeSynthesizeStructuredAnswerWithLLM llm a q label))) n"
proof -
  have 1: "str_includes (reasoningNotes (normalizeStructuredAnswer a)) n"
    using assms by (simp add: normalizeStructuredAnswer_def str_includes_trim solid_def)
  show ?thesis
    using 1 appendNote_keeps [OF 1 assms(2)]
    by (simp add: maybeSynthesizeStructuredAnswerWithLLM_def Let_def
        split: OpenAITextGenerationResult.split)
qed

lemma synth_skipped:
  "trim (answerText (normalizeStructuredAnswer a)) = [] \<or> \<not> llm_enabled (llm_status llm) \<Longrightarrow>
   out_answer (maybeSynthesizeStructuredAnswerWithLLM llm a q label) = normalizeStructuredAnswer a"
  by (auto simp: maybeSynthesizeStructuredAnswerWithLLM_def Let_def)

lemma synth_failed:
  assumes "trim (answerText (normalizeStructuredAnswer a)) \<noteq> []" and "llm_enabled (llm_status llm)"
    and "llm_generate llm buildSystemPrompt (buildUserPrompt q (normalizeStructuredAnswer a)) = GenFailed err model"
  shows "answerText (out_answer (maybeSynthesizeStructuredAnswerWithLLM llm a q label)) =
           answerText (normalizeStructuredAnswer a)"
    and "str_includes (reasoningNotes (out_answer (maybeSynthesizeStructuredAnswerWithLLM llm a q label)))
           (fallbackNote model err)"
    and "\<not> out_assisted (maybeSynthesizeStructuredAnswerWithLLM llm a q label)"
  using assms appendNote_includes [OF fallbackNote_solid]
  by (simp_all add: maybeSynthesizeStructuredAnswerWithLLM_def Let_def)

lemma synth_ok:
  assumes "trim (answerText (normalizeStructuredAnswer a)) \<noteq> []" and "llm_enabled (llm_status llm)"
    and "llm_generate llm buildSystemPrompt (buildUserPrompt q (normalizeStructuredAnswer a)) = GenOk text model rid"
  shows "answerText (out_answer (maybeSynthesizeStructuredAnswerWithLLM llm a q label)) =
           ensureAssistedLabel (truncateText text 8000)"
    and "str_includes (reasoningNotes (out_answer (maybeSynthesizeStructuredAnswerWithLLM llm a q label)))
           (assistedNote model label rid)"
    and "out_assisted (maybeSynthesizeStructuredAnswerWithLLM llm a q label)"
  using assms appendNote_includes [OF assistedNote_solid]
  by (simp_all add: maybeSynthesizeStructuredAnswerWithLLM_def Let_def)

lemma sampleAnswer_normalized: "normalizeStructuredAnswer sampleAnswer = sampleAnswer"
  by (simp add: normalizeStructuredAnswer_def sampleAnswer_def trim_def is_ws_def uniqueStrings_def
      clampConfidence_def)

lemma answerQueryRequest_main:
  "resp_answer (answerQueryRequest w req) =
     (let m = out_answer (maybeSynthesizeStructuredAnswerWithLLM (w_llm w)
                (finishAnswer (buildMainAnswer w (requestContext w req) (route_modeUsed (requestRoute w req)))
                   (route_reasoning (requestRoute w req)))
                (req_question req) (Some (requestLabel w req)))
      in if req_includeEvidence req then m else m\<lparr> evidenceRefs := [] \<rparr>)"
  by (simp add: answerQueryRequest_def Let_def requestRoute_def requestContext_def requestLabel_def
      finishAnswer_def)

lemma answerQueryRequest_baseline:
  "resp_baselineComparison (answerQueryRequest w req) =
     (if (req_includeBaselineComparison req \<or> route_queryType (requestRoute w req) = Comparison) \<and>
         route_modeUsed (requestRoute w req) \<noteq> BaselineRag
      then Some (let b = finishAnswer (buildBaselineRagLikeAnswer (w_localeCompare w) (w_ntg w) (requestContext w req))
                           baselineComparatorNote
                 in if req_includeEvidence req then b else b\<lparr> evidenceRefs := [] \<rparr>)
      else None)"
  by (simp add: answerQueryRequest_def Let_def requestRoute_def requestContext_def finishAnswer_def)

lemma answerQueryRequest_question: "resp_question (answerQueryRequest w req) = req_question req"
  by (simp add: answerQueryRequest_def Let_def)

lemma requestRoute_queryType: "route_queryType (requestRoute w req) = classifyQueryType (req_question req)"
  by (simp add: requestRoute_def routeQuery_def Let_def)

lemma defaultMode_not_baseline: "defaultMode qt \<noteq> BaselineRag"
  by (cases qt) simp_all

lemma requestRoute_modeUsed:
  "route_modeUsed (requestRoute w req) =
     (if req_preferredMode req = Auto then defaultMode (classifyQueryType (req_question req))
      else asAnswerMode (req_preferredMode req))"
  by (simp only: requestRoute_def routeQuery_def Let_def selectMode_preferred)
     (simp add: selectMode_auto)

lemma requestRoute_baseline_mode:
  "route_modeUsed (requestRoute w req) = BaselineRag \<longleftrightarrow>
     req_preferredMode req = PrefBaselineRag \<or> req_preferredMode req = PrefBaseline"
  by (cases "req_preferredMode req") (simp_all add: requestRoute_modeUsed defaultMode_not_baseline)

lemma requestRoute_includeEvidence:
  "requestRoute w (req\<lparr> req_includeEvidence := b \<rparr>) = requestRoute w req"
  by (simp add: requestRoute_def)

lemma requestContext_includeEvidence:
  "requestContext w (req\<lparr> req_includeEvidence := b \<rparr>) = (requestContext w req)\<lparr> ctx_includeEvidence := b \<rparr>"
  by (simp add: requestContext_def requestRoute_includeEvidence)

lemma requestContext_fields:
  "ctx_includeEvidence (requestContext w req) = req_includeEvidence req"
  "ctx_queryType (requestContext w req) = route_queryType (requestRoute w req)"
  by (simp_all add: requestContext_def)

lemma requestLabel_includeEvidence:
  "requestLabel w (req\<lparr> req_includeEvidence := b \<rparr>) = requestLabel w req"
  by (simp add: requestLabel_def requestRoute_includeEvidence)

lemma finishAnswer_fields:
  "answerText (finishAnswer a rr) = trim (answerText a)"
  "modeUsed (finishAnswer a rr) = modeUsed a"
  "queryType (finishAnswer a rr) = queryType a"
  "confidence (finishAnswer a rr) = clampConfidence (confidence a)"
  "entitiesUsed (finishAnswer a rr) = uniqueStrings (entitiesUsed a)"
  "eventsUsed (finishAnswer a rr) = uniqueStrings (eventsUsed a)"
  "stateChangesUsed (finishAnswer a rr) = uniqueStrings (stateChangesUsed a)"
  "evidenceRefs (finishAnswer a rr) = uniqueStrings (evidenceRefs a)"
  by (simp_all add: finishAnswer_def enforceEvidenceInvariant_def appendRouteReasoning_def
      normalizeStructuredAnswer_def)

lemma evidenceWarning_solid: "solid evidenceWarning"
  by (simp add: solid_def evidenceWarning_def is_ws_def)

lemma evidenceOmittedNote_solid: "solid evidenceOmittedNote"
  by (simp add: solid_def evidenceOmittedNote_def is_ws_def)

lemma appendRouteReasoning_keeps:
  assumes "str_includes (reasoningNotes a) n" and "solid n"
  shows "str_includes (reasoningNotes (appendRouteReasoning a rr)) n"
proof -
  have "str_includes (reasoningNotes a @ '' '' @ rr) n"
    using assms(1) by (rule str_includes_appendI1)
  then have "str_includes (trim (reasoningNotes a @ '' '' @ rr)) n"
    using assms(2) by (intro str_includes_trim) (simp_all add: solid_def)
  with assms(1) show ?thesis by (simp add: appendRouteReasoning_def)
qed

lemma enforceEvidenceInvariant_keeps:
  assumes "str_includes (reasoningNotes a) n"
  shows "str_includes (reasoningNotes (enforceEvidenceInvariant a)) n"
  using assms str_includes_appendI1 [OF assms, of "'' '' @ evidenceWarning"]
  by (simp add: enforceEvidenceInvariant_def)

lemma finishAnswer_keeps:
  assumes "str_includes (reasoningNotes a) n" and "solid n"
  shows "str_includes (reasoningNotes (finishAnswer a rr)) n"
proof -
  have "str_includes (reasoningNotes (normalizeStructuredAnswer a)) n"
    using assms by (simp add: normalizeStructuredAnswer_def str_includes_trim solid_def)
  then show ?thesis
    unfolding finishAnswer_def
    by (intro enforceEvidenceInvariant_keeps appendRouteReasoning_keeps assms(2))
qed

lemma enforceEvidenceInvariant_fields:
  "eventsUsed (enforceEvidenceInvariant b) = eventsUsed b"
  "stateChangesUsed (enforceEvidenceInvariant b) = stateChangesUsed b"
  "evidenceRefs (enforceEvidenceInvariant b) = evidenceRefs b"
  by (simp_all add: enforceEvidenceInvariant_def)

lemma enforceEvidenceInvariant_warns:
  assumes "eventsUsed b \<noteq> [] \<or> stateChangesUsed b \<noteq> []" and "evidenceRefs b = []"
  shows "str_includes (reasoningNotes (enforceEvidenceInvariant b)) evidenceWarning"
proof -
  have "reasoningNotes (enforceEvidenceInvariant b) = reasoningNotes b @ '' '' @ evidenceWarning"
    using assms by (auto simp: enforceEvidenceInvariant_def)
  moreover have "str_includes (reasoningNotes b @ '' '' @ evidenceWarning) evidenceWarning"
    by (intro str_includes_appendI2) (rule str_includes_self)
  ultimately show ?thesis by simp
qed

lemma finishAnswer_warns:
  assumes "eventsUsed (finishAnswer a rr) \<noteq> [] \<or> stateChangesUsed (finishAnswer a rr) \<noteq> []"
    and "evidenceRefs (finishAnswer a rr) = []"
  shows "str_includes (reasoningNotes (finishAnswer a rr)) evidenceWarning"
  using assms unfolding finishAnswer_def enforceEvidenceInvariant_fields
  by (rule enforceEvidenceInvariant_warns)

lemma normalize_finishAnswer_lists:
  "entitiesUsed (normalizeStructuredAnswer (finishAnswer a rr)) = entitiesUsed (finishAnswer a rr)"
  "eventsUsed (normalizeStructuredAnswer (finishAnswer a rr)) = eventsUsed (finishAnswer a rr)"
  "stateChangesUsed (normalizeStructuredAnswer (finishAnswer a rr)) = stateChangesUsed (finishAnswer a rr)"
  "evidenceRefs (normalizeStructuredAnswer (finishAnswer a rr)) = evidenceRefs (finishAnswer a rr)"
  "confidence (normalizeStructuredAnswer (finishAnswer a rr)) = confidence (finishAnswer a rr)"
  "modeUsed (normalizeStructuredAnswer (finishAnswer a rr)) = modeUsed (finishAnswer a rr)"
  "queryType (normalizeStructuredAnswer (finishAnswer a rr)) = queryType (finishAnswer a rr)"
  "answerText (normalizeStructuredAnswer (finishAnswer a rr)) = answerText (finishAnswer a rr)"
  by (simp_all add: finishAnswer_fields normalizeStructuredAnswer_def uniqueStrings_idem
      clampConfidence_idem trim_idem)

text \<open>The answer after synthesis, with the fields of the finished answer.\<close>

lemma synth_finish_fields:
  "modeUsed (out_answer (maybeSynthesizeStructuredAnswerWithLLM llm (finishAnswer a rr) q label)) = modeUsed a"
  "queryType (out_answer (maybeSynthesizeStructuredAnswerWithLLM llm (finishAnswer a rr) q label)) = queryType a"
  "confidence (out_answer (maybeSynthesizeStructuredAnswerWithLLM llm (finishAnswer a rr) q label)) =
     clampConfidence (confidence a)"
  "entitiesUsed (out_answer (maybeSynthesizeStructuredAnswerWithLLM llm (finishAnswer a rr) q label)) =
     uniqueStrings (entitiesUsed a)"
  "eventsUsed (out_answer (maybeSynthesizeStructuredAnswerWithLLM llm (finishAnswer a rr) q label)) =
     uniqueStrings (eventsUsed a)"
  "stateChangesUsed (out_answer (maybeSynthesizeStructuredAnswerWithLLM llm (finishAnswer a rr) q label)) =
     uniqueStrings (stateChangesUsed a)"
  "evidenceRefs (out_answer (maybeSynthesizeStructuredAnswerWithLLM llm (finishAnswer a rr) q label)) =
     uniqueStrings (evidenceRefs a)"
  by (simp_all add: synth_frame normalize_finishAnswer_lists finishAnswer_fields)

lemma buildMainAnswer_refs_stripped:
  assumes "\<not> ctx_includeEvidence ctx"
  shows "evidenceRefs (buildMainAnswer w ctx mode) = []"
proof (cases mode)
  case Kg
  show ?thesis
    using assms unfolding Kg buildMainAnswer.simps
    by (subst buildKgAnswer_strip) (simp add: maybeStripEvidence_refs)
next
  case Ntg
  show ?thesis
    using assms unfolding Ntg buildMainAnswer.simps
    by (subst buildTraceAnswer_strip) (simp add: maybeStripEvidence_refs)
next
  case Hybrid
  show ?thesis
    using assms by (simp add: Hybrid buildHybridAnswer_fields)
next
  case BaselineRag
  show ?thesis
    using assms unfolding BaselineRag buildMainAnswer.simps
    by (subst buildBaselineRagLikeAnswer_strip) (simp add: maybeStripEvidence_refs)
qed

lemma buildBaseline_refs_stripped:
  assumes "\<not> ctx_includeEvidence ctx"
  shows "evidenceRefs (buildBaselineRagLikeAnswer lc ntgs ctx) = []"
  using assms by (subst buildBaselineRagLikeAnswer_strip) (simp add: maybeStripEvidence_refs)

lemma main_answer_invariant: "evidenceInvariant (resp_answer (answerQueryRequest w req))"
proof -
  let ?a = "buildMainAnswer w (requestContext w req) (route_modeUsed (requestRoute w req))"
  let ?f = "finishAnswer ?a (route_reasoning (requestRoute w req))"
  let ?m = "out_answer (maybeSynthesizeStructuredAnswerWithLLM (w_llm w) ?f (req_question req)
              (Some (requestLabel w req)))"
  have keep: "str_includes (reasoningNotes ?f) evidenceWarning \<Longrightarrow>
      str_includes (reasoningNotes ?m) evidenceWarning"
    by (rule synth_notes_keep) (simp_all add: evidenceWarning_solid)
  have lists: "eventsUsed ?m = eventsUsed ?f" "stateChangesUsed ?m = stateChangesUsed ?f"
      "evidenceRefs ?m = evidenceRefs ?f"
    by (simp_all add: synth_finish_fields finishAnswer_fields)
  show ?thesis
  proof (cases "req_includeEvidence req")
    case True
    have "evidenceInvariant ?m"
      unfolding evidenceInvariant_def lists using keep finishAnswer_warns by blast
    with True show ?thesis by (simp add: answerQueryRequest_main Let_def)
  next
    case False
    then have "evidenceRefs ?a = []"
      by (intro buildMainAnswer_refs_stripped) (simp add: requestContext_fields)
    then have "evidenceRefs ?f = []" by (simp add: finishAnswer_fields uniqueStrings_Nil)
    then have "evidenceInvariant (?m\<lparr> evidenceRefs := [] \<rparr>)"
      unfolding evidenceInvariant_def using keep finishAnswer_warns [of ?a "route_reasoning (requestRoute w req)"] lists
      by (auto simp del: str_includes.simps)
    with False show ?thesis by (simp add: answerQueryRequest_main Let_def)
  qed
qed

lemma baseline_comparison_invariant:
  assumes "resp_baselineComparison (answerQueryRequest w req) = Some b"
  shows "evidenceInvariant b"
proof -
  let ?a = "buildBaselineRagLikeAnswer (w_localeCompare w) (w_ntg w) (requestContext w req)"
  let ?f = "finishAnswer ?a baselineComparatorNote"
  have inv: "evidenceInvariant ?f"
    unfolding evidenceInvariant_def using finishAnswer_warns by blast
  from assms have b: "b = (if req_includeEvidence req then ?f else ?f\<lparr> evidenceRefs := [] \<rparr>)"
    by (simp add: answerQueryRequest_baseline Let_def split: if_splits)
  show ?thesis
  proof (cases "req_includeEvidence req")
    case True
    with b inv show ?thesis by simp
  next
    case False
    then have "evidenceRefs ?a = []"
      by (intro buildBaseline_refs_stripped) (simp add: requestContext_fields)
    then have "evidenceRefs ?f = []" by (simp add: finishAnswer_fields uniqueStrings_Nil)
    then have "?f\<lparr> evidenceRefs := [] \<rparr> = ?f" by simp
    with b False inv show ?thesis by simp
  qed
qed

lemma baseline_only_invariant: "evidenceInvariant (resp_answer (answerBaselineOnly w q inc))"
  unfolding evidenceInvariant_def
  using finishAnswer_warns
  by (simp add: answerBaselineOnly_def Let_def finishAnswer_def [symmetric] del: str_includes.simps)

lemma timeline_question: "classifyQueryType ''When does Frank Sheeran meet Jimmy Hoffa?'' = Timeline"
  by code_simp

lemma causal_question: "classifyQueryType ''What events lead up to the disappearance in the story?'' = CausalChain"
  by code_simp

lemma causal_entities:
  "detectEntitiesInQuestion codeUnitCompare sampleLexicon ''What events lead up to the disappearance in the story?'' = []"
  by code_simp

lemma sample_timeline_events:
  "ctx_queryType ctx = Timeline \<Longrightarrow> eventsUsed (buildTraceAnswer sampleNtg ctx) = [''evt_000123'']"
  by (simp add: buildTraceAnswer_def Let_def summarizeTimelineLikeAnswer_def sampleNtg_def
      listTraceExplorerEvents_def getTimelineSlice_def maybeStripEvidence_frame meetingRow_def meeting_def
      split del: if_split cong: if_cong)

lemma stripped_notes_include:
  assumes "\<not> str_includes (reasoningNotes a) evidenceOmittedMarker"
  shows "str_includes (reasoningNotes (maybeStripEvidence a False)) evidenceOmittedNote"
proof -
  have "str_includes (reasoningNotes a @ '' '' @ evidenceOmittedNote) evidenceOmittedNote"
    by (intro str_includes_appendI2) (rule str_includes_self)
  with assms show ?thesis by (simp add: maybeStripEvidence_notes)
qed

lemma buildMainAnswer_omitted_note:
  assumes "\<not> ctx_includeEvidence ctx"
  shows "str_includes (reasoningNotes (buildMainAnswer w ctx mode)) evidenceOmittedNote"
proof (cases mode)
  case Kg
  have "\<not> str_includes (reasoningNotes (buildKgAnswer (w_localeCompare w) (w_kg w)
          (ctx\<lparr> ctx_includeEvidence := True \<rparr>))) evidenceOmittedMarker"
    by (intro kgNotes_no_marker buildKgAnswer_notes) simp
  from stripped_notes_include [OF this] show ?thesis
    using assms unfolding Kg buildMainAnswer.simps
    by (subst buildKgAnswer_strip) simp
next
  case Ntg
  have "\<not> str_includes (reasoningNotes (buildTraceAnswer (w_ntg w)
          (ctx\<lparr> ctx_includeEvidence := True \<rparr>))) evidenceOmittedMarker"
    by (intro traceNotes_no_marker buildTraceAnswer_notes) simp
  from stripped_notes_include [OF this] show ?thesis
    using assms unfolding Ntg buildMainAnswer.simps
    by (subst buildTraceAnswer_strip) simp
next
  case Hybrid
  have "str_includes (hybridReasoning @ '' '' @ evidenceOmittedNote) evidenceOmittedNote"
    by (intro str_includes_appendI2) (rule str_includes_self)
  then show ?thesis using assms by (simp add: Hybrid buildHybridAnswer_notes)
next
  case BaselineRag
  have "\<not> str_includes (reasoningNotes (buildBaselineRagLikeAnswer (w_localeCompare w) (w_ntg w)
          (ctx\<lparr> ctx_includeEvidence := True \<rparr>))) evidenceOmittedMarker"
    by (intro baselineNotes_no_marker buildBaselineRagLikeAnswer_notes) simp
  from stripped_notes_include [OF this] show ?thesis
    using assms unfolding BaselineRag buildMainAnswer.simps
    by (subst buildBaselineRagLikeAnswer_strip) simp
qed

lemma buildKgAnswer_frame:
  "answerText (buildKgAnswer lc kgs (ctx\<lparr> ctx_includeEvidence := b \<rparr>)) = answerText (buildKgAnswer lc kgs ctx)"
  "modeUsed (buildKgAnswer lc kgs (ctx\<lparr> ctx_includeEvidence := b \<rparr>)) = modeUsed (buildKgAnswer lc kgs ctx)"
  "queryType (buildKgAnswer lc kgs (ctx\<lparr> ctx_includeEvidence := b \<rparr>)) = queryType (buildKgAnswer lc kgs ctx)"
  "confidence (buildKgAnswer lc kgs (ctx\<lparr> ctx_includeEvidence := b \<rparr>)) = confidence (buildKgAnswer lc kgs ctx)"
  "entitiesUsed (buildKgAnswer lc kgs (ctx\<lparr> ctx_includeEvidence := b \<rparr>)) = entitiesUsed (buildKgAnswer lc kgs ctx)"
  "eventsUsed (buildKgAnswer lc kgs (ctx\<lparr> ctx_includeEvidence := b \<rparr>)) = eventsUsed (buildKgAnswer lc kgs ctx)"
  "stateChangesUsed (buildKgAnswer lc kgs (ctx\<lparr> ctx_includeEvidence := b \<rparr>)) = stateChangesUsed (buildKgAnswer lc kgs ctx)"
  by (subst buildKgAnswer_strip, subst (2) buildKgAnswer_strip, simp add: maybeStripEvidence_frame)+

lemma buildTraceAnswer_frame:
  "answerText (buildTraceAnswer ntgs (ctx\<lparr> ctx_includeEvidence := b \<rparr>)) = answerText (buildTraceAnswer ntgs ctx)"
  "modeUsed (buildTraceAnswer ntgs (ctx\<lparr> ctx_includeEvidence := b \<rparr>)) = modeUsed (buildTraceAnswer ntgs ctx)"
  "queryType (buildTraceAnswer ntgs (ctx\<lparr> ctx_includeEvidence := b \<rparr>)) = queryType (buildTraceAnswer ntgs ctx)"
  "confidence (buildTraceAnswer ntgs (ctx\<lparr> ctx_includeEvidence := b \<rparr>)) = confidence (buildTraceAnswer ntgs ctx)"
  "entitiesUsed (buildTraceAnswer ntgs (ctx\<lparr> ctx_includeEvidence := b \<rparr>)) = entitiesUsed (buildTraceAnswer ntgs ctx)"
  "eventsUsed (buildTraceAnswer ntgs (ctx\<lparr> ctx_includeEvidence := b \<rparr>)) = eventsUsed (buildTraceAnswer ntgs ctx)"
  "stateChangesUsed (buildTraceAnswer ntgs (ctx\<lparr> ctx_includeEvidence := b \<rparr>)) = stateChangesUsed (buildTraceAnswer ntgs ctx)"
  by (subst buildTraceAnswer_strip, subst (2) buildTraceAnswer_strip, simp add: maybeStripEvidence_frame)+

lemma buildBaselineRagLikeAnswer_frame:
  "answerText (buildBaselineRagLikeAnswer lc ntgs (ctx\<lparr> ctx_includeEvidence := b \<rparr>)) = answerText (buildBaselineRagLikeAnswer lc ntgs ctx)"
  "modeUsed (buildBaselineRagLikeAnswer lc ntgs (ctx\<lparr> ctx_includeEvidence := b \<rparr>)) = modeUsed (buildBaselineRagLikeAnswer lc ntgs ctx)"
  "queryType (buildBaselineRagLikeAnswer lc ntgs (ctx\<lparr> ctx_includeEvidence := b \<rparr>)) = queryType (buildBaselineRagLikeAnswer lc ntgs ctx)"
  "confidence (buildBaselineRagLikeAnswer lc ntgs (ctx\<lparr> ctx_includeEvidence := b \<rparr>)) = confidence (buildBaselineRagLikeAnswer lc ntgs ctx)"
  "entitiesUsed (buildBaselineRagLikeAnswer lc ntgs (ctx\<lparr> ctx_includeEvidence := b \<rparr>)) = entitiesUsed (buildBaselineRagLikeAnswer lc ntgs ctx)"
  "eventsUsed (buildBaselineRagLikeAnswer lc ntgs (ctx\<lparr> ctx_includeEvidence := b \<rparr>)) = eventsUsed (buildBaselineRagLikeAnswer lc ntgs ctx)"
  "stateChangesUsed (buildBaselineRagLikeAnswer lc ntgs (ctx\<lparr> ctx_includeEvidence := b \<rparr>)) = stateChangesUsed (buildBaselineRagLikeAnswer lc ntgs ctx)"
  by (subst buildBaselineRagLikeAnswer_strip, subst (2) buildBaselineRagLikeAnswer_strip,
      simp add: maybeStripEvidence_frame)+

lemma buildMainAnswer_frame:
  "modeUsed (buildMainAnswer w (ctx\<lparr> ctx_includeEvidence := b \<rparr>) mode) = modeUsed (buildMainAnswer w ctx mode)"
  "queryType (buildMainAnswer w (ctx\<lparr> ctx_includeEvidence := b \<rparr>) mode) = queryType (buildMainAnswer w ctx mode)"
  "confidence (buildMainAnswer w (ctx\<lparr> ctx_includeEvidence := b \<rparr>) mode) = confidence (buildMainAnswer w ctx mode)"
  "entitiesUsed (buildMainAnswer w (ctx\<lparr> ctx_includeEvidence := b \<rparr>) mode) = entitiesUsed (buildMainAnswer w ctx mode)"
  "eventsUsed (buildMainAnswer w (ctx\<lparr> ctx_includeEvidence := b \<rparr>) mode) = eventsUsed (buildMainAnswer w ctx mode)"
  "stateChangesUsed (buildMainAnswer w (ctx\<lparr> ctx_includeEvidence := b \<rparr>) mode) = stateChangesUsed (buildMainAnswer w ctx mode)"
  by (cases mode; simp add: buildKgAnswer_frame buildTraceAnswer_frame buildBaselineRagLikeAnswer_frame
      buildHybridAnswer_fields)+

lemma buildMainAnswer_text_frame:
  assumes "mode \<noteq> Hybrid \<or> ctx_queryType ctx = Comparison"
  shows "answerText (buildMainAnswer w (ctx\<lparr> ctx_includeEvidence := b \<rparr>) mode) =
         answerText (buildMainAnswer w ctx mode)"
  using assms
  by (cases mode) (simp_all add: buildKgAnswer_frame buildTraceAnswer_frame
      buildBaselineRagLikeAnswer_frame buildHybridAnswer_text)

lemma resp_with_evidence:
  "resp_answer (answerQueryRequest w (req\<lparr> req_includeEvidence := True \<rparr>)) =
     out_answer (maybeSynthesizeStructuredAnswerWithLLM (w_llm w)
       (finishAnswer (buildMainAnswer w ((requestContext w req)\<lparr> ctx_includeEvidence := True \<rparr>)
                        (route_modeUsed (requestRoute w req)))
          (route_reasoning (requestRoute w req)))
       (req_question req) (Some (requestLabel w req)))"
  by (simp add: answerQueryRequest_main Let_def requestRoute_includeEvidence
      requestContext_includeEvidence requestLabel_includeEvidence)

lemma resp_without_evidence:
  "\<not> req_includeEvidence req \<Longrightarrow>
   resp_answer (answerQueryRequest w req) =
     (out_answer (maybeSynthesizeStructuredAnswerWithLLM (w_llm w)
       (finishAnswer (buildMainAnswer w (requestContext w req) (route_modeUsed (requestRoute w req)))
          (route_reasoning (requestRoute w req)))
       (req_question req) (Some (requestLabel w req))))\<lparr> evidenceRefs := [] \<rparr>"
  by (simp add: answerQueryRequest_main Let_def)

lemma main_frame:
  assumes "\<not> req_includeEvidence req"
  shows "modeUsed (resp_answer (answerQueryRequest w req)) =
           modeUsed (resp_answer (answerQueryRequest w (req\<lparr> req_includeEvidence := True \<rparr>)))"
    and "queryType (resp_answer (answerQueryRequest w req)) =
           queryType (resp_answer (answerQueryRequest w (req\<lparr> req_includeEvidence := True \<rparr>)))"
    and "confidence (resp_answer (answerQueryRequest w req)) =
           confidence (resp_answer (answerQueryRequest w (req\<lparr> req_includeEvidence := True \<rparr>)))"
    and "entitiesUsed (resp_answer (answerQueryRequest w req)) =
           entitiesUsed (resp_answer (answerQueryRequest w (req\<lparr> req_includeEvidence := True \<rparr>)))"
    and "eventsUsed (resp_answer (answerQueryRequest w req)) =
           eventsUsed (resp_answer (answerQueryRequest w (req\<lparr> req_includeEvidence := True \<rparr>)))"
    and "stateChangesUsed (resp_answer (answerQueryRequest w req)) =
           stateChangesUsed (resp_answer (answerQueryRequest w (req\<lparr> req_includeEvidence := True \<rparr>)))"
  unfolding resp_with_evidence resp_without_evidence [OF assms]
  by (simp_all add: synth_finish_fields buildMainAnswer_frame)

lemma main_omitted:
  assumes "\<not> req_includeEvidence req"
  shows "evidenceRefs (resp_answer (answerQueryRequest w req)) = []"
    and "str_includes (reasoningNotes (resp_answer (answerQueryRequest w req))) evidenceOmittedNote"
proof -
  show "evidenceRefs (resp_answer (answerQueryRequest w req)) = []"
    unfolding resp_without_evidence [OF assms] by simp
  have "str_includes (reasoningNotes (buildMainAnswer w (requestContext w req)
          (route_modeUsed (requestRoute w req)))) evidenceOmittedNote"
    using assms by (intro buildMainAnswer_omitted_note) (simp add: requestContext_fields)
  then have "str_includes (reasoningNotes (out_answer (maybeSynthesizeStructuredAnswerWithLLM (w_llm w)
       (finishAnswer (buildMainAnswer w (requestContext w req) (route_modeUsed (requestRoute w req)))
          (route_reasoning (requestRoute w req)))
       (req_question req) (Some (requestLabel w req))))) evidenceOmittedNote"
    by (intro synth_notes_keep finishAnswer_keeps evidenceOmittedNote_solid)
  then show "str_includes (reasoningNotes (resp_answer (answerQueryRequest w req))) evidenceOmittedNote"
    unfolding resp_without_evidence [OF assms] by simp
qed

lemma main_text_frame:
  assumes "\<not> req_includeEvidence req" and "\<not> llm_enabled (llm_status (w_llm w))"
    and "route_modeUsed (requestRoute w req) \<noteq> Hybrid \<or> classifyQueryType (req_question req) = Comparison"
  shows "answerText (resp_answer (answerQueryRequest w req)) =
         answerText (resp_answer (answerQueryRequest w (req\<lparr> req_includeEvidence := True \<rparr>)))"
proof -
  have "route_modeUsed (requestRoute w req) \<noteq> Hybrid \<or> ctx_queryType (requestContext w req) = Comparison"
    using assms(3) by (simp add: requestContext_fields requestRoute_queryType)
  from buildMainAnswer_text_frame [OF this, of w True] show ?thesis
    unfolding resp_with_evidence resp_without_evidence [OF assms(1)]
    by (simp add: synth_skipped assms(2) normalize_finishAnswer_lists finishAnswer_fields)
qed

lemma baseline_frame:
  assumes "\<not> req_includeEvidence req"
  shows "case resp_baselineComparison (answerQueryRequest w req) of
      None \<Rightarrow> resp_baselineComparison (answerQueryRequest w (req\<lparr> req_includeEvidence := True \<rparr>)) = None
    | Some b \<Rightarrow>
        evidenceRefs b = [] \<and> str_includes (reasoningNotes b) evidenceOmittedNote \<and>
        (case resp_baselineComparison (answerQueryRequest w (req\<lparr> req_includeEvidence := True \<rparr>)) of
           None \<Rightarrow> False
         | Some b' \<Rightarrow>
             answerText b = answerText b' \<and> modeUsed b = modeUsed b' \<and> queryType b = queryType b' \<and>
             confidence b = confidence b' \<and> entitiesUsed b = entitiesUsed b' \<and>
             eventsUsed b = eventsUsed b' \<and> stateChangesUsed b = stateChangesUsed b')"
proof -
  let ?ctx = "requestContext w req"
  have "\<not> str_includes (reasoningNotes (buildBaselineRagLikeAnswer (w_localeCompare w) (w_ntg w)
          (?ctx\<lparr> ctx_includeEvidence := True \<rparr>))) evidenceOmittedMarker"
    by (intro baselineNotes_no_marker buildBaselineRagLikeAnswer_notes) simp
  from stripped_notes_include [OF this]
  have "str_includes (reasoningNotes (buildBaselineRagLikeAnswer (w_localeCompare w) (w_ntg w) ?ctx))
          evidenceOmittedNote"
    using assms by (subst buildBaselineRagLikeAnswer_strip) (simp add: requestContext_fields)
  then have n: "str_includes (reasoningNotes (finishAnswer
      (buildBaselineRagLikeAnswer (w_localeCompare w) (w_ntg w) ?ctx) baselineComparatorNote)) evidenceOmittedNote"
    by (intro finishAnswer_keeps evidenceOmittedNote_solid)
  show ?thesis
    using assms n
    by (simp add: answerQueryRequest_baseline Let_def requestRoute_includeEvidence
        requestContext_includeEvidence finishAnswer_fields buildBaselineRagLikeAnswer_frame
        del: str_includes.simps)
qed

lemma causal_route:
  "route_modeUsed (requestRoute sampleWorld causalRequest) = Hybrid"
  "route_queryType (requestRoute sampleWorld causalRequest) = CausalChain"
  by (simp_all add: requestRoute_modeUsed requestRoute_queryType causalRequest_def causal_question)

lemma causal_context:
  "requestContext sampleWorld causalRequest =
     \<lparr> ctx_question = ''What events lead up to the disappearance in the story?'',
       ctx_queryType = CausalChain,
       ctx_routeReasoning = route_reasoning (requestRoute sampleWorld causalRequest),
       ctx_entities = [],
       ctx_includeEvidence = False \<rparr>"
  by (simp add: requestContext_def causal_route)
     (simp add: causalRequest_def sampleWorld_def causal_entities)

lemma causal_kg_answer:
  "ctx_entities ctx = [] \<Longrightarrow> ctx_includeEvidence ctx \<Longrightarrow>
   answerText (buildKgAnswer codeUnitCompare sampleKg ctx) =
     ''No direct entity match detected for this fact-style query.'' @ nl @
     ''Try including a specific person or organization name to retrieve KG relationships.'' \<and>
   reasoningNotes (buildKgAnswer codeUnitCompare sampleKg ctx) =
     ''KG mode fell back to entity-name search because no specific graph neighborhood target was detected.''"
  by (simp add: buildKgAnswer_def sampleKg_def kgFallbackAnswer_def Let_def
      maybeStripEvidence_True listEntities_def truncateText_def split del: if_split cong: if_cong)

lemma causal_trace_answer:
  "ctx_entities ctx = [] \<Longrightarrow> ctx_queryType ctx = CausalChain \<Longrightarrow> ctx_includeEvidence ctx \<Longrightarrow>
   answerText (buildTraceAnswer sampleNtg ctx) =
     ''Heuristic event chain (NTG) for no matched entities:'' @ nl @
     ''This is a heuristic chain assembled from filtered event order and state-change overlays; it is not a formal causal proof.'' \<and>
   reasoningNotes (buildTraceAnswer sampleNtg ctx) =
     ''NTG mode provided a heuristic chain using filtered event order and state-change overlays.''"
  by (simp add: buildTraceAnswer_def sampleNtg_def summarizeTimelineLikeAnswer_def
      Let_def maybeStripEvidence_True listTraceExplorerEvents_def getTimelineSlice_def
      displayEntityList_def entityNames_def truncateText_def
      split del: if_split cong: if_cong)

lemma causal_hybrid_text_with_evidence:
  "answerText (buildHybridAnswer codeUnitCompare sampleKg sampleNtg
      ((requestContext sampleWorld causalRequest)\<lparr> ctx_includeEvidence := True \<rparr>)) =
   join nl [''Hybrid answer (KG + NTG):'',
     ''- KG contribution: KG mode fell back to entity-name search because no specific graph neighborhood target was detected.'',
     ''- NTG contribution: NTG mode provided a heuristic chain using filtered event order and state-change overlays.'',
     '''',
     ''KG summary:'',
     ''No direct entity match detected for this fact-style query.'' @ nl @
     ''Try including a specific person or organization name to retrieve KG relationships.'',
     '''',
     ''NTG summary:'',
     ''Heuristic event chain (NTG) for no matched entities:'' @ nl @
     ''This is a heuristic chain assembled from filtered event order and state-change overlays; it is not a formal causal proof.'']"
proof -
  let ?c = "(requestContext sampleWorld causalRequest)\<lparr> ctx_includeEvidence := True \<rparr>"
  have c: "ctx_entities ?c = []" "ctx_queryType ?c = CausalChain" "ctx_includeEvidence ?c"
    by (simp_all add: causal_context)
  show ?thesis
    unfolding buildHybridAnswer_text
    by (simp only: c causal_kg_answer [OF c(1) c(3)] causal_trace_answer [OF c]) simp
qed

lemma causal_hybrid_text_without_evidence:
  "answerText (buildHybridAnswer codeUnitCompare sampleKg sampleNtg (requestContext sampleWorld causalRequest)) =
   join nl [''Hybrid answer (KG + NTG):'',
     ''- KG contribution: KG mode fell back to entity-name search because no specific graph neighborhood target was detected. Evidence refs omitted by request.'',
     ''- NTG contribution: NTG mode provided a heuristic chain using filtered event order and state-change overlays. Evidence refs omitted by request.'',
     '''',
     ''KG summary:'',
     ''No direct entity match detected for this fact-style query.'' @ nl @
     ''Try including a specific person or organization name to retrieve KG relationships.'',
     '''',
     ''NTG summary:'',
     ''Heuristic event chain (NTG) for no matched entities:'' @ nl @
     ''This is a heuristic chain assembled from filtered event order and state-change overlays; it is not a formal causal proof.'']"
proof -
  let ?f = "requestContext sampleWorld causalRequest"
  let ?c = "?f\<lparr> ctx_includeEvidence := True \<rparr>"
  have c: "ctx_entities ?c = []" "ctx_queryType ?c = CausalChain" "ctx_includeEvidence ?c"
    by (simp_all add: causal_context)
  have f: "ctx_queryType ?f = CausalChain" "\<not> ctx_includeEvidence ?f"
    by (simp_all add: causal_context)
  have k: "buildKgAnswer codeUnitCompare sampleKg ?f =
      maybeStripEvidence (buildKgAnswer codeUnitCompare sampleKg ?c) False"
    using buildKgAnswer_strip [of codeUnitCompare sampleKg ?f] f by simp
  have t: "buildTraceAnswer sampleNtg ?f = maybeStripEvidence (buildTraceAnswer sampleNtg ?c) False"
    using buildTraceAnswer_strip [of sampleNtg ?f] f by simp
  show ?thesis
    unfolding buildHybridAnswer_text k t maybeStripEvidence_frame maybeStripEvidence_notes
    by (simp only: f causal_kg_answer [OF c(1) c(3)] causal_trace_answer [OF c])
       (simp add: evidenceOmittedMarker_def evidenceOmittedNote_def)
qed

subsection \<open>Entity mention detection\<close>

lemma exec_from_first:
  assumes "exec_from p clear phrase s = Some r" and "s = drop p q" and "p \<le> length q"
    and "clear = (p = 0 \<or> \<not> is_alnum (q ! (p - 1)))"
  shows "occurs_at phrase q r \<and> p \<le> r \<and> (\<forall>p'. p \<le> p' \<and> p' < r \<longrightarrow> \<not> occurs_at phrase q p')"
  using assms
proof (induction s arbitrary: p clear)
  case Nil
  then have "p = length q" by simp
  with Nil show ?case
    by (auto simp add: occurs_at_def match_ci_def lookahead_ok_def split: if_splits)
next
  case (Cons c cs)
  from Cons.prems(2,3) have lt: "p < length q"
    by (metis drop_eq_Nil list.distinct(1) not_le)
  from Cons.prems(2) lt have c: "q ! p = c" and cs: "cs = drop (Suc p) q"
    by (metis Cons_nth_drop_Suc list.inject)+
  let ?hit = "clear \<and> match_ci phrase (c # cs) \<and> lookahead_ok (drop (length phrase) (c # cs))"
  have at: "occurs_at phrase q p = ?hit"
    using lt Cons.prems(2,4) by (simp add: occurs_at_def add.commute)
  show ?case
  proof (cases ?hit)
    case True
    with Cons.prems(1) have "r = p" by simp
    with at True show ?thesis by auto
  next
    case False
    with Cons.prems(1) have "exec_from (Suc p) (\<not> is_alnum c) phrase cs = Some r" by auto
    from Cons.IH [OF this cs] lt c
    have ih: "occurs_at phrase q r" "Suc p \<le> r"
        "\<forall>p'. Suc p \<le> p' \<and> p' < r \<longrightarrow> \<not> occurs_at phrase q p'"
      by simp_all
    have "\<not> occurs_at phrase q p'" if "p \<le> p'" "p' < r" for p'
    proof (cases "p' = p")
      case True
      with at False show ?thesis by simp
    next
      case False
      with that ih(3) show ?thesis by simp
    qed
    with ih show ?thesis by simp
  qed
qed

lemma exec_pattern_first:
  assumes "exec_pattern phrase q = Some r"
  shows "occurs_at phrase q r \<and> (\<forall>p < r. \<not> occurs_at phrase q p)"
  using exec_from_first [of 0 True phrase q r q] assms by (simp add: exec_pattern_def)

lemma detect_loop_invariant:
  assumes "occupied = map (\<lambda>m. (m_startIndex m, m_endIndex m)) hits"
    and "sorted_wrt spans_disjoint hits"
    and "\<forall>h \<in> set hits. \<exists>e \<in> E. hitOf q e h"
    and "set entries \<subseteq> E"
  shows "sorted_wrt spans_disjoint (fst (detect_loop entries q hits occupied)) \<and>
     (\<forall>h \<in> set (fst (detect_loop entries q hits occupied)). \<exists>e \<in> E. hitOf q e h)"
  using assms
proof (induction entries arbitrary: hits occupied)
  case Nil
  then show ?case by simp
next
  case (Cons entry rest)
  show ?case
  proof (cases "exec_pattern (le_phrase entry) q")
    case None
    with Cons.IH [OF Cons.prems(1-3)] Cons.prems(4) show ?thesis by simp
  next
    case (Some s)
    let ?mt = "take (length (le_phrase entry)) (drop s q)"
    let ?m = "\<lparr> m_entityId = le_entityId entry, m_canonicalName = le_canonicalName entry,
        m_entityType = le_entityType entry, m_matchedText = ?mt,
        m_matchKind = le_matchKind entry, m_startIndex = s \<rparr>"
    show ?thesis
    proof (cases "overlapsAny s (s + length ?mt) occupied")
      case True
      with Some Cons.IH [OF Cons.prems(1-3)] Cons.prems(4) show ?thesis by (simp add: Let_def)
    next
      case False
      have 1: "occupied @ [(s, s + length ?mt)] = map (\<lambda>m. (m_startIndex m, m_endIndex m)) (hits @ [?m])"
        using Cons.prems(1) by (simp add: m_endIndex_def)
      have "\<forall>h \<in> set hits. spans_disjoint h ?m"
        using False Cons.prems(1)
        by (auto simp add: overlapsAny_def list_ex_iff spans_disjoint_def m_endIndex_def)
      then have 2: "sorted_wrt spans_disjoint (hits @ [?m])"
        using Cons.prems(2) by (simp add: sorted_wrt_append)
      have "hitOf q entry ?m"
        using exec_pattern_first [OF Some] by (simp add: hitOf_def)
      then have 3: "\<forall>h \<in> set (hits @ [?m]). \<exists>e \<in> E. hitOf q e h"
        using Cons.prems(3,4) by auto
      from Cons.IH [OF 1 2 3] Cons.prems(4) Some False show ?thesis
        by (simp add: Let_def)
    qed
  qed
qed

lemma insertBy_set: "set (insertBy cmp x xs) = insert x (set xs)"
  by (induction xs) auto

lemma sortBy_set: "set (sortBy cmp xs) = set xs"
  by (induction xs) (simp_all add: sortBy_def insertBy_set)

lemma insertBy_hit_sorted:
  "sorted (map m_startIndex xs) \<Longrightarrow> sorted (map m_startIndex (insertBy (hitCompare lc) x xs))"
proof (induction xs)
  case Nil
  then show ?case by simp
next
  case (Cons y ys)
  show ?case
  proof (cases "hitCompare lc x y \<le> 0")
    case True
    then have "m_startIndex x \<le> m_startIndex y"
      by (simp add: hitCompare_def Let_def split: if_splits)
    with Cons.prems True show ?thesis by auto
  next
    case False
    then have "m_startIndex y \<le> m_startIndex x"
      by (simp add: hitCompare_def Let_def split: if_splits)
    with Cons False show ?thesis by (auto simp add: insertBy_set)
  qed
qed

lemma sortBy_hit_sorted: "sorted (map m_startIndex (sortBy (hitCompare lc) xs))"
proof (induction xs)
  case Nil
  then show ?case by (simp add: sortBy_def)
next
  case (Cons x xs)
  then show ?case using insertBy_hit_sorted [of "sortBy (hitCompare lc) xs" lc x]
    by (simp add: sortBy_def)
qed

lemma dedupe_loop_append: "dedupe_loop xs seen acc = acc @ dedupe_loop xs seen []"
proof (induction xs arbitrary: seen acc)
  case Nil
  then show ?case by simp
next
  case (Cons x xs)
  show ?case
  proof (cases "m_entityId x \<in> seen")
    case True
    with Cons [of seen acc] show ?thesis by simp
  next
    case False
    with Cons [of "insert (m_entityId x) seen" "acc @ [x]"] Cons [of "insert (m_entityId x) seen" "[x]"]
    show ?thesis by simp
  qed
qed

lemma dedupe_loop_Cons:
  "dedupe_loop (x # xs) seen [] =
     (if m_entityId x \<in> seen then dedupe_loop xs seen []
      else x # dedupe_loop xs (insert (m_entityId x) seen) [])"
  using dedupe_loop_append [of xs "insert (m_entityId x) seen" "[x]"] by simp

lemma dedupe_loop_set: "set (dedupe_loop xs seen []) \<subseteq> set xs"
  by (induction xs arbitrary: seen) (auto simp add: dedupe_loop_Cons simp del: dedupe_loop.simps(2))

lemma dedupe_loop_unseen: "m \<in> set (dedupe_loop xs seen []) \<Longrightarrow> m_entityId m \<notin> seen"
proof (induction xs arbitrary: seen)
  case Nil
  then show ?case by simp
next
  case (Cons x xs)
  show ?case
  proof (cases "m_entityId x \<in> seen")
    case True
    with Cons.prems have "m \<in> set (dedupe_loop xs seen [])"
      by (simp add: dedupe_loop_Cons del: dedupe_loop.simps(2))
    then show ?thesis by (rule Cons.IH)
  next
    case False
    with Cons.prems have "m = x \<or> m \<in> set (dedupe_loop xs (insert (m_entityId x) seen) [])"
      by (simp add: dedupe_loop_Cons del: dedupe_loop.simps(2))
    then show ?thesis
    proof
      assume "m = x"
      with False show ?thesis by simp
    next
      assume "m \<in> set (dedupe_loop xs (insert (m_entityId x) seen) [])"
      from Cons.IH [OF this] show ?thesis by simp
    qed
  qed
qed

lemma dedupe_loop_distinct: "distinct (map m_entityId (dedupe_loop xs seen []))"
proof (induction xs arbitrary: seen)
  case Nil
  then show ?case by simp
next
  case (Cons x xs)
  have "m_entityId x \<notin> m_entityId ` set (dedupe_loop xs (insert (m_entityId x) seen) [])"
  proof
    assume "m_entityId x \<in> m_entityId ` set (dedupe_loop xs (insert (m_entityId x) seen) [])"
    then obtain m where m: "m \<in> set (dedupe_loop xs (insert (m_entityId x) seen) [])"
        "m_entityId m = m_entityId x"
      by auto
    from dedupe_loop_unseen [OF m(1)] m(2) show False by simp
  qed
  with Cons show ?case by (simp add: dedupe_loop_Cons del: dedupe_loop.simps(2))
qed

lemma dedupe_loop_covers:
  "h \<in> set xs \<Longrightarrow> m_entityId h \<notin> seen \<Longrightarrow> m_entityId h \<in> m_entityId ` set (dedupe_loop xs seen [])"
proof (induction xs arbitrary: seen)
  case Nil
  then show ?case by simp
next
  case (Cons x xs)
  show ?case
  proof (cases "m_entityId h = m_entityId x")
    case True
    with Cons.prems show ?thesis by (simp add: dedupe_loop_Cons del: dedupe_loop.simps(2))
  next
    case False
    with Cons.prems have "h \<in> set xs" by auto
    from Cons.IH [OF this, of seen] Cons.IH [OF this, of "insert (m_entityId x) seen"] Cons.prems(2) False
    show ?thesis by (simp add: dedupe_loop_Cons del: dedupe_loop.simps(2))
  qed
qed

lemma dedupe_loop_sorted:
  "sorted (map m_startIndex xs) \<Longrightarrow> sorted (map m_startIndex (dedupe_loop xs seen []))"
proof (induction xs arbitrary: seen)
  case Nil
  then show ?case by simp
next
  case (Cons x xs)
  then show ?case
    using dedupe_loop_set [of xs "insert (m_entityId x) seen"]
    by (auto simp add: dedupe_loop_Cons simp del: dedupe_loop.simps(2))
qed

lemma dedupe_loop_leftmost:
  assumes "sorted (map m_startIndex xs)" and "m \<in> set (dedupe_loop xs seen [])" and "h \<in> set xs"
    and "m_entityId h = m_entityId m"
  shows "m_startIndex m \<le> m_startIndex h"
  using assms
proof (induction xs arbitrary: seen)
  case Nil
  then show ?case by simp
next
  case (Cons x xs)
  have s: "sorted (map m_startIndex xs)" "\<forall>y \<in> set xs. m_startIndex x \<le> m_startIndex y"
    using Cons.prems(1) by simp_all
  show ?case
  proof (cases "m_entityId x \<in> seen")
    case True
    with Cons.prems(2) have m: "m \<in> set (dedupe_loop xs seen [])"
      by (simp add: dedupe_loop_Cons del: dedupe_loop.simps(2))
    from dedupe_loop_unseen [OF m] True Cons.prems(3,4) have "h \<in> set xs" by auto
    from Cons.IH [OF s(1) m this Cons.prems(4)] show ?thesis .
  next
    case False
    with Cons.prems(2) have "m = x \<or> m \<in> set (dedupe_loop xs (insert (m_entityId x) seen) [])"
      by (simp add: dedupe_loop_Cons del: dedupe_loop.simps(2))
    then show ?thesis
    proof
      assume "m = x"
      with s(2) Cons.prems(3) show ?thesis by auto
    next
      assume m: "m \<in> set (dedupe_loop xs (insert (m_entityId x) seen) [])"
      from dedupe_loop_unseen [OF m] Cons.prems(3,4) have "h \<in> set xs" by auto
      from Cons.IH [OF s(1) m this Cons.prems(4)] show ?thesis .
    qed
  qed
qed

lemma detectEntitiesInQuestion_hits:
  "detectEntitiesInQuestion lc entries question =
     dedupe_loop (sortBy (hitCompare lc) (acceptedHits entries question)) {} []"
  by (simp add: detectEntitiesInQuestion_def acceptedHits_def Let_def sortBy_def)

lemma acceptedHits_facts:
  "sorted_wrt spans_disjoint (acceptedHits entries question)"
  "h \<in> set (acceptedHits entries question) \<Longrightarrow> \<exists>e \<in> set entries. hitOf (normalizeText question) e h"
  using detect_loop_invariant [of "[]" "[]" "set entries" "normalizeText question" entries]
  by (simp_all add: acceptedHits_def)

lemma sorted_wrt_spans_disjoint:
  assumes "sorted_wrt spans_disjoint xs" and "a \<in> set xs" and "b \<in> set xs" and "a \<noteq> b"
  shows "spans_disjoint a b"
proof -
  have sym: "spans_disjoint x y \<Longrightarrow> spans_disjoint y x" for x y
    by (auto simp add: spans_disjoint_def)
  from assms(2,3) obtain i j where ij: "i < length xs" "j < length xs" "xs ! i = a" "xs ! j = b"
    by (auto simp add: in_set_conv_nth)
  with assms(4) have "i \<noteq> j" by auto
  then consider "i < j" | "j < i" by arith
  then show ?thesis
  proof cases
    case 1
    with assms(1) ij show ?thesis by (auto simp add: sorted_wrt_iff_nth_less)
  next
    case 2
    with assms(1) ij have "spans_disjoint b a" by (auto simp add: sorted_wrt_iff_nth_less)
    then show ?thesis by (rule sym)
  qed
qed

lemma twice_named_mentions:
  "detectEntitiesInQuestion codeUnitCompare sampleLexicon
      ''Frank met Hoffa; later Frank Sheeran called Jimmy Hoffa'' = [frankHint, hoffaHint]"
  by code_simp

lemma twice_named_hits:
  "acceptedHits sampleLexicon ''Frank met Hoffa; later Frank Sheeran called Jimmy Hoffa'' =
     [frankFull, hoffaFull, frankHint, hoffaHint]"
  by code_simp

section \<open>Claims\<close>

text \<open>
  Claim C7. \<open>normalizeStructuredAnswer\<close> is idempotent: for every answer \<open>x\<close>,
  also one whose confidence is not finite, normalizing the normalized answer gives the
  normalized answer again.
\<close>

theorem normalizeStructuredAnswer_idempotent:
  "normalizeStructuredAnswer (normalizeStructuredAnswer x) = normalizeStructuredAnswer x"
  by (simp add: normalizeStructuredAnswer_def trim_idem uniqueStrings_idem clampConfidence_idem)

text \<open>
  Claim C3. For every question and every preferred mode of the request: a preferred mode
  other than \<open>auto\<close> is the mode used, under the same name, with \<open>baseline\<close> standing
  for \<open>baseline_rag\<close>, and the reasoning says that it was an override by the user;
  under \<open>auto\<close> the mode used is the fixed default of the classified query type: \<open>fact\<close>
  gives kg, \<open>timeline\<close> and \<open>state_change\<close> give ntg, \<open>causal_chain\<close>, \<open>evidence\<close> and
  \<open>comparison\<close> give hybrid.
\<close>

theorem routeQuery_mode_selection:
  "route_queryType (routeQuery q (Some (preferredModeName p)) n) = classifyQueryType q \<and>
   (p \<noteq> Auto \<longrightarrow>
      route_modeUsed (routeQuery q (Some (preferredModeName p)) n) = asAnswerMode p \<and>
      (p \<noteq> PrefBaseline \<longrightarrow>
         answerModeName (route_modeUsed (routeQuery q (Some (preferredModeName p)) n)) = preferredModeName p) \<and>
      (p = PrefBaseline \<longrightarrow> route_modeUsed (routeQuery q (Some (preferredModeName p)) n) = BaselineRag) \<and>
      route_reasoning (routeQuery q (Some (preferredModeName p)) n) =
        ''User preferred '' @ preferredModeName p @ '' mode override.'' \<and>
      str_includes (route_reasoning (routeQuery q (Some (preferredModeName p)) n)) ''override'') \<and>
   (p = Auto \<longrightarrow>
      route_modeUsed (routeQuery q (Some (preferredModeName p)) n) = defaultMode (classifyQueryType q))"
proof -
  let ?r = "routeQuery q (Some (preferredModeName p)) n"
  have inc: "str_includes (''User preferred '' @ preferredModeName p @ '' mode override.'') ''override''"
    by (intro str_includes_appendI2) simp
  have qt: "route_queryType ?r = classifyQueryType q"
    by (simp add: routeQuery_def Let_def)
  have m: "route_modeUsed ?r = asAnswerMode p" if "p \<noteq> Auto"
    by (simp only: routeQuery_def Let_def selectMode_preferred) (simp add: that)
  have re: "route_reasoning ?r = ''User preferred '' @ preferredModeName p @ '' mode override.''"
    if "p \<noteq> Auto"
    by (simp only: routeQuery_def Let_def selectMode_preferred) (simp add: that)
  have a: "route_modeUsed ?r = defaultMode (classifyQueryType q)" if "p = Auto"
    by (simp only: routeQuery_def Let_def selectMode_preferred) (simp add: that selectMode_auto)
  have nm: "answerModeName (asAnswerMode p) = preferredModeName p" if "p \<noteq> Auto" "p \<noteq> PrefBaseline"
    using that by (cases p) simp_all
  show ?thesis
    using inc qt m re a nm by (auto simp del: str_includes.simps)
qed

theorem routeQuery_mode_selection_witness:
  "PrefKg \<noteq> Auto \<and> PrefKg \<noteq> PrefBaseline \<and>
   classifyQueryType ''When does Frank meet Russell?'' = Timeline \<and>
   route_queryType (routeQuery ''When does Frank meet Russell?'' (Some ''kg'') 1) = Timeline \<and>
   route_modeUsed (routeQuery ''When does Frank meet Russell?'' (Some ''kg'') 1) = Kg \<and>
   str_includes (route_reasoning (routeQuery ''When does Frank meet Russell?'' (Some ''kg'') 1)) ''override'' \<and>
   route_modeUsed (routeQuery ''When does Frank meet Russell?'' (Some ''auto'') 1) = Ntg \<and>
   route_modeUsed (routeQuery ''When does Frank meet Russell?'' (Some ''baseline'') 1) = BaselineRag"
proof -
  have c: "classifyQueryType ''When does Frank meet Russell?'' = Timeline"
    by code_simp
  show ?thesis
    using routeQuery_mode_selection [where p = PrefKg and q = "''When does Frank meet Russell?''" and n = 1]
      routeQuery_mode_selection [where p = Auto and q = "''When does Frank meet Russell?''" and n = 1]
      routeQuery_mode_selection [where p = PrefBaseline and q = "''When does Frank meet Russell?''" and n = 1]
    by (simp add: c)
qed

text \<open>
  Claim C9, as stated: the reasoning notes of a hybrid answer concatenate the rationale of
  the graph-neighborhood builder and the rationale of the narrative-trace builder. It fails:
  for a causal-chain question on the sample stores the notes of the hybrid answer are not
  that concatenation and contain neither rationale.
\<close>

theorem hybrid_notes_not_concatenated:
  "reasoningNotes (buildHybridAnswer codeUnitCompare sampleKg sampleNtg causalContext) \<noteq>
     trim (reasoningNotes (buildKgAnswer codeUnitCompare sampleKg causalContext) @ '' '' @
           reasoningNotes (buildTraceAnswer sampleNtg causalContext)) \<and>
   \<not> str_includes (reasoningNotes (buildHybridAnswer codeUnitCompare sampleKg sampleNtg causalContext))
        (reasoningNotes (buildKgAnswer codeUnitCompare sampleKg causalContext)) \<and>
   \<not> str_includes (reasoningNotes (buildHybridAnswer codeUnitCompare sampleKg sampleNtg causalContext))
        (reasoningNotes (buildTraceAnswer sampleNtg causalContext))"
proof -
  have h: "reasoningNotes (buildHybridAnswer codeUnitCompare sampleKg sampleNtg causalContext) = hybridReasoning"
    by (simp add: buildHybridAnswer_notes causalContext_def)
  show ?thesis
    unfolding h kg_causal_notes trace_causal_notes
    by (simp add: hybridReasoning_def trim_def is_ws_def)
qed

text \<open>
  Claim C9, amended. \<open>buildHybridAnswer\<close> passes its own fixed rationale to
  \<open>mergeAnswerCores\<close>: the reasoning notes of every hybrid answer are that fixed text,
  followed by the note on omitted evidence when the request excludes evidence. The two
  builders' rationales are carried by the answer text, for every query type but comparison.
\<close>

theorem hybrid_notes_fixed:
  "reasoningNotes (buildHybridAnswer lc kgs ntgs ctx) =
     (if ctx_includeEvidence ctx then hybridReasoning else hybridReasoning @ '' '' @ evidenceOmittedNote) \<and>
   (ctx_queryType ctx \<noteq> Comparison \<longrightarrow>
      str_includes (answerText (buildHybridAnswer lc kgs ntgs ctx)) (reasoningNotes (buildKgAnswer lc kgs ctx)) \<and>
      str_includes (answerText (buildHybridAnswer lc kgs ntgs ctx)) (reasoningNotes (buildTraceAnswer ntgs ctx)))"
  using buildHybridAnswer_notes buildHybridAnswer_text_rationales by blast

theorem hybrid_notes_fixed_witness:
  "ctx_queryType causalContext \<noteq> Comparison \<and>
   reasoningNotes (buildHybridAnswer codeUnitCompare sampleKg sampleNtg causalContext) = hybridReasoning \<and>
   str_includes (answerText (buildHybridAnswer codeUnitCompare sampleKg sampleNtg causalContext))
     ''KG mode fell back to entity-name search because no specific graph neighborhood target was detected.'' \<and>
   str_includes (answerText (buildHybridAnswer codeUnitCompare sampleKg sampleNtg causalContext))
     ''NTG mode provided a heuristic chain using filtered event order and state-change overlays.''"
proof -
  have q: "ctx_queryType causalContext \<noteq> Comparison" "ctx_includeEvidence causalContext"
    by (simp_all add: causalContext_def)
  show ?thesis
    using hybrid_notes_fixed [of codeUnitCompare sampleKg sampleNtg causalContext] q
    by (simp add: kg_causal_notes trace_causal_notes del: str_includes.simps)
qed

text \<open>
  Claim C8, as stated: for an evidence query answered by the narrative-trace builder on
  loaded artifacts, the confidence is \<open>min(0.86, 0.45 + shown * 0.04)\<close>, with \<open>shown\<close> the
  number of rendered rows. It fails when no row is found: the confidence is then 0.2, not
  0.45.
\<close>

theorem evidence_confidence_without_rows:
  "ntg_available silentNtg \<and> ctx_queryType evidenceContext = Evidence \<and>
   length (take 8 (ntg_traceRows silentNtg (evidenceFilters evidenceContext))) = 0 \<and>
   confidence (buildTraceAnswer silentNtg evidenceContext) = Finite 0.2 \<and>
   confidence (buildTraceAnswer silentNtg evidenceContext) \<noteq>
     Finite (min 0.86 (0.45 + real (length (take 8 (ntg_traceRows silentNtg (evidenceFilters evidenceContext)))) * 0.04))"
proof -
  have a: "ntg_available silentNtg" by (simp add: silentNtg_def)
  have b: "ctx_queryType evidenceContext = Evidence" by (simp add: evidenceContext_def)
  have c: "ntg_traceRows silentNtg (evidenceFilters evidenceContext) = []"
    by (simp add: silentNtg_def)
  show ?thesis
    unfolding buildTraceAnswer_evidence [OF a b] evidenceAnswer_confidence
    using a b by (simp add: c)
qed

text \<open>
  Claim C8, amended. With \<open>shown\<close> the number of rendered rows, at most 8: the confidence
  is \<open>min(0.86, 0.45 + shown * 0.04)\<close> when at least one row is rendered, and 0.2 when
  none is.
\<close>

theorem evidence_confidence_by_rows:
  assumes "ntg_available ntgs" and "ctx_queryType ctx = Evidence"
  shows "confidence (buildTraceAnswer ntgs ctx) =
     (let shown = min 8 (length (ntg_traceRows ntgs (evidenceFilters ctx))) in
      Finite (if shown = 0 then 0.2 else min 0.86 (0.45 + real shown * 0.04)))"
proof -
  let ?rows = "ntg_traceRows ntgs (evidenceFilters ctx)"
  have l: "length (take 8 ?rows) = min 8 (length ?rows)" by (simp add: min.commute)
  have e: "(take 8 ?rows \<noteq> []) = (min 8 (length ?rows) \<noteq> 0)"
    by (cases ?rows) simp_all
  show ?thesis
    unfolding buildTraceAnswer_evidence [OF assms] evidenceAnswer_confidence Let_def
    by (simp only: TraceEventsReply.simps l e) simp
qed

theorem evidence_confidence_by_rows_witness:
  "ntg_available sampleNtg \<and> ctx_queryType evidenceContext = Evidence \<and>
   length (ntg_traceRows sampleNtg (evidenceFilters evidenceContext)) = 1 \<and>
   confidence (buildTraceAnswer sampleNtg evidenceContext) = Finite 0.49"
proof -
  have a: "ntg_available sampleNtg" by (simp add: sampleNtg_def)
  have b: "ctx_queryType evidenceContext = Evidence" by (simp add: evidenceContext_def)
  have c: "ntg_traceRows sampleNtg (evidenceFilters evidenceContext) = [meetingRow]"
    by (simp add: sampleNtg_def)
  show ?thesis
    using evidence_confidence_by_rows [OF a b] a b by (simp add: c)
qed

text \<open>
  Claim C5, as stated: when the artifacts of a graph store are missing, each of the four
  builders returns a valid answer of low confidence whose text says which artifacts are
  missing. It fails for the hybrid builder when only one of its two stores is missing:
  with the narrative-trace artifacts missing and the graph-neighborhood store loaded, the
  hybrid answer for a question about Frank Sheeran has confidence 0.709.
\<close>

theorem hybrid_not_low_with_one_store_missing:
  "\<not> ntg_available missingNtg \<and>
   confidence (buildHybridAnswer codeUnitCompare sampleKg missingNtg frankContext) = Finite 0.709 \<and>
   \<not> lowConfidence (buildHybridAnswer codeUnitCompare sampleKg missingNtg frankContext)"
proof -
  have a: "\<not> ntg_available missingNtg" by (simp add: missingNtg_def)
  have c: "confidence (buildHybridAnswer codeUnitCompare sampleKg missingNtg frankContext) = Finite 0.709"
    by (simp add: buildHybridAnswer_fields kg_frank_confidence trace_missing(2) [OF a]
        num_times_def num_plus_def)
  show ?thesis using a by (simp add: c lowConfidence_def)
qed

text \<open>
  Claim C5, amended. When the artifacts of a store are missing, each builder that reads
  the store returns a valid answer whose text says which artifacts are missing: the
  graph-neighborhood builder with confidence 0.1, the narrative-trace builder with
  confidence 0.12 and the lexical-baseline builder with confidence 0.1, all of them low.
  The text of the hybrid answer contains the message of each builder whose store is
  missing. Its confidence is \<open>min(0.93, max(kgConf, traceConf) * 0.97 + 0.03)\<close>, where
  \<open>kgConf\<close> is 0.1 when the graph-neighborhood artifacts are missing and \<open>traceConf\<close> is
  0.12 when the narrative-trace artifacts are missing: it is 0.1464, and low, when both
  stores are missing, and it is computed from the confidence of the other builder when
  one store is loaded.
\<close>

theorem store_unavailable_answers:
  "(\<not> kg_available kgs \<longrightarrow>
      answerText (buildKgAnswer lc kgs ctx) = kgMissingText \<and>
      confidence (buildKgAnswer lc kgs ctx) = Finite 0.1 \<and>
      lowConfidence (buildKgAnswer lc kgs ctx) \<and>
      str_includes (answerText (buildHybridAnswer lc kgs ntgs ctx)) kgMissingText \<and>
      confidence (buildHybridAnswer lc kgs ntgs ctx) =
        num_min (Finite 0.93) (num_plus (num_times
          (num_max (Finite 0.1) (confidence (buildTraceAnswer ntgs ctx))) 0.97) 0.03)) \<and>
   (\<not> ntg_available ntgs \<longrightarrow>
      answerText (buildTraceAnswer ntgs ctx) = ntgMissingText (ctx_queryType ctx) \<and>
      confidence (buildTraceAnswer ntgs ctx) = Finite 0.12 \<and>
      lowConfidence (buildTraceAnswer ntgs ctx) \<and>
      answerText (buildBaselineRagLikeAnswer lc ntgs ctx) = baselineMissingText \<and>
      confidence (buildBaselineRagLikeAnswer lc ntgs ctx) = Finite 0.1 \<and>
      lowConfidence (buildBaselineRagLikeAnswer lc ntgs ctx) \<and>
      str_includes (answerText (buildHybridAnswer lc kgs ntgs ctx)) (ntgMissingText (ctx_queryType ctx)) \<and>
      confidence (buildHybridAnswer lc kgs ntgs ctx) =
        num_min (Finite 0.93) (num_plus (num_times
          (num_max (confidence (buildKgAnswer lc kgs ctx)) (Finite 0.12)) 0.97) 0.03)) \<and>
   (\<not> kg_available kgs \<and> \<not> ntg_available ntgs \<longrightarrow>
      confidence (buildHybridAnswer lc kgs ntgs ctx) = Finite 0.1464 \<and>
      lowConfidence (buildHybridAnswer lc kgs ntgs ctx)) \<and>
   validAnswer (buildKgAnswer lc kgs ctx) \<and>
   validAnswer (buildTraceAnswer ntgs ctx) \<and>
   validAnswer (buildBaselineRagLikeAnswer lc ntgs ctx) \<and>
   validAnswer (buildHybridAnswer lc kgs ntgs ctx)"
proof -
  have k: "str_includes (answerText (buildHybridAnswer lc kgs ntgs ctx)) kgMissingText"
    if "\<not> kg_available kgs"
    using hybrid_text_parts(1) [of lc kgs ntgs ctx] by (simp only: kg_missing(1) [OF that])
  have n: "str_includes (answerText (buildHybridAnswer lc kgs ntgs ctx)) (ntgMissingText (ctx_queryType ctx))"
    if "\<not> ntg_available ntgs"
    using hybrid_text_parts(2) [of lc kgs ntgs ctx] by (simp only: trace_missing(1) [OF that])
  have ck: "confidence (buildHybridAnswer lc kgs ntgs ctx) =
      num_min (Finite 0.93) (num_plus (num_times
        (num_max (Finite 0.1) (confidence (buildTraceAnswer ntgs ctx))) 0.97) 0.03)"
    if "\<not> kg_available kgs"
    by (simp only: buildHybridAnswer_fields(3) kg_missing(2) [OF that])
  have cn: "confidence (buildHybridAnswer lc kgs ntgs ctx) =
      num_min (Finite 0.93) (num_plus (num_times
        (num_max (confidence (buildKgAnswer lc kgs ctx)) (Finite 0.12)) 0.97) 0.03)"
    if "\<not> ntg_available ntgs"
    by (simp only: buildHybridAnswer_fields(3) trace_missing(2) [OF that])
  have c: "confidence (buildHybridAnswer lc kgs ntgs ctx) = Finite 0.1464"
    if "\<not> kg_available kgs" "\<not> ntg_available ntgs"
    by (simp add: buildHybridAnswer_fields kg_missing(2) [OF that(1)] trace_missing(2) [OF that(2)]
        num_times_def num_plus_def)
  have s: "\<not> kg_available kgs \<longrightarrow>
      answerText (buildKgAnswer lc kgs ctx) = kgMissingText \<and>
      confidence (buildKgAnswer lc kgs ctx) = Finite 0.1 \<and>
      lowConfidence (buildKgAnswer lc kgs ctx) \<and>
      str_includes (answerText (buildHybridAnswer lc kgs ntgs ctx)) kgMissingText"
    using k by (simp add: kg_missing lowConfidence_def del: str_includes.simps)
  have t: "\<not> ntg_available ntgs \<longrightarrow>
      answerText (buildTraceAnswer ntgs ctx) = ntgMissingText (ctx_queryType ctx) \<and>
      confidence (buildTraceAnswer ntgs ctx) = Finite 0.12 \<and>
      lowConfidence (buildTraceAnswer ntgs ctx) \<and>
      answerText (buildBaselineRagLikeAnswer lc ntgs ctx) = baselineMissingText \<and>
      confidence (buildBaselineRagLikeAnswer lc ntgs ctx) = Finite 0.1 \<and>
      lowConfidence (buildBaselineRagLikeAnswer lc ntgs ctx) \<and>
      str_includes (answerText (buildHybridAnswer lc kgs ntgs ctx)) (ntgMissingText (ctx_queryType ctx))"
    using n by (simp add: trace_missing baseline_missing lowConfidence_def del: str_includes.simps)
  have b: "\<not> kg_available kgs \<and> \<not> ntg_available ntgs \<longrightarrow>
      confidence (buildHybridAnswer lc kgs ntgs ctx) = Finite 0.1464 \<and>
      lowConfidence (buildHybridAnswer lc kgs ntgs ctx)"
    using c by (simp add: lowConfidence_def)
  show ?thesis
    using s t b ck cn buildKgAnswer_valid [of lc kgs ctx] buildTraceAnswer_valid [of ntgs ctx]
      buildBaselineRagLikeAnswer_valid [of lc ntgs ctx] buildHybridAnswer_valid [of lc kgs ntgs ctx]
    by blast
qed

theorem store_unavailable_answers_witness:
  "\<not> kg_available missingKg \<and> \<not> ntg_available missingNtg \<and>
   confidence (buildKgAnswer codeUnitCompare missingKg frankContext) = Finite 0.1 \<and>
   confidence (buildTraceAnswer missingNtg frankContext) = Finite 0.12 \<and>
   confidence (buildBaselineRagLikeAnswer codeUnitCompare missingNtg frankContext) = Finite 0.1 \<and>
   confidence (buildHybridAnswer codeUnitCompare missingKg missingNtg frankContext) = Finite 0.1464 \<and>
   lowConfidence (buildHybridAnswer codeUnitCompare missingKg missingNtg frankContext) \<and>
   str_includes (answerText (buildHybridAnswer codeUnitCompare missingKg missingNtg frankContext)) kgMissingText \<and>
   str_includes (answerText (buildHybridAnswer codeUnitCompare missingKg missingNtg frankContext))
     ''NTG artifacts are unavailable. Run Phase 3/4 generation and retry.'' \<and>
   kg_available sampleKg \<and>
   confidence (buildKgAnswer codeUnitCompare sampleKg frankContext) = Finite 0.7 \<and>
   confidence (buildHybridAnswer codeUnitCompare sampleKg missingNtg frankContext) = Finite 0.709"
proof -
  have a: "\<not> kg_available missingKg" "\<not> ntg_available missingNtg" "kg_available sampleKg"
    by (simp_all add: missingKg_def missingNtg_def sampleKg_def)
  have q: "ntgMissingText (ctx_queryType frankContext) =
      ''NTG artifacts are unavailable. Run Phase 3/4 generation and retry.''"
    by (simp add: ntgMissingText_def frankContext_def)
  have both: "confidence (buildKgAnswer codeUnitCompare missingKg frankContext) = Finite 0.1 \<and>
      confidence (buildTraceAnswer missingNtg frankContext) = Finite 0.12 \<and>
      confidence (buildBaselineRagLikeAnswer codeUnitCompare missingNtg frankContext) = Finite 0.1 \<and>
      confidence (buildHybridAnswer codeUnitCompare missingKg missingNtg frankContext) = Finite 0.1464 \<and>
      lowConfidence (buildHybridAnswer codeUnitCompare missingKg missingNtg frankContext) \<and>
      str_includes (answerText (buildHybridAnswer codeUnitCompare missingKg missingNtg frankContext)) kgMissingText \<and>
      str_includes (answerText (buildHybridAnswer codeUnitCompare missingKg missingNtg frankContext))
        ''NTG artifacts are unavailable. Run Phase 3/4 generation and retry.''"
    using store_unavailable_answers [where kgs = missingKg and lc = codeUnitCompare
        and ctx = frankContext and ntgs = missingNtg] a(1,2)
    unfolding q by blast
  have "confidence (buildHybridAnswer codeUnitCompare sampleKg missingNtg frankContext) =
      num_min (Finite 0.93) (num_plus (num_times
        (num_max (confidence (buildKgAnswer codeUnitCompare sampleKg frankContext)) (Finite 0.12)) 0.97) 0.03)"
    using store_unavailable_answers [where kgs = sampleKg and lc = codeUnitCompare
        and ctx = frankContext and ntgs = missingNtg] a(2)
    by blast
  then have one: "confidence (buildHybridAnswer codeUnitCompare sampleKg missingNtg frankContext) = Finite 0.709"
    by (simp add: kg_frank_confidence num_times_def num_plus_def)
  show ?thesis
    using a both one kg_frank_confidence by blast
qed

text \<open>
  Claim C6, as stated: on any failure, a disabled flag and a missing credential among them,
  the deterministic answer is returned unchanged except for an appended note. It fails for
  the disabled flag (and the missing credential, which gives the same status): the answer
  comes back with its reasoning notes unchanged, without a note.
\<close>

theorem synthesis_without_call_adds_no_note:
  "\<not> llm_enabled (llm_status disabledLlm) \<and>
   normalizeStructuredAnswer sampleAnswer = sampleAnswer \<and>
   reasoningNotes (out_answer (maybeSynthesizeStructuredAnswerWithLLM disabledLlm sampleAnswer
      ''Who are the key people connected to Frank Sheeran?'' None)) = reasoningNotes sampleAnswer \<and>
   out_answer (maybeSynthesizeStructuredAnswerWithLLM disabledLlm sampleAnswer
      ''Who are the key people connected to Frank Sheeran?'' None) = sampleAnswer"
proof -
  have d: "\<not> llm_enabled (llm_status disabledLlm)" by (simp add: disabledLlm_def)
  have "out_answer (maybeSynthesizeStructuredAnswerWithLLM disabledLlm sampleAnswer
      ''Who are the key people connected to Frank Sheeran?'' None) = sampleAnswer"
    using d by (simp add: synth_skipped sampleAnswer_normalized)
  with d show ?thesis by (simp add: sampleAnswer_normalized)
qed

text \<open>
  Claim C6, amended. The layer never changes the mode, the query type, the confidence or
  any of the four lists of the normalized answer, and the reasoning notes only grow at
  their end. When the answer text is empty, the flag is off or the credential is missing,
  the normalized answer is returned as it is. When the call is made and fails, the answer
  text stays and the fallback note is in the reasoning notes. When the call succeeds, the
  note on the synthesis is in the reasoning notes and the answer text is the labeled
  reply: the trimmed reply itself when it begins with \<open>LLM-assisted\<close> in any letter case,
  a fixed sentence when the trimmed reply is empty, and otherwise the trimmed reply under
  the line \<open>LLM-assisted (structured evidence preserved)\<close>. In each case the answer text
  begins with \<open>LLM-assisted\<close> up to letter case.
\<close>

theorem synthesis_frame:
  fixes llm :: LlmProvider and a :: StructuredAnswerCore
  shows
  "modeUsed (out_answer (maybeSynthesizeStructuredAnswerWithLLM llm a q label)) = modeUsed (normalizeStructuredAnswer a) \<and>
   queryType (out_answer (maybeSynthesizeStructuredAnswerWithLLM llm a q label)) = queryType (normalizeStructuredAnswer a) \<and>
   confidence (out_answer (maybeSynthesizeStructuredAnswerWithLLM llm a q label)) = confidence (normalizeStructuredAnswer a) \<and>
   entitiesUsed (out_answer (maybeSynthesizeStructuredAnswerWithLLM llm a q label)) = entitiesUsed (normalizeStructuredAnswer a) \<and>
   eventsUsed (out_answer (maybeSynthesizeStructuredAnswerWithLLM llm a q label)) = eventsUsed (normalizeStructuredAnswer a) \<and>
   stateChangesUsed (out_answer (maybeSynthesizeStructuredAnswerWithLLM llm a q label)) = stateChangesUsed (normalizeStructuredAnswer a) \<and>
   evidenceRefs (out_answer (maybeSynthesizeStructuredAnswerWithLLM llm a q label)) = evidenceRefs (normalizeStructuredAnswer a) \<and>
   prefix (reasoningNotes (normalizeStructuredAnswer a))
     (reasoningNotes (out_answer (maybeSynthesizeStructuredAnswerWithLLM llm a q label))) \<and>
   (trim (answerText (normalizeStructuredAnswer a)) = [] \<or> \<not> llm_enabled (llm_status llm) \<longrightarrow>
      out_answer (maybeSynthesizeStructuredAnswerWithLLM llm a q label) = normalizeStructuredAnswer a) \<and>
   (trim (answerText (normalizeStructuredAnswer a)) \<noteq> [] \<and> llm_enabled (llm_status llm) \<longrightarrow>
      (case llm_generate llm buildSystemPrompt (buildUserPrompt q (normalizeStructuredAnswer a)) of
         GenFailed err model \<Rightarrow>
           \<not> out_assisted (maybeSynthesizeStructuredAnswerWithLLM llm a q label) \<and>
           answerText (out_answer (maybeSynthesizeStructuredAnswerWithLLM llm a q label)) =
             answerText (normalizeStructuredAnswer a) \<and>
           str_includes (reasoningNotes (out_answer (maybeSynthesizeStructuredAnswerWithLLM llm a q label)))
             (fallbackNote model err)
       | GenOk text model responseId \<Rightarrow>
           out_assisted (maybeSynthesizeStructuredAnswerWithLLM llm a q label) \<and>
           answerText (out_answer (maybeSynthesizeStructuredAnswerWithLLM llm a q label)) =
             ensureAssistedLabel (truncateText text 8000) \<and>
           match_ci assistedPrefix (answerText (out_answer (maybeSynthesizeStructuredAnswerWithLLM llm a q label))) \<and>
           (if match_ci assistedPrefix (trim (truncateText text 8000))
            then answerText (out_answer (maybeSynthesizeStructuredAnswerWithLLM llm a q label)) =
                   trim (truncateText text 8000)
            else if trim (truncateText text 8000) = []
            then answerText (out_answer (maybeSynthesizeStructuredAnswerWithLLM llm a q label)) =
                   ''LLM-assisted synthesis is unavailable; using deterministic answer.''
            else answerText (out_answer (maybeSynthesizeStructuredAnswerWithLLM llm a q label)) =
                   ''LLM-assisted (structured evidence preserved)'' @ nl @ trim (truncateText text 8000)) \<and>
           str_includes (reasoningNotes (out_answer (maybeSynthesizeStructuredAnswerWithLLM llm a q label)))
             (assistedNote model label responseId)))"
proof -
  let ?out = "maybeSynthesizeStructuredAnswerWithLLM llm a q label"
  let ?n = "normalizeStructuredAnswer a"
  have nomatch: "\<not> match_ci assistedPrefix []"
    by (simp add: match_ci_def assistedPrefix_def)
  have label: "ensureAssistedLabel reply =
      (if match_ci assistedPrefix (trim reply) then trim reply
       else if trim reply = [] then ''LLM-assisted synthesis is unavailable; using deterministic answer.''
       else ''LLM-assisted (structured evidence preserved)'' @ nl @ trim reply)" for reply
    using nomatch by (cases "trim reply = []") (simp_all add: ensureAssistedLabel_def Let_def)
  have call: "(case llm_generate llm buildSystemPrompt (buildUserPrompt q ?n) of
         GenFailed err model \<Rightarrow>
           \<not> out_assisted ?out \<and> answerText (out_answer ?out) = answerText ?n \<and>
           str_includes (reasoningNotes (out_answer ?out)) (fallbackNote model err)
       | GenOk text model responseId \<Rightarrow>
           out_assisted ?out \<and>
           answerText (out_answer ?out) = ensureAssistedLabel (truncateText text 8000) \<and>
           match_ci assistedPrefix (answerText (out_answer ?out)) \<and>
           (if match_ci assistedPrefix (trim (truncateText text 8000))
            then answerText (out_answer ?out) = trim (truncateText text 8000)
            else if trim (truncateText text 8000) = []
            then answerText (out_answer ?out) =
                   ''LLM-assisted synthesis is unavailable; using deterministic answer.''
            else answerText (out_answer ?out) =
                   ''LLM-assisted (structured evidence preserved)'' @ nl @ trim (truncateText text 8000)) \<and>
           str_includes (reasoningNotes (out_answer ?out)) (assistedNote model label responseId))"
    if t: "trim (answerText ?n) \<noteq> []" and e: "llm_enabled (llm_status llm)"
  proof (cases "llm_generate llm buildSystemPrompt (buildUserPrompt q ?n)")
    case (GenOk reply mdl rid)
    note ok = synth_ok [OF t e GenOk, of label]
    have 1: "match_ci assistedPrefix (answerText (out_answer ?out))"
      by (simp only: ok(1) ensureAssistedLabel_labeled)
    have 2: "(if match_ci assistedPrefix (trim (truncateText reply 8000))
            then answerText (out_answer ?out) = trim (truncateText reply 8000)
            else if trim (truncateText reply 8000) = []
            then answerText (out_answer ?out) =
                   ''LLM-assisted synthesis is unavailable; using deterministic answer.''
            else answerText (out_answer ?out) =
                   ''LLM-assisted (structured evidence preserved)'' @ nl @ trim (truncateText reply 8000))"
      unfolding ok(1) label [of "truncateText reply 8000"] by (simp only: if_distrib if_cancel split: if_split) simp
    from ok 1 2 show ?thesis
      by (simp only: GenOk OpenAITextGenerationResult.case simp_thms)
  next
    case (GenFailed err mdl)
    from synth_failed [OF t e GenFailed, of label] show ?thesis
      by (simp add: GenFailed del: str_includes.simps)
  qed
  show ?thesis
    using call synth_skipped [of a llm q label] synth_notes_prefix [of a llm q label]
    by (simp only: synth_frame) blast
qed

theorem synthesis_frame_witness:
  "llm_enabled (llm_status failingLlm) \<and> llm_enabled (llm_status answeringLlm) \<and>
   \<not> llm_enabled (llm_status disabledLlm) \<and>
   trim (answerText (normalizeStructuredAnswer sampleAnswer)) \<noteq> [] \<and>
   out_answer (maybeSynthesizeStructuredAnswerWithLLM disabledLlm sampleAnswer ''Who?'' None) = sampleAnswer \<and>
   answerText (out_answer (maybeSynthesizeStructuredAnswerWithLLM failingLlm sampleAnswer ''Who?'' None)) = ''KG answer'' \<and>
   str_includes (reasoningNotes (out_answer (maybeSynthesizeStructuredAnswerWithLLM failingLlm sampleAnswer ''Who?'' None)))
     (fallbackNote ''gpt-4.1-mini'' ''OpenAI request timed out after 15000ms'') \<and>
   evidenceRefs (out_answer (maybeSynthesizeStructuredAnswerWithLLM answeringLlm sampleAnswer ''Who?'' None)) =
     [''scene:scene_0008''] \<and>
   answerText (out_answer (maybeSynthesizeStructuredAnswerWithLLM answeringLlm sampleAnswer ''Who?'' None)) =
     ''LLM-assisted (structured evidence preserved)'' @ nl @ ''Frank Sheeran works with Jimmy Hoffa.'' \<and>
   str_includes (reasoningNotes (out_answer (maybeSynthesizeStructuredAnswerWithLLM answeringLlm sampleAnswer ''Who?'' None)))
     (assistedNote ''gpt-4.1-mini'' None (Some ''resp_1''))"
proof -
  have e: "llm_enabled (llm_status failingLlm)" "llm_enabled (llm_status answeringLlm)"
      "\<not> llm_enabled (llm_status disabledLlm)"
    by (simp_all add: failingLlm_def answeringLlm_def disabledLlm_def)
  have t: "trim ''KG answer'' = ''KG answer''" "answerText sampleAnswer = ''KG answer''"
      "evidenceRefs sampleAnswer = [''scene:scene_0008'']"
    by (simp_all add: sampleAnswer_def trim_def is_ws_def)
  have g: "llm_generate failingLlm s u = GenFailed ''OpenAI request timed out after 15000ms'' ''gpt-4.1-mini''"
      "llm_generate answeringLlm s u = GenOk ''Frank Sheeran works with Jimmy Hoffa.'' ''gpt-4.1-mini'' (Some ''resp_1'')"
    for s u
    by (simp_all add: failingLlm_def answeringLlm_def)
  have r: "trim (truncateText ''Frank Sheeran works with Jimmy Hoffa.'' 8000) = ''Frank Sheeran works with Jimmy Hoffa.''"
    by (simp add: truncateText_def trim_def is_ws_def)
  have m: "\<not> match_ci assistedPrefix ''Frank Sheeran works with Jimmy Hoffa.''"
    by (simp add: match_ci_def assistedPrefix_def lower_char_def is_upper_def)
  have f: "answerText (out_answer (maybeSynthesizeStructuredAnswerWithLLM failingLlm sampleAnswer ''Who?'' None)) = ''KG answer'' \<and>
      str_includes (reasoningNotes (out_answer (maybeSynthesizeStructuredAnswerWithLLM failingLlm sampleAnswer ''Who?'' None)))
        (fallbackNote ''gpt-4.1-mini'' ''OpenAI request timed out after 15000ms'')"
    using synthesis_frame [of failingLlm sampleAnswer "''Who?''" None]
    by (simp add: sampleAnswer_normalized e t g del: str_includes.simps)
  have d: "out_answer (maybeSynthesizeStructuredAnswerWithLLM disabledLlm sampleAnswer ''Who?'' None) = sampleAnswer"
    using synthesis_frame [of disabledLlm sampleAnswer "''Who?''" None]
    by (simp add: sampleAnswer_normalized e)
  have o: "evidenceRefs (out_answer (maybeSynthesizeStructuredAnswerWithLLM answeringLlm sampleAnswer ''Who?'' None)) =
        [''scene:scene_0008''] \<and>
      answerText (out_answer (maybeSynthesizeStructuredAnswerWithLLM answeringLlm sampleAnswer ''Who?'' None)) =
        ''LLM-assisted (structured evidence preserved)'' @ nl @ ''Frank Sheeran works with Jimmy Hoffa.'' \<and>
      str_includes (reasoningNotes (out_answer (maybeSynthesizeStructuredAnswerWithLLM answeringLlm sampleAnswer ''Who?'' None)))
        (assistedNote ''gpt-4.1-mini'' None (Some ''resp_1''))"
    using synthesis_frame [of answeringLlm sampleAnswer "''Who?''" None]
    by (simp add: sampleAnswer_normalized e t g r m ensureAssistedLabel_def Let_def del: str_includes.simps)
  have n: "trim (answerText (normalizeStructuredAnswer sampleAnswer)) \<noteq> []"
    by (simp add: sampleAnswer_normalized t)
  show ?thesis
    using e n d f o by blast
qed

text \<open>
  Claim C1. Every answer that the query service returns satisfies the evidence invariant:
  if \<open>eventsUsed\<close> or \<open>stateChangesUsed\<close> is not empty and \<open>evidenceRefs\<close> is empty, then
  \<open>reasoningNotes\<close> contains the evidence warning. This holds of the main answer and of the
  baseline comparison of \<open>answerQueryRequest\<close>, and of the answer of \<open>answerBaselineOnly\<close>;
  the functions are total, so that no answer is rejected.
\<close>

theorem evidence_invariant_of_every_answer:
  "evidenceInvariant (resp_answer (answerQueryRequest w req)) \<and>
   (case resp_baselineComparison (answerQueryRequest w req) of
      None \<Rightarrow> True | Some b \<Rightarrow> evidenceInvariant b) \<and>
   evidenceInvariant (resp_answer (answerBaselineOnly w q inc))"
  using main_answer_invariant [of w req] baseline_comparison_invariant [of w req]
    baseline_only_invariant [of w q inc]
  by (simp split: option.split)

theorem evidence_invariant_of_every_answer_witness:
  "eventsUsed (resp_answer (answerQueryRequest sampleWorld timelineRequest)) = [''evt_000123''] \<and>
   evidenceRefs (resp_answer (answerQueryRequest sampleWorld timelineRequest)) = [] \<and>
   str_includes (reasoningNotes (resp_answer (answerQueryRequest sampleWorld timelineRequest))) evidenceWarning"
proof -
  have m: "route_modeUsed (requestRoute sampleWorld timelineRequest) = Ntg"
    by (simp add: requestRoute_modeUsed timelineRequest_def timeline_question)
  have c: "ctx_queryType (requestContext sampleWorld timelineRequest) = Timeline"
    by (simp add: requestContext_fields requestRoute_queryType timelineRequest_def timeline_question)
  have u: "uniqueStrings [''evt_000123''] = [''evt_000123'']"
    by (simp add: uniqueStrings_def trim_def is_ws_def)
  have n: "w_ntg sampleWorld = sampleNtg" by (simp add: sampleWorld_def)
  have e: "eventsUsed (resp_answer (answerQueryRequest sampleWorld timelineRequest)) = [''evt_000123'']"
    by (simp add: answerQueryRequest_main Let_def synth_finish_fields m sample_timeline_events [OF c] u n)
  have r: "evidenceRefs (resp_answer (answerQueryRequest sampleWorld timelineRequest)) = []"
    by (simp add: answerQueryRequest_main Let_def timelineRequest_def)
  show ?thesis
    using evidence_invariant_of_every_answer [of sampleWorld timelineRequest]
    by (simp add: evidenceInvariant_def e r del: str_includes.simps)
qed

text \<open>
  Claim C2, as stated: the baseline comparison of the response is not null whenever the
  request asks for it or the query type is comparison. It fails when the mode used is
  \<open>baseline_rag\<close>: the main answer is then the baseline answer, and the comparison is null
  although the request asks for it.
\<close>

theorem baseline_comparison_null_in_baseline_mode:
  "trim (req_question baselineRequest) \<noteq> [] \<and>
   req_includeBaselineComparison baselineRequest \<and>
   resp_baselineComparison (answerQueryRequest sampleWorld baselineRequest) = None"
proof -
  have a: "req_includeBaselineComparison baselineRequest" "req_preferredMode baselineRequest = PrefBaselineRag"
      "trim (req_question baselineRequest) \<noteq> []"
    by (simp_all add: baselineRequest_def trim_def is_ws_def)
  show ?thesis
    using a by (simp add: answerQueryRequest_baseline requestRoute_baseline_mode)
qed

text \<open>
  Claim C2, amended. The baseline comparison of the response is not null exactly when the
  request asks for it or the query type is comparison, and the preferred mode is neither
  \<open>baseline_rag\<close> nor its alias \<open>baseline\<close>, that is, the mode used is not \<open>baseline_rag\<close>.
\<close>

theorem baseline_comparison_exactly_when:
  "resp_baselineComparison (answerQueryRequest w req) \<noteq> None \<longleftrightarrow>
     (req_includeBaselineComparison req \<or> classifyQueryType (req_question req) = Comparison) \<and>
     req_preferredMode req \<noteq> PrefBaselineRag \<and> req_preferredMode req \<noteq> PrefBaseline"
  by (simp add: answerQueryRequest_baseline requestRoute_baseline_mode requestRoute_queryType)

theorem baseline_comparison_exactly_when_witness:
  "req_includeBaselineComparison timelineRequest \<and>
   req_preferredMode timelineRequest \<noteq> PrefBaselineRag \<and> req_preferredMode timelineRequest \<noteq> PrefBaseline \<and>
   resp_baselineComparison (answerQueryRequest sampleWorld timelineRequest) \<noteq> None"
proof -
  have a: "req_includeBaselineComparison timelineRequest" "req_preferredMode timelineRequest = Auto"
    by (simp_all add: timelineRequest_def)
  show ?thesis
    using baseline_comparison_exactly_when [of sampleWorld timelineRequest] by (simp add: a)
qed

text \<open>
  Claim C10, as stated: for a request with \<open>includeEvidence\<close> false, no field of the answer
  other than \<open>evidenceRefs\<close> and \<open>reasoningNotes\<close> differs from the answer for the same request
  with \<open>includeEvidence\<close> true. It fails for the answer text in hybrid mode: the hybrid
  builder writes the reasoning notes of the two builders into its text, and these notes
  carry the note of the omitted evidence.
\<close>

theorem omitted_evidence_changes_hybrid_text:
  "\<not> req_includeEvidence causalRequest \<and>
   answerText (resp_answer (answerQueryRequest sampleWorld causalRequest)) \<noteq>
   answerText (resp_answer (answerQueryRequest sampleWorld (causalRequest\<lparr> req_includeEvidence := True \<rparr>)))"
proof -
  have a: "\<not> req_includeEvidence causalRequest" by (simp add: causalRequest_def)
  have l: "\<not> llm_enabled (llm_status (w_llm sampleWorld))"
    by (simp add: sampleWorld_def disabledLlm_def)
  have w: "w_localeCompare sampleWorld = codeUnitCompare" "w_kg sampleWorld = sampleKg"
      "w_ntg sampleWorld = sampleNtg"
    by (simp_all add: sampleWorld_def)
  have 1: "answerText (resp_answer (answerQueryRequest sampleWorld causalRequest)) =
      trim (answerText (buildHybridAnswer codeUnitCompare sampleKg sampleNtg
        (requestContext sampleWorld causalRequest)))"
    unfolding resp_without_evidence [OF a]
    by (simp add: synth_skipped l normalize_finishAnswer_lists finishAnswer_fields causal_route w)
  have 2: "answerText (resp_answer (answerQueryRequest sampleWorld (causalRequest\<lparr> req_includeEvidence := True \<rparr>))) =
      trim (answerText (buildHybridAnswer codeUnitCompare sampleKg sampleNtg
        ((requestContext sampleWorld causalRequest)\<lparr> ctx_includeEvidence := True \<rparr>)))"
    unfolding resp_with_evidence
    by (simp add: synth_skipped l normalize_finishAnswer_lists finishAnswer_fields causal_route w)
  show ?thesis
    unfolding 1 2 causal_hybrid_text_with_evidence causal_hybrid_text_without_evidence
    using a by (simp add: trim_def is_ws_def nl_def)
qed

text \<open>
  Claim C10, amended. For a request with \<open>includeEvidence\<close> false, the main answer and the
  baseline comparison have an empty \<open>evidenceRefs\<close> and \<open>reasoningNotes\<close> containing the note
  of the omitted evidence. The question, the mode, the query type, the confidence and the
  three lists of identifiers are those of the response for the same request with
  \<open>includeEvidence\<close> true, and the baseline comparison is null in one exactly when it is in
  the other, with the same answer text. The text of the main answer is the same when the
  synthesis layer is not enabled and the answer is not a hybrid answer for a query type
  other than comparison.
\<close>

theorem evidence_omitted_frame:
  assumes "\<not> req_includeEvidence req"
  shows
  "evidenceRefs (resp_answer (answerQueryRequest w req)) = [] \<and>
   str_includes (reasoningNotes (resp_answer (answerQueryRequest w req))) evidenceOmittedNote \<and>
   resp_question (answerQueryRequest w req) =
     resp_question (answerQueryRequest w (req\<lparr> req_includeEvidence := True \<rparr>)) \<and>
   modeUsed (resp_answer (answerQueryRequest w req)) =
     modeUsed (resp_answer (answerQueryRequest w (req\<lparr> req_includeEvidence := True \<rparr>))) \<and>
   queryType (resp_answer (answerQueryRequest w req)) =
     queryType (resp_answer (answerQueryRequest w (req\<lparr> req_includeEvidence := True \<rparr>))) \<and>
   confidence (resp_answer (answerQueryRequest w req)) =
     confidence (resp_answer (answerQueryRequest w (req\<lparr> req_includeEvidence := True \<rparr>))) \<and>
   entitiesUsed (resp_answer (answerQueryRequest w req)) =
     entitiesUsed (resp_answer (answerQueryRequest w (req\<lparr> req_includeEvidence := True \<rparr>))) \<and>
   eventsUsed (resp_answer (answerQueryRequest w req)) =
     eventsUsed (resp_answer (answerQueryRequest w (req\<lparr> req_includeEvidence := True \<rparr>))) \<and>
   stateChangesUsed (resp_answer (answerQueryRequest w req)) =
     stateChangesUsed (resp_answer (answerQueryRequest w (req\<lparr> req_includeEvidence := True \<rparr>))) \<and>
   (\<not> llm_enabled (llm_status (w_llm w)) \<and>
    (route_modeUsed (requestRoute w req) \<noteq> Hybrid \<or> classifyQueryType (req_question req) = Comparison) \<longrightarrow>
      answerText (resp_answer (answerQueryRequest w req)) =
        answerText (resp_answer (answerQueryRequest w (req\<lparr> req_includeEvidence := True \<rparr>)))) \<and>
   (case resp_baselineComparison (answerQueryRequest w req) of
      None \<Rightarrow> resp_baselineComparison (answerQueryRequest w (req\<lparr> req_includeEvidence := True \<rparr>)) = None
    | Some b \<Rightarrow>
        evidenceRefs b = [] \<and> str_includes (reasoningNotes b) evidenceOmittedNote \<and>
        (case resp_baselineComparison (answerQueryRequest w (req\<lparr> req_includeEvidence := True \<rparr>)) of
           None \<Rightarrow> False
         | Some b' \<Rightarrow>
             answerText b = answerText b' \<and> modeUsed b = modeUsed b' \<and> queryType b = queryType b' \<and>
             confidence b = confidence b' \<and> entitiesUsed b = entitiesUsed b' \<and>
             eventsUsed b = eventsUsed b' \<and> stateChangesUsed b = stateChangesUsed b'))"
  using main_omitted [OF assms, of w] main_frame [OF assms, of w] main_text_frame [OF assms, of w]
    baseline_frame [OF assms, of w]
  by (simp add: answerQueryRequest_question del: str_includes.simps)

theorem evidence_omitted_frame_witness:
  "\<not> req_includeEvidence timelineRequest \<and>
   \<not> llm_enabled (llm_status (w_llm sampleWorld)) \<and>
   route_modeUsed (requestRoute sampleWorld timelineRequest) \<noteq> Hybrid \<and>
   evidenceRefs (resp_answer (answerQueryRequest sampleWorld timelineRequest)) = [] \<and>
   str_includes (reasoningNotes (resp_answer (answerQueryRequest sampleWorld timelineRequest)))
     evidenceOmittedNote \<and>
   eventsUsed (resp_answer (answerQueryRequest sampleWorld
      (timelineRequest\<lparr> req_includeEvidence := True \<rparr>))) = [''evt_000123''] \<and>
   answerText (resp_answer (answerQueryRequest sampleWorld timelineRequest)) =
     answerText (resp_answer (answerQueryRequest sampleWorld
       (timelineRequest\<lparr> req_includeEvidence := True \<rparr>)))"
proof -
  have a: "\<not> req_includeEvidence timelineRequest" by (simp add: timelineRequest_def)
  have l: "\<not> llm_enabled (llm_status (w_llm sampleWorld))"
    by (simp add: sampleWorld_def disabledLlm_def)
  have m: "route_modeUsed (requestRoute sampleWorld timelineRequest) = Ntg"
    by (simp add: requestRoute_modeUsed timelineRequest_def timeline_question)
  have c: "ctx_queryType (requestContext sampleWorld timelineRequest) = Timeline"
    by (simp add: requestContext_fields requestRoute_queryType timelineRequest_def timeline_question)
  have u: "uniqueStrings [''evt_000123''] = [''evt_000123'']"
    by (simp add: uniqueStrings_def trim_def is_ws_def)
  have n: "w_ntg sampleWorld = sampleNtg" by (simp add: sampleWorld_def)
  have e: "eventsUsed (resp_answer (answerQueryRequest sampleWorld timelineRequest)) = [''evt_000123'']"
    by (simp add: answerQueryRequest_main Let_def synth_finish_fields m sample_timeline_events [OF c] u n)
  show ?thesis
    using evidence_omitted_frame [OF a, of sampleWorld] a l m e
    by (simp del: str_includes.simps)
qed

text \<open>
  Claim C4. For every question and every lexicon, the mentions that
  \<open>detectEntitiesInQuestion\<close> returns have pairwise disjoint spans and pairwise different
  entities, and are ordered by start index. Each of them is a hit of the scan, the leftmost
  of the hits of its entity, and it stands where a phrase of its entity first occurs in
  the normalized question; every entity that has a hit has a mention.
\<close>

theorem detected_mentions:
  "(let ms = detectEntitiesInQuestion lc entries question;
        q = normalizeText question;
        hits = acceptedHits entries question
    in (\<forall>i j. i < j \<and> j < length ms \<longrightarrow> spans_disjoint (ms ! i) (ms ! j)) \<and>
       distinct (map m_entityId ms) \<and>
       sorted (map m_startIndex ms) \<and>
       (\<forall>m \<in> set ms. m \<in> set hits \<and>
          (\<forall>h \<in> set hits. m_entityId h = m_entityId m \<longrightarrow> m_startIndex m \<le> m_startIndex h) \<and>
          (\<exists>e \<in> set entries. hitOf q e m)) \<and>
       (\<forall>h \<in> set hits. m_entityId h \<in> m_entityId ` set ms))"
proof -
  let ?hits = "acceptedHits entries question"
  let ?sorted = "sortBy (hitCompare lc) ?hits"
  let ?ms = "dedupe_loop ?sorted {} []"
  have sub: "set ?ms \<subseteq> set ?hits"
    using dedupe_loop_set [of ?sorted "{}"] by (simp add: sortBy_set)
  have d: "distinct (map m_entityId ?ms)" by (rule dedupe_loop_distinct)
  have s: "sorted (map m_startIndex ?ms)"
    by (rule dedupe_loop_sorted) (rule sortBy_hit_sorted)
  have a: "spans_disjoint (?ms ! i) (?ms ! j)" if "i < j" "j < length ?ms" for i j
  proof -
    from that d have "m_entityId (?ms ! i) \<noteq> m_entityId (?ms ! j)"
      by (simp add: distinct_conv_nth)
    then have "?ms ! i \<noteq> ?ms ! j" by auto
    moreover from that sub have "?ms ! i \<in> set ?hits" "?ms ! j \<in> set ?hits" by auto
    ultimately show ?thesis
      using sorted_wrt_spans_disjoint [OF acceptedHits_facts(1)] by blast
  qed
  have l: "m_startIndex m \<le> m_startIndex h"
    if "m \<in> set ?ms" "h \<in> set ?hits" "m_entityId h = m_entityId m" for m h
    using dedupe_loop_leftmost [OF sortBy_hit_sorted that(1)] that(2,3) by (simp add: sortBy_set)
  have c: "m_entityId h \<in> m_entityId ` set ?ms" if "h \<in> set ?hits" for h
    using dedupe_loop_covers [of h ?sorted "{}"] that by (simp add: sortBy_set)
  have e: "\<exists>e \<in> set entries. hitOf (normalizeText question) e m" if "m \<in> set ?ms" for m
    using that sub acceptedHits_facts(2) by blast
  show ?thesis
    unfolding detectEntitiesInQuestion_hits Let_def
    using a d s l c e sub by blast
qed

theorem detected_mentions_witness:
  "detectEntitiesInQuestion codeUnitCompare sampleLexicon
      ''Frank met Hoffa; later Frank Sheeran called Jimmy Hoffa'' = [frankHint, hoffaHint] \<and>
   acceptedHits sampleLexicon ''Frank met Hoffa; later Frank Sheeran called Jimmy Hoffa'' =
     [frankFull, hoffaFull, frankHint, hoffaHint] \<and>
   spans_disjoint frankHint hoffaHint \<and>
   m_entityId frankFull = m_entityId frankHint \<and>
   m_startIndex frankHint \<le> m_startIndex frankFull \<and>
   (\<exists>e \<in> set sampleLexicon.
      hitOf (normalizeText ''Frank met Hoffa; later Frank Sheeran called Jimmy Hoffa'') e hoffaHint)"
proof -
  let ?q = "''Frank met Hoffa; later Frank Sheeran called Jimmy Hoffa''"
  note all = detected_mentions [of codeUnitCompare sampleLexicon ?q,
      unfolded twice_named_mentions twice_named_hits Let_def]
  have e: "m_entityId frankFull = m_entityId frankHint"
    by (simp add: frankFull_def frankHint_def)
  from all have "\<forall>i j. i < j \<and> j < length [frankHint, hoffaHint] \<longrightarrow>
      spans_disjoint ([frankHint, hoffaHint] ! i) ([frankHint, hoffaHint] ! j)"
    by (rule conjunct1)
  from this [rule_format, of 0 1] have a: "spans_disjoint frankHint hoffaHint" by simp
  from all have each: "\<forall>m \<in> set [frankHint, hoffaHint].
      m \<in> set [frankFull, hoffaFull, frankHint, hoffaHint] \<and>
      (\<forall>h \<in> set [frankFull, hoffaFull, frankHint, hoffaHint].
         m_entityId h = m_entityId m \<longrightarrow> m_startIndex m \<le> m_startIndex h) \<and>
      (\<exists>e \<in> set sampleLexicon. hitOf (normalizeText ?q) e m)"
    by (elim conjE)
  from each have "\<forall>h \<in> set [frankFull, hoffaFull, frankHint, hoffaHint].
      m_entityId h = m_entityId frankHint \<longrightarrow> m_startIndex frankHint \<le> m_startIndex h"
    by simp
  with e have l: "m_startIndex frankHint \<le> m_startIndex frankFull" by simp
  from each have h: "\<exists>e \<in> set sampleLexicon. hitOf (normalizeText ?q) e hoffaHint"
    by simp
  show ?thesis
    using a e l h by (simp only: twice_named_mentions twice_named_hits simp_thms)
qed

end
